theory Spec2Isabelle
  imports Complex_Main "HOL-Library.AList"
begin

section \<open>Data model: cells, rows, data frames\<close>

text \<open>
  The report generator of \<^verbatim>\<open>src/visualization/plots.py\<close> works on pandas data frames.
  A cell is a missing value, a number or a string; Python floats are modelled by the
  reals, so every arithmetic identity below is exact where the program's is exact up to
  rounding.  A row is an association list from column names to cells (a column a row
  does not mention reads as missing), a data frame is its list of column names and its
  list of rows.
\<close>

datatype cell = NaN | Num real | Str string

type_synonym row = "(string \<times> cell) list"

record dataframe =
  columns :: "string list"
  rows :: "row list"

definition cell_at :: "row \<Rightarrow> string \<Rightarrow> cell" where
  "cell_at r c = (case map_of r c of Some v \<Rightarrow> v | None \<Rightarrow> NaN)"

definition column :: "dataframe \<Rightarrow> string \<Rightarrow> cell list" where
  "column df c = map (\<lambda>r. cell_at r c) (rows df)"

fun is_str :: "cell \<Rightarrow> bool" where
  "is_str (Str s) = True"
| "is_str v = False"

text \<open>The numbers of a column, missing values skipped (pandas reductions skip them).\<close>

fun nums :: "cell list \<Rightarrow> real list" where
  "nums [] = []"
| "nums (Num x # vs) = x # nums vs"
| "nums (v # vs) = nums vs"

text \<open>\<^verbatim>\<open>df.empty\<close>: an axis of length zero.\<close>

definition df_empty :: "dataframe \<Rightarrow> bool" where
  "df_empty df = (rows df = [] \<or> columns df = [])"

text \<open>\<^verbatim>\<open>all(col in df.columns for col in required_cols)\<close>\<close>

definition has_columns :: "dataframe \<Rightarrow> string list \<Rightarrow> bool" where
  "has_columns df cs = list_all (\<lambda>c. c \<in> set (columns df)) cs"

text \<open>\<^verbatim>\<open>df.dropna(subset=cs)\<close>: the rows with a value in every column of \<open>cs\<close>.\<close>

definition keeps :: "string list \<Rightarrow> row \<Rightarrow> bool" where
  "keeps cs r = list_all (\<lambda>c. cell_at r c \<noteq> NaN) cs"

definition dropna :: "string list \<Rightarrow> dataframe \<Rightarrow> dataframe" where
  "dropna cs df = df\<lparr>rows := filter (keeps cs) (rows df)\<rparr>"

text \<open>\<^verbatim>\<open>Series.unique()\<close>: the distinct values in order of first appearance.\<close>

definition unique :: "'a list \<Rightarrow> 'a list" where
  "unique xs = rev (remdups (rev xs))"

text \<open>
  \<^verbatim>\<open>grouped[name] = ...\<close>: a column assignment replaces the column where it exists and
  appends it otherwise.
\<close>

definition set_column :: "string \<Rightarrow> (row \<Rightarrow> cell) \<Rightarrow> dataframe \<Rightarrow> dataframe" where
  "set_column c f df =
     \<lparr>columns = (if c \<in> set (columns df) then columns df else columns df @ [c]),
      rows = map (\<lambda>r. AList.update c (f r) r) (rows df)\<rparr>"

text \<open>Arithmetic on statistics cells: a missing operand gives a missing result.\<close>

fun cell_sub :: "cell \<Rightarrow> cell \<Rightarrow> cell" where
  "cell_sub (Num a) (Num b) = Num (a - b)"
| "cell_sub u v = NaN"

fun cell_add :: "cell \<Rightarrow> cell \<Rightarrow> cell" where
  "cell_add (Num a) (Num b) = Num (a + b)"
| "cell_add u v = NaN"

section \<open>Strings\<close>

definition quoted :: "string \<Rightarrow> string" where
  "quoted s = CHR 0x27 # s @ [CHR 0x27]"

fun join_with :: "string \<Rightarrow> string list \<Rightarrow> string" where
  "join_with sep [] = []"
| "join_with sep [s] = s"
| "join_with sep (s # t # ss) = s @ sep @ join_with sep (t # ss)"

text \<open>How an f-string prints a list of column names.\<close>

definition py_list_repr :: "string list \<Rightarrow> string" where
  "py_list_repr ss = ''['' @ join_with '', '' (map quoted ss) @ '']''"

definition upper_of :: "char \<Rightarrow> char" where
  "upper_of c = (case map_of (zip ''abcdefghijklmnopqrstuvwxyz'' ''ABCDEFGHIJKLMNOPQRSTUVWXYZ'') c
                 of Some u \<Rightarrow> u | None \<Rightarrow> c)"

definition lower_of :: "char \<Rightarrow> char" where
  "lower_of c = (case map_of (zip ''ABCDEFGHIJKLMNOPQRSTUVWXYZ'' ''abcdefghijklmnopqrstuvwxyz'') c
                 of Some l \<Rightarrow> l | None \<Rightarrow> c)"

definition is_letter :: "char \<Rightarrow> bool" where
  "is_letter c = (c \<in> set ''abcdefghijklmnopqrstuvwxyzABCDEFGHIJKLMNOPQRSTUVWXYZ'')"

text \<open>\<^verbatim>\<open>str.title()\<close> on ASCII: a letter after a letter is lowered, any other letter raised.\<close>

fun title_from :: "bool \<Rightarrow> string \<Rightarrow> string" where
  "title_from prev [] = []"
| "title_from prev (c # cs) =
     (if is_letter c then (if prev then lower_of c else upper_of c) # title_from True cs
      else c # title_from False cs)"

definition title_case :: "string \<Rightarrow> string" where
  "title_case s = title_from False s"

text \<open>\<^verbatim>\<open>s.replace('_', ' ')\<close>\<close>

definition spaced :: "string \<Rightarrow> string" where
  "spaced s = map (\<lambda>c. if c = CHR ''_'' then CHR '' '' else c) s"

text \<open>\<^verbatim>\<open>p in s\<close> for strings.\<close>

fun starts_with :: "string \<Rightarrow> string \<Rightarrow> bool" where
  "starts_with [] s = True"
| "starts_with (a # p) [] = False"
| "starts_with (a # p) (b # s) = (a = b \<and> starts_with p s)"

fun contains :: "string \<Rightarrow> string \<Rightarrow> bool" where
  "contains p [] = (p = [])"
| "contains p (c # s) = (starts_with p (c # s) \<or> contains p s)"

text \<open>\<^verbatim>\<open>os.path.join(a, b)\<close> on POSIX.\<close>

definition path_join :: "string \<Rightarrow> string \<Rightarrow> string" where
  "path_join a b =
     (if b \<noteq> [] \<and> hd b = CHR ''/'' then b
      else if a = [] \<or> last a = CHR ''/'' then a @ b
      else a @ ''/'' @ b)"

section \<open>Statistics\<close>

definition mean_of :: "real list \<Rightarrow> cell" where
  "mean_of xs = (if xs = [] then NaN else Num (sum_list xs / real (length xs)))"

text \<open>The sample variance and standard deviation (\<^verbatim>\<open>ddof=1\<close>): undefined below two values.\<close>

definition variance :: "real list \<Rightarrow> real" where
  "variance xs =
     (let m = sum_list xs / real (length xs)
      in sum_list (map (\<lambda>x. (x - m)\<^sup>2) xs) / real (length xs - 1))"

definition std_of :: "real list \<Rightarrow> cell" where
  "std_of xs = (if length xs < 2 then NaN else Num (sqrt (variance xs)))"

definition median_of :: "real list \<Rightarrow> cell" where
  "median_of xs =
     (let s = sort xs; n = length xs
      in if n = 0 then NaN
         else if odd n then Num (s ! (n div 2))
         else Num ((s ! (n div 2 - 1) + s ! (n div 2)) / 2))"

definition count_of :: "real list \<Rightarrow> cell" where
  "count_of xs = Num (real (length xs))"

definition min_of :: "real list \<Rightarrow> cell" where
  "min_of xs = (case xs of [] \<Rightarrow> NaN | x # ys \<Rightarrow> Num (fold min ys x))"

definition max_of :: "real list \<Rightarrow> cell" where
  "max_of xs = (case xs of [] \<Rightarrow> NaN | x # ys \<Rightarrow> Num (fold max ys x))"

text \<open>The aggregation functions the views name in \<^verbatim>\<open>.agg([...])\<close>.\<close>

definition agg_stat :: "string \<Rightarrow> real list \<Rightarrow> cell" where
  "agg_stat name xs =
     (if name = ''mean'' then mean_of xs
      else if name = ''std'' then std_of xs
      else if name = ''median'' then median_of xs
      else if name = ''count'' then count_of xs
      else if name = ''min'' then min_of xs
      else if name = ''max'' then max_of xs
      else NaN)"

section \<open>Grouping\<close>

text \<open>
  Group keys are sorted (\<^verbatim>\<open>groupby\<close> sorts by default): numbers before strings, numbers
  by value, strings by code point, key tuples lexicographically.
\<close>

fun str_le :: "string \<Rightarrow> string \<Rightarrow> bool" where
  "str_le [] t = True"
| "str_le (a # s) [] = False"
| "str_le (a # s) (b # t) =
     ((of_char a :: nat) < of_char b \<or> (a = b \<and> str_le s t))"

fun cell_le :: "cell \<Rightarrow> cell \<Rightarrow> bool" where
  "cell_le NaN v = True"
| "cell_le (Num a) NaN = False"
| "cell_le (Num a) (Num b) = (a \<le> b)"
| "cell_le (Num a) (Str t) = True"
| "cell_le (Str s) (Str t) = str_le s t"
| "cell_le (Str s) v = False"

fun key_le :: "cell list \<Rightarrow> cell list \<Rightarrow> bool" where
  "key_le [] l = True"
| "key_le (a # k) [] = False"
| "key_le (a # k) (b # l) = (if a = b then key_le k l else cell_le a b)"

fun insort_key :: "cell list \<Rightarrow> cell list list \<Rightarrow> cell list list" where
  "insort_key k [] = [k]"
| "insort_key k (l # ls) = (if key_le k l then k # l # ls else l # insort_key k ls)"

definition sort_keys :: "cell list list \<Rightarrow> cell list list" where
  "sort_keys ks = foldr insort_key ks []"

definition key_of :: "string list \<Rightarrow> row \<Rightarrow> cell list" where
  "key_of ks r = map (cell_at r) ks"

text \<open>The groups of \<^verbatim>\<open>df.groupby(ks)\<close>: rows with a missing key belong to no group.\<close>

definition group_keys :: "string list \<Rightarrow> dataframe \<Rightarrow> cell list list" where
  "group_keys ks df = sort_keys (unique (map (key_of ks) (filter (keeps ks) (rows df))))"

definition group_values :: "string list \<Rightarrow> cell list \<Rightarrow> string \<Rightarrow> dataframe \<Rightarrow> cell list" where
  "group_values ks k c df = map (\<lambda>r. cell_at r c) (filter (\<lambda>r. key_of ks r = k) (rows df))"

text \<open>
  \<^verbatim>\<open>df.groupby(ks)[c].agg(stats).reset_index()\<close> for a column \<open>c\<close> of numbers: one row
  per group, key columns first.  (On a column holding strings the aggregation raises; the
  views test that before they call this.)
\<close>

definition groupby_agg :: "string list \<Rightarrow> string \<Rightarrow> string list \<Rightarrow> dataframe \<Rightarrow> dataframe" where
  "groupby_agg ks c stats df =
     \<lparr>columns = ks @ stats,
      rows = map (\<lambda>k. zip ks k @ map (\<lambda>s. (s, agg_stat s (nums (group_values ks k c df)))) stats)
                 (group_keys ks df)\<rparr>"

definition holds_strings :: "dataframe \<Rightarrow> string \<Rightarrow> bool" where
  "holds_strings df c = list_ex is_str (column df c)"

text \<open>
  \<^verbatim>\<open>g.set_index(ks).reindex(idx).reset_index()\<close>: one row per key of \<open>idx\<close>, in the
  order of \<open>idx\<close>; the row of \<open>g\<close> with that key where there is one, missing values in
  every other column where there is none.
\<close>

definition reindex :: "string list \<Rightarrow> cell list list \<Rightarrow> dataframe \<Rightarrow> dataframe" where
  "reindex ks idx g =
     (let others = filter (\<lambda>c. c \<notin> set ks) (columns g)
      in \<lparr>columns = ks @ others,
          rows = map (\<lambda>k. zip ks k @
                        (case find (\<lambda>r. key_of ks r = k) (rows g) of
                           Some r \<Rightarrow> map (\<lambda>c. (c, cell_at r c)) others
                         | None \<Rightarrow> map (\<lambda>c. (c, NaN)) others)) idx\<rparr>)"

text \<open>\<^verbatim>\<open>pd.MultiIndex.from_product([xs, ys])\<close>\<close>

definition from_product :: "cell list \<Rightarrow> cell list \<Rightarrow> cell list list" where
  "from_product xs ys = concat (map (\<lambda>x. map (\<lambda>y. [x, y]) ys) xs)"

definition with_bounds :: "dataframe \<Rightarrow> dataframe" where
  "with_bounds g =
     set_column ''upper_bound'' (\<lambda>r. cell_add (cell_at r ''mean'') (cell_at r ''std''))
       (set_column ''lower_bound'' (\<lambda>r. cell_sub (cell_at r ''mean'') (cell_at r ''std'')) g)"

text \<open>\<^verbatim>\<open>df.groupby(ks)[c].mean().reset_index()\<close>\<close>

definition groupby_mean :: "string list \<Rightarrow> string \<Rightarrow> dataframe \<Rightarrow> dataframe" where
  "groupby_mean ks c df =
     \<lparr>columns = ks @ [c],
      rows = map (\<lambda>k. zip ks k @ [(c, mean_of (nums (group_values ks k c df)))])
                 (group_keys ks df)\<rparr>"

text \<open>\<^verbatim>\<open>Series.nunique()\<close>, \<^verbatim>\<open>df[df[c].isin(vs)]\<close>, \<^verbatim>\<open>df[cols]\<close>\<close>

definition nunique :: "cell list \<Rightarrow> nat" where
  "nunique vs = length (unique (filter (\<lambda>v. v \<noteq> NaN) vs))"

definition isin_rows :: "string \<Rightarrow> cell list \<Rightarrow> dataframe \<Rightarrow> dataframe" where
  "isin_rows c vs df = df\<lparr>rows := filter (\<lambda>r. cell_at r c \<in> set vs) (rows df)\<rparr>"

definition select_columns :: "string list \<Rightarrow> dataframe \<Rightarrow> dataframe" where
  "select_columns cs df =
     \<lparr>columns = cs, rows = map (\<lambda>r. map (\<lambda>c. (c, cell_at r c)) cs) (rows df)\<rparr>"

section \<open>What seaborn draws for a bar plot\<close>

text \<open>
  The categories of an axis: the \<^verbatim>\<open>order\<close> argument where it is given, otherwise the
  distinct values in order of appearance (sorted when they are all numbers).  A bar per
  hue level and category, as high as the mean of the values that fall there.
\<close>

definition categorical_order :: "cell list \<Rightarrow> cell list" where
  "categorical_order vs =
     (let u = unique (filter (\<lambda>v. v \<noteq> NaN) vs)
      in if list_all (\<lambda>v. \<not> is_str v) u then map Num (sort (nums u)) else u)"

definition x_categories :: "dataframe \<Rightarrow> string \<Rightarrow> string list option \<Rightarrow> cell list" where
  "x_categories data x ord =
     (case ord of Some os \<Rightarrow> map Str os | None \<Rightarrow> categorical_order (column data x))"

definition bar_heights ::
  "dataframe \<Rightarrow> string \<Rightarrow> string \<Rightarrow> string \<Rightarrow> string list option \<Rightarrow> cell list list" where
  "bar_heights data x y hue ord =
     map (\<lambda>h. map (\<lambda>c. mean_of (nums (map (\<lambda>r. cell_at r y)
                         (filter (\<lambda>r. cell_at r x = c \<and> cell_at r hue = h) (rows data)))))
                   (x_categories data x ord))
         (categorical_order (column data hue))"

section \<open>Sample points, correlation, pivots, week days\<close>

datatype error = TypeError | OSError | LinAlgError | ValueError | AttributeError

text \<open>\<^verbatim>\<open>np.linspace(a, b, n)\<close> for \<open>n \<ge> 2\<close>, and the least and greatest of a non-empty list.\<close>

definition linspace :: "real \<Rightarrow> real \<Rightarrow> nat \<Rightarrow> real list" where
  "linspace a b n = map (\<lambda>i. a + real i * ((b - a) / real (n - 1))) [0..<n]"

definition least :: "real list \<Rightarrow> real" where
  "least xs = fold min (tl xs) (hd xs)"

definition greatest :: "real list \<Rightarrow> real" where
  "greatest xs = fold max (tl xs) (hd xs)"

text \<open>A labelled matrix: what \<^verbatim>\<open>pivot_table\<close>, \<^verbatim>\<open>pivot\<close> and \<^verbatim>\<open>corr\<close> return.\<close>

record matrix =
  index_labels :: "cell list"
  column_labels :: "cell list"
  entries :: "cell list list"

definition pairs :: "string \<Rightarrow> string \<Rightarrow> dataframe \<Rightarrow> (real \<times> real) list" where
  "pairs a b df =
     concat (map (\<lambda>r. case (cell_at r a, cell_at r b) of
                         (Num x, Num y) \<Rightarrow> [(x, y)] | _ \<Rightarrow> []) (rows df))"

definition pearson :: "(real \<times> real) list \<Rightarrow> cell" where
  "pearson ps =
     (let n = real (length ps);
          mx = sum_list (map fst ps) / n;
          my = sum_list (map snd ps) / n;
          sxy = sum_list (map (\<lambda>(x, y). (x - mx) * (y - my)) ps);
          sxx = sum_list (map (\<lambda>(x, y). (x - mx)\<^sup>2) ps);
          syy = sum_list (map (\<lambda>(x, y). (y - my)\<^sup>2) ps)
      in if ps = [] \<or> sxx = 0 \<or> syy = 0 then NaN else Num (sxy / sqrt (sxx * syy)))"

definition corr_matrix :: "dataframe \<Rightarrow> matrix" where
  "corr_matrix df =
     \<lparr>index_labels = map Str (columns df), column_labels = map Str (columns df),
      entries = map (\<lambda>a. map (\<lambda>b. pearson (pairs a b df)) (columns df)) (columns df)\<rparr>"

definition sorted_values :: "string \<Rightarrow> dataframe \<Rightarrow> cell list" where
  "sorted_values c df = concat (group_keys [c] df)"

text \<open>\<^verbatim>\<open>df.pivot_table(index=i, columns=c, values=v, aggfunc="mean")\<close>\<close>

definition mean_pivot :: "string \<Rightarrow> string \<Rightarrow> string \<Rightarrow> dataframe \<Rightarrow> matrix" where
  "mean_pivot i c v df =
     \<lparr>index_labels = sorted_values i df, column_labels = sorted_values c df,
      entries = map (\<lambda>a. map (\<lambda>b. mean_of (nums (map (\<lambda>r. cell_at r v)
                         (filter (\<lambda>r. cell_at r i = a \<and> cell_at r c = b) (rows df)))))
                         (sorted_values c df)) (sorted_values i df)\<rparr>"

definition fillna0 :: "matrix \<Rightarrow> matrix" where
  "fillna0 m = m\<lparr>entries := map (map (\<lambda>v. if v = NaN then Num 0 else v)) (entries m)\<rparr>"

text \<open>
  \<^verbatim>\<open>df.groupby([c, i]).size().reset_index(name="count").pivot(index=i, columns=c,
  values="count").fillna(0)\<close>, then every column divided by its sum, times 100.
\<close>

definition count_pivot :: "string \<Rightarrow> string \<Rightarrow> dataframe \<Rightarrow> real list list" where
  "count_pivot i c df =
     map (\<lambda>a. map (\<lambda>b. real (length (filter (\<lambda>r. cell_at r i = a \<and> cell_at r c = b) (rows df))))
                   (sorted_values c df)) (sorted_values i df)"

definition percent_pivot :: "string \<Rightarrow> string \<Rightarrow> dataframe \<Rightarrow> matrix" where
  "percent_pivot i c df =
     (let counts = count_pivot i c df;
          totals = map (\<lambda>j. sum_list (map (\<lambda>row. row ! j) counts))
                     [0..<length (sorted_values c df)]
      in \<lparr>index_labels = sorted_values i df, column_labels = sorted_values c df,
          entries = map (\<lambda>row. map (\<lambda>(v, s). if s = 0 then NaN else Num (v / s * 100))
                                    (zip row totals)) counts\<rparr>)"

definition frame_matrix :: "dataframe \<Rightarrow> matrix" where
  "frame_matrix df =
     \<lparr>index_labels = map (\<lambda>i. Num (real i)) [0..<length (rows df)],
      column_labels = map Str (columns df),
      entries = map (\<lambda>r. map (cell_at r) (columns df)) (rows df)\<rparr>"

text \<open>
  \<^verbatim>\<open>Series.dt.day_name()\<close> of a time stamp in seconds since 1970-01-01, a Thursday.
\<close>

definition day_names :: "string list" where
  "day_names = [''Monday'', ''Tuesday'', ''Wednesday'', ''Thursday'', ''Friday'', ''Saturday'',
                ''Sunday'']"

definition day_name :: "int \<Rightarrow> string" where
  "day_name t = day_names ! nat ((t div 86400 + 3) mod 7)"

section \<open>The world: data-frame objects, figures, files, log\<close>

text \<open>
  Data frames are objects: the world keeps them in a store, a view receives the address
  of the caller's frame, and every pandas call that returns a new frame allocates one.
  pyplot keeps the open figures, the last one being current.  The file system maps a path
  to what was written there; a write to a path listed in \<open>unwritable\<close> raises.  The
  configuration module is not part of the sources and is a parameter.  An exception
  leaves the world as it was when it was raised.
\<close>

datatype level = INFO | WARNING | ERROR

datatype outcome = Returned | Raised error

datatype artist =
    Barplot dataframe string string string "string list option"
  | Countplot dataframe string string "string list"
  | Violinplot dataframe string string "string option"
  | Boxplot dataframe string string "string option"
  | Histplot dataframe string "string option" "nat option" bool
  | Histplot_values "cell list" nat bool "string option"
  | Lineplot dataframe string string string
  | Heatmap matrix string
  | Title string
  | Xlabel string
  | Ylabel string
  | Legend "string option"
  | Xticks_rotation nat
  | Tight_layout
  | Annotate real

datatype artifact = Image "artist list" | Text string dataframe

record config =
  FIGURES_DIR :: string
  REPORTS_DIR :: string
  NUMERICAL_FEATURES :: "string list"
  BOOLEAN_FEATURES :: "string list"

record world =
  heap :: "dataframe list"
  open_figs :: "(nat \<times> artist list) list"
  files :: "string \<rightharpoonup> artifact"
  unwritable :: "string list"
  logged :: "(level \<times> string) list"

type_synonym action = "world \<Rightarrow> outcome \<times> world"

definition seq :: "action \<Rightarrow> action \<Rightarrow> action" where
  "seq f g w = (case f w of (Returned, w') \<Rightarrow> g w' | (Raised e, w') \<Rightarrow> (Raised e, w'))"

definition frame :: "world \<Rightarrow> nat \<Rightarrow> dataframe" where
  "frame w a = heap w ! a"

definition new_frame :: "dataframe \<Rightarrow> world \<Rightarrow> nat \<times> world" where
  "new_frame d w = (length (heap w), w\<lparr>heap := heap w @ [d]\<rparr>)"

text \<open>An assignment into a frame changes the object at its address.\<close>

definition set_frame :: "nat \<Rightarrow> dataframe \<Rightarrow> world \<Rightarrow> world" where
  "set_frame a d w = w\<lparr>heap := (heap w)[a := d]\<rparr>"

definition log_msg :: "level \<Rightarrow> string \<Rightarrow> world \<Rightarrow> world" where
  "log_msg l m w = w\<lparr>logged := logged w @ [(l, m)]\<rparr>"

definition info :: "string \<Rightarrow> action" where
  "info m w = (Returned, log_msg INFO m w)"

definition write_file :: "string \<Rightarrow> artifact \<Rightarrow> action" where
  "write_file p c w =
     (if p \<in> set (unwritable w) then (Raised OSError, w)
      else (Returned, w\<lparr>files := (files w)(p \<mapsto> c)\<rparr>))"

text \<open>\<^verbatim>\<open>plt.figure()\<close>: a new figure, numbered above every open one, becomes current.\<close>

definition fresh_fig :: "(nat \<times> artist list) list \<Rightarrow> nat" where
  "fresh_fig fs = Suc (fold max (map fst fs) 0)"

definition plt_figure :: "world \<Rightarrow> nat \<times> world" where
  "plt_figure w =
     (let n = fresh_fig (open_figs w) in (n, w\<lparr>open_figs := open_figs w @ [(n, [])]\<rparr>))"

text \<open>A plotting call draws on the current figure (pyplot opens one if there is none).\<close>

definition draw :: "artist \<Rightarrow> world \<Rightarrow> world" where
  "draw a w =
     (if open_figs w = [] then w\<lparr>open_figs := [(1, [a])]\<rparr>
      else w\<lparr>open_figs := butlast (open_figs w)
                 @ [(fst (last (open_figs w)), snd (last (open_figs w)) @ [a])]\<rparr>)"

definition draw_all :: "artist list \<Rightarrow> world \<Rightarrow> world" where
  "draw_all as w = fold draw as w"

definition plt_close :: "nat \<Rightarrow> world \<Rightarrow> world" where
  "plt_close n w = w\<lparr>open_figs := filter (\<lambda>f. fst f \<noteq> n) (open_figs w)\<rparr>"

definition fig_content :: "world \<Rightarrow> nat \<Rightarrow> artist list" where
  "fig_content w n = (case map_of (open_figs w) n of Some c \<Rightarrow> c | None \<Rightarrow> [])"

section \<open>The two helpers\<close>

text \<open>
  \<^verbatim>\<open>save_plot\<close>: \<^verbatim>\<open>fig.savefig\<close>, then \<^verbatim>\<open>plt.close(fig)\<close>, then the info message.  There
  is no \<^verbatim>\<open>try\<close>: when the write raises, the close is not reached.
\<close>

definition save_plot :: "config \<Rightarrow> nat \<Rightarrow> string \<Rightarrow> action" where
  "save_plot cfg fig filename w =
     (let filepath = path_join (FIGURES_DIR cfg) filename
      in seq (write_file filepath (Image (fig_content w fig)))
             (\<lambda>w1. (Returned, log_msg INFO (''Plot saved to: '' @ filepath) (plt_close fig w1))) w)"

text \<open>
  \<^verbatim>\<open>_save_dataframe_as_text\<close>: the optional title, underlined, then the table as
  \<^verbatim>\<open>to_string(index=False)\<close> prints it (kept as the table itself).
\<close>

definition text_header :: "string \<Rightarrow> string" where
  "text_header title =
     (if title \<noteq> [] then title @ [CHR 0x0A] @ replicate (length title) CHR ''=''
                          @ [CHR 0x0A, CHR 0x0A]
      else [])"

definition save_dataframe_as_text :: "config \<Rightarrow> dataframe \<Rightarrow> string \<Rightarrow> string \<Rightarrow> action" where
  "save_dataframe_as_text cfg df filename title w =
     (let filepath = path_join (REPORTS_DIR cfg) filename
      in seq (write_file filepath (Text (text_header title) df))
             (info (''Table data saved to: '' @ filepath)) w)"

text \<open>\<^verbatim>\<open>df.dropna(subset=cs).copy()\<close>: two new frames, the second is the one the view keeps.\<close>

definition dropna_copy :: "string list \<Rightarrow> nat \<Rightarrow> world \<Rightarrow> nat \<times> world" where
  "dropna_copy cs a w =
     (let (b, w1) = new_frame (dropna cs (frame w a)) w
      in new_frame (frame w1 b) w1)"

text \<open>
  The tail of most views: \<^verbatim>\<open>fig = plt.figure(...)\<close>, the plotting calls, then
  \<^verbatim>\<open>save_plot(fig, filename)\<close>.  Plotting calls are recorded, not executed: figure
  size, palette and font size are left out.
\<close>

definition render :: "config \<Rightarrow> artist list \<Rightarrow> string \<Rightarrow> action" where
  "render cfg arts filename w =
     (let (fig, w1) = plt_figure w in save_plot cfg fig filename (draw_all arts w1))"

definition missing_columns_msg :: "string list \<Rightarrow> string \<Rightarrow> string" where
  "missing_columns_msg required_cols what =
     ''Missing one or more required columns ('' @ py_list_repr required_cols @ '') for ''
       @ what @ ''. Skipping.''"

text \<open>The value labels above the bars: one per bar that has a height.\<close>

definition annotations ::
  "dataframe \<Rightarrow> string \<Rightarrow> string \<Rightarrow> string \<Rightarrow> string list option \<Rightarrow> artist list" where
  "annotations data x y hue ord = map Annotate (nums (concat (bar_heights data x y hue ord)))"

text \<open>The categories along the x axis of a bar plot, in the order the bars are drawn.\<close>

definition bar_categories :: "artist \<Rightarrow> cell list" where
  "bar_categories a =
     (case a of Barplot data x y hue ord \<Rightarrow> x_categories data x ord | _ \<Rightarrow> [])"

section \<open>Metric by time period and event\<close>

definition all_periods :: "string list" where
  "all_periods = [''Before Event'', ''During Event'', ''After Event'', ''Outside Window'']"

definition time_event_table :: "string \<Rightarrow> dataframe \<Rightarrow> dataframe" where
  "time_event_table metric d =
     reindex [''time_period'', ''event_name'']
       (from_product (map Str all_periods) (unique (column d ''event_name'')))
       (with_bounds (groupby_agg [''time_period'', ''event_name''] metric
                       [''mean'', ''std'', ''median'', ''count''] d))"

definition plot_average_metric_by_time_and_event ::
  "config \<Rightarrow> nat \<Rightarrow> string \<Rightarrow> string \<Rightarrow> string \<Rightarrow> string \<Rightarrow> action" where
  "plot_average_metric_by_time_and_event cfg df metric filename_prefix title y_label w =
     (let required_cols = [metric, ''event_name'', ''time_period'']
      in if \<not> has_columns (frame w df) required_cols then
           (Returned, log_msg ERROR
              (missing_columns_msg required_cols (quoted metric @ '' plot'')) w)
         else
           let (df_filtered, w1) = dropna_copy required_cols df w
           in if df_empty (frame w1 df_filtered) then
                (Returned, log_msg WARNING (''No valid data to plot average '' @ quoted metric
                   @ '' after filtering NaNs. Skipping plot.'') w1)
              else if holds_strings (frame w1 df_filtered) metric then (Raised TypeError, w1)
              else
                let grouped = time_event_table metric (frame w1 df_filtered)
                in seq (save_dataframe_as_text cfg grouped
                          (filename_prefix @ ''_by_time_period_and_event.txt'')
                          (''Average '' @ title_case (spaced metric)
                             @ '' by Time Period and Event (incl. Range)''))
                       (render cfg
                          ([Barplot grouped ''time_period'' ''mean'' ''event_name'' None,
                            Title title, Ylabel y_label, Xticks_rotation 15,
                            Legend (Some ''Event''), Tight_layout]
                           @ annotations grouped ''time_period'' ''mean'' ''event_name'' None)
                          (filename_prefix @ ''_by_time_period_and_event_extended.png'')) w1)"

section \<open>Metric by post type and event\<close>

definition type_event_table :: "string \<Rightarrow> dataframe \<Rightarrow> dataframe" where
  "type_event_table metric d =
     reindex [''post_type'', ''event_name'']
       (from_product (unique (column d ''post_type'')) (unique (column d ''event_name'')))
       (with_bounds (groupby_agg [''post_type'', ''event_name''] metric
                       [''mean'', ''std'', ''median'', ''count''] d))"

text \<open>
  \<^verbatim>\<open>if selected_types:\<close> holds for a non-empty list; the filter
  \<^verbatim>\<open>df_filtered[df_filtered["post_type"].isin(selected_types)]\<close> is a new frame.
\<close>

definition type_filtered :: "cell list option \<Rightarrow> dataframe \<Rightarrow> dataframe" where
  "type_filtered selected_types d =
     (case selected_types of
        None \<Rightarrow> d
      | Some ts \<Rightarrow> if ts = [] then d else isin_rows ''post_type'' ts d)"

definition filter_types :: "cell list option \<Rightarrow> nat \<Rightarrow> world \<Rightarrow> nat \<times> world" where
  "filter_types selected_types a w =
     (case selected_types of
        None \<Rightarrow> (a, w)
      | Some ts \<Rightarrow> if ts = [] then (a, w)
                   else new_frame (isin_rows ''post_type'' ts (frame w a)) w)"

definition plot_metric_by_event_and_type ::
  "config \<Rightarrow> nat \<Rightarrow> string \<Rightarrow> string \<Rightarrow> string \<Rightarrow> cell list option \<Rightarrow> action" where
  "plot_metric_by_event_and_type cfg df metric title filename selected_types w =
     (let required_cols = [metric, ''event_name'', ''post_type'']
      in if \<not> has_columns (frame w df) required_cols then
           (Returned, log_msg ERROR
              (missing_columns_msg required_cols (quoted metric @ '' by post type plot'')) w)
         else
           let (df_copy, w0) = dropna_copy required_cols df w;
               (df_filtered, w1) = filter_types selected_types df_copy w0
           in if df_empty (frame w1 df_filtered) then
                (Returned, log_msg WARNING (''No valid data to plot average '' @ quoted metric
                   @ '' by post type after filtering NaNs/types. Skipping plot.'') w1)
              else if holds_strings (frame w1 df_filtered) metric then (Raised TypeError, w1)
              else
                let grouped = type_event_table metric (frame w1 df_filtered)
                in seq (save_dataframe_as_text cfg grouped
                          (metric @ ''_by_post_type_and_event.txt'')
                          (title_case (spaced metric) @ '' by Post Type and Event''))
                       (render cfg
                          ([Barplot grouped ''post_type'' ''mean'' ''event_name'' None,
                            Title title, Ylabel (''Mean '' @ title_case (spaced metric)),
                            Xticks_rotation 20, Legend (Some ''Event''), Tight_layout]
                           @ annotations grouped ''post_type'' ''mean'' ''event_name'' None)
                          filename) w1)"

section \<open>Feature distribution\<close>

definition summary_table :: "real list \<Rightarrow> dataframe" where
  "summary_table xs =
     \<lparr>columns = [''Mean'', ''Median'', ''Std'', ''Count'', ''Lower Bound (Mean - Std)'',
                 ''Upper Bound (Mean + Std)''],
      rows = [[(''Mean'', mean_of xs), (''Median'', median_of xs), (''Std'', std_of xs),
               (''Count'', count_of xs),
               (''Lower Bound (Mean - Std)'', cell_sub (mean_of xs) (std_of xs)),
               (''Upper Bound (Mean + Std)'', cell_add (mean_of xs) (std_of xs))]]\<rparr>"

definition kde_table :: "(real \<Rightarrow> real) \<Rightarrow> real list \<Rightarrow> dataframe" where
  "kde_table kde xs =
     \<lparr>columns = [''x'', ''kde_density''],
      rows = map (\<lambda>x. [(''x'', Num x), (''kde_density'', Num (kde x))])
                 (linspace (least xs) (greatest xs) 200)\<rparr>"

text \<open>
  \<^verbatim>\<open>scipy.stats.gaussian_kde\<close> is a parameter: the density it estimates from a sample,
  or the error it raises.
\<close>

definition kde_step ::
  "config \<Rightarrow> (real list \<Rightarrow> error + (real \<Rightarrow> real)) \<Rightarrow> string \<Rightarrow> string \<Rightarrow> cell list
     \<Rightarrow> action" where
  "kde_step cfg gaussian_kde feature filename_prefix vals w =
     (if length vals > 1 then
        (case gaussian_kde (nums vals) of
           Inl e \<Rightarrow> (Raised e, w)
         | Inr kde \<Rightarrow> save_dataframe_as_text cfg (kde_table kde (nums vals))
                        (filename_prefix @ feature @ ''_kde_curve.txt'')
                        (feature @ '' KDE Curve Data'') w)
      else (Returned, log_msg WARNING (''Not enough data points to generate KDE curve for ''
              @ quoted feature @ ''.'') w))"

definition histogram_step ::
  "config \<Rightarrow> nat \<Rightarrow> string \<Rightarrow> string \<Rightarrow> string \<Rightarrow> nat \<Rightarrow> string \<Rightarrow> cell list \<Rightarrow> action" where
  "histogram_step cfg df feature title x_label bin_count filename_prefix vals w =
     (let (fig, w1) = plt_figure w;
          labels = [Title title, Xlabel x_label, Ylabel ''Count'', Tight_layout];
          filename = filename_prefix @ feature @ ''_histogram_extended.png''
      in if ''event_name'' \<in> set (columns (frame w1 df))
            \<and> nunique (column (frame w1 df) ''event_name'') > 1 then
           let (df_filtered, w2) = dropna_copy [feature, ''event_name''] df w1
           in if \<not> df_empty (frame w2 df_filtered) then
                save_plot cfg fig filename
                  (draw_all (Histplot (frame w2 df_filtered) feature (Some ''event_name'')
                               (Some bin_count) True # labels) w2)
              else
                save_plot cfg fig filename
                  (draw_all (Histplot_values vals bin_count True None # labels)
                     (log_msg WARNING (''No valid data for feature '' @ quoted feature
                        @ '' with '' @ quoted ''event_name''
                        @ '' after filtering NaNs. Plotting without hue.'') w2))
         else
           save_plot cfg fig filename
             (draw_all (Histplot_values vals bin_count True None # labels) w1))"

definition plot_feature_distribution ::
  "config \<Rightarrow> (real list \<Rightarrow> error + (real \<Rightarrow> real)) \<Rightarrow> nat \<Rightarrow> string \<Rightarrow> string \<Rightarrow> string
     \<Rightarrow> nat \<Rightarrow> string \<Rightarrow> action" where
  "plot_feature_distribution cfg gaussian_kde df feature title x_label bin_count filename_prefix w =
     (if feature \<notin> set (columns (frame w df)) then
        (Returned, log_msg ERROR (''Feature column '' @ quoted feature
           @ '' not found in DataFrame. Skipping plot.'') w)
      else
        let vals = filter (\<lambda>v. v \<noteq> NaN) (column (frame w df) feature)
        in if vals = [] then
             (Returned, log_msg WARNING (''No valid data for feature '' @ quoted feature
                @ ''. Skipping distribution plot.'') w)
           else if list_ex is_str vals then (Raised TypeError, w)
           else
             seq (save_dataframe_as_text cfg (summary_table (nums vals))
                    (filename_prefix @ feature @ ''_summary.txt'')
                    (feature @ '' Distribution Summary''))
               (seq (kde_step cfg gaussian_kde feature filename_prefix vals)
                  (histogram_step cfg df feature title x_label bin_count filename_prefix vals))
               w)"

section \<open>Distribution comparison\<close>

definition comparison_table :: "string \<Rightarrow> dataframe \<Rightarrow> dataframe" where
  "comparison_table feature data =
     with_bounds (groupby_agg [''event_name''] feature
                    [''count'', ''mean'', ''median'', ''std'', ''min'', ''max''] data)"

definition plot_distribution_comparison ::
  "config \<Rightarrow> nat \<Rightarrow> string \<Rightarrow> string \<Rightarrow> string \<Rightarrow> string \<Rightarrow> string \<Rightarrow> action" where
  "plot_distribution_comparison cfg df feature title y_label filename_prefix plot_type w =
     (let required_cols = [feature, ''event_name'']
      in if \<not> has_columns (frame w df) required_cols then
           (Returned, log_msg ERROR
              (missing_columns_msg required_cols ''distribution comparison plot'') w)
         else
           let (data, w1) = dropna_copy required_cols df w
           in if df_empty (frame w1 data) then
                (Returned, log_msg WARNING (''No valid data for feature '' @ quoted feature
                   @ '' after filtering NaNs. Skipping distribution comparison plot.'') w1)
              else if holds_strings (frame w1 data) feature then (Raised TypeError, w1)
              else
                let grouped = comparison_table feature (frame w1 data);
                    labels = [Title title, Xlabel ''Event Name'', Ylabel y_label, Tight_layout];
                    filename = filename_prefix @ feature @ ''_'' @ plot_type @ ''_extended.png''
                in seq (save_dataframe_as_text cfg grouped
                          (filename_prefix @ feature @ ''_'' @ plot_type @ ''_stats.txt'')
                          (feature @ '' Distribution by Event ('' @ title_case plot_type
                             @ '' Plot Basis)''))
                     (\<lambda>w2.
                        let (fig, w3) = plt_figure w2
                        in if plot_type = ''violin'' then
                             save_plot cfg fig filename
                               (draw_all (Violinplot (frame w3 data) ''event_name'' feature
                                            (Some ''event_name'')
                                            # labels) w3)
                           else if plot_type = ''box'' then
                             save_plot cfg fig filename
                               (draw_all (Boxplot (frame w3 data) ''event_name'' feature
                                            (Some ''event_name'') # labels) w3)
                           else
                             (Returned, plt_close fig (log_msg ERROR (''Invalid plot_type ''
                                @ quoted plot_type
                                @ ''. Must be '' @ quoted ''box'' @ '' or '' @ quoted ''violin''
                                @ ''. Skipping plot.'') w3))) w1)"

section \<open>Posting behaviour, score development\<close>

definition plot_posting_behavior_hist ::
  "config \<Rightarrow> nat \<Rightarrow> string \<Rightarrow> string \<Rightarrow> string \<Rightarrow> string \<Rightarrow> action" where
  "plot_posting_behavior_hist cfg df x_label hue_label title filename w =
     (if df_empty (frame w df) then
        (Returned, log_msg WARNING (''DataFrame is empty, skipping histogram plot for ''
           @ title @ ''.'') w)
      else if x_label \<notin> set (columns (frame w df)) \<or> hue_label \<notin> set (columns (frame w df)) then
        (Returned, log_msg ERROR (''Missing required columns '' @ quoted x_label @ '' or ''
           @ quoted hue_label @ '' for histogram plot. Skipping.'') w)
      else
        render cfg [Histplot (frame w df) x_label (Some hue_label) None False,
                    Title title, Xlabel x_label, Ylabel ''Count'', Tight_layout] filename w)"

definition plot_posting_behavior_heatmap :: "config \<Rightarrow> nat \<Rightarrow> string \<Rightarrow> string \<Rightarrow> action" where
  "plot_posting_behavior_heatmap cfg df title filename w =
     (if df_empty (frame w df) then
        (Returned, log_msg WARNING (''DataFrame is empty, skipping heatmap plot for ''
           @ title @ ''.'') w)
      else
        render cfg [Heatmap (frame_matrix (frame w df)) ''.0f'', Title title, Tight_layout]
          filename w)"

definition plot_score_development ::
  "config \<Rightarrow> nat \<Rightarrow> string \<Rightarrow> string \<Rightarrow> string \<Rightarrow> string \<Rightarrow> string \<Rightarrow> action" where
  "plot_score_development cfg df x_label y_label hue_label title filename w =
     (if df_empty (frame w df) then
        (Returned, log_msg WARNING (''DataFrame is empty, skipping score development plot for ''
           @ title @ ''.'') w)
      else if \<not> has_columns (frame w df) [x_label, y_label, hue_label] then
        (Returned, log_msg ERROR (''Missing one or more required columns ('' @ x_label @ '', ''
           @ y_label @ '', '' @ hue_label @ '') for score development plot. Skipping.'') w)
      else
        render cfg [Lineplot (frame w df) x_label y_label hue_label,
                    Title title, Xlabel x_label, Ylabel y_label, Tight_layout] filename w)"

section \<open>Pearson correlation\<close>

definition additional_numerical_cols :: "string list" where
  "additional_numerical_cols =
     [''comment_score'', ''post_score'', ''post_num_comments'', ''upvote_ratio'',
      ''compound_sentiment'', ''word_count'']"

text \<open>
  Two library functions are parameters.  \<open>as_list\<close> is \<^verbatim>\<open>list(set(...))\<close>: the names of
  a list, each once, in the order Python happens to enumerate the set.
  \<open>is_numeric_dtype\<close> is \<^verbatim>\<open>pd.api.types.is_numeric_dtype(df[col])\<close>: whether the column
  of that name has a numeric type, which the cells of a column do not determine.
\<close>

definition all_potential_numerical_cols ::
  "(string list \<Rightarrow> string list) \<Rightarrow> config \<Rightarrow> string list" where
  "all_potential_numerical_cols as_list cfg =
     as_list ((NUMERICAL_FEATURES cfg @ BOOLEAN_FEATURES cfg) @ additional_numerical_cols)"

definition available_numerical_cols ::
  "(string list \<Rightarrow> string list) \<Rightarrow> (dataframe \<Rightarrow> string \<Rightarrow> bool) \<Rightarrow> config \<Rightarrow> dataframe
     \<Rightarrow> string list" where
  "available_numerical_cols as_list is_numeric_dtype cfg d =
     filter (\<lambda>col. col \<in> set (columns d) \<and> is_numeric_dtype d col)
            (all_potential_numerical_cols as_list cfg)"

definition plot_pearson_correlation ::
  "config \<Rightarrow> (string list \<Rightarrow> string list) \<Rightarrow> (dataframe \<Rightarrow> string \<Rightarrow> bool) \<Rightarrow> nat \<Rightarrow> string
     \<Rightarrow> action" where
  "plot_pearson_correlation cfg as_list is_numeric_dtype df filename w =
     (if df_empty (frame w df) then
        (Returned, log_msg WARNING
           ''DataFrame is empty, skipping Pearson correlation analysis.'' w)
      else
        let available = available_numerical_cols as_list is_numeric_dtype cfg (frame w df)
        in if length available < 2 then
             (Returned, log_msg WARNING
                ''Not enough numerical columns available for correlation analysis (need at least 2). Skipping plot.'' w)
           else
             let w1 = log_msg INFO (CHR 0x0A # ''--- Calculating Pearson Correlations ---'') w;
                 (selected, w2) = new_frame (select_columns available (frame w1 df)) w1;
                 correlation_matrix = corr_matrix (frame w2 selected);
                 w3 = log_msg INFO (''Correlation Matrix:'' @ [CHR 0x0A] @ ''%s'') w2
             in render cfg [Heatmap correlation_matrix ''.2f'',
                            Title ''Pearson Correlation Matrix of Numerical Features'',
                            Tight_layout] filename w3)"

section \<open>Heat maps, box plot, dual distribution\<close>

definition plot_eventwise_heatmap ::
  "config \<Rightarrow> nat \<Rightarrow> string \<Rightarrow> string \<Rightarrow> string \<Rightarrow> string \<Rightarrow> action" where
  "plot_eventwise_heatmap cfg df index_col value_col title filename w =
     (let required_cols = [index_col, ''event_name'', value_col]
      in if \<not> has_columns (frame w df) required_cols then
           (Returned, log_msg ERROR
              (missing_columns_msg required_cols ''event-wise heatmap'') w)
         else
           let (df_filtered, w1) = dropna_copy required_cols df w
           in if df_empty (frame w1 df_filtered) then
                (Returned, log_msg WARNING
                   ''No valid data for event-wise heatmap after filtering NaNs. Skipping plot.'' w1)
              else if holds_strings (frame w1 df_filtered) value_col then (Raised TypeError, w1)
              else
                render cfg [Heatmap (mean_pivot index_col ''event_name'' value_col
                                       (frame w1 df_filtered)) ''.2f'',
                            Title title, Tight_layout] filename w1)"

definition plot_boxplot_with_stats ::
  "config \<Rightarrow> nat \<Rightarrow> string \<Rightarrow> string \<Rightarrow> string \<Rightarrow> string \<Rightarrow> string \<Rightarrow> action" where
  "plot_boxplot_with_stats cfg df x y hue title filename w =
     (let required_cols = [x, y, hue]
      in if \<not> has_columns (frame w df) required_cols then
           (Returned, log_msg ERROR (missing_columns_msg required_cols ''boxplot'') w)
         else
           let (df_filtered, w1) = dropna_copy required_cols df w
           in if df_empty (frame w1 df_filtered) then
                (Returned, log_msg WARNING
                   ''No valid data for boxplot after filtering NaNs. Skipping plot.'' w1)
              else
                render cfg [Boxplot (frame w1 df_filtered) x y (Some hue), Title title,
                            Xticks_rotation 15, Tight_layout] filename w1)"

definition plot_event_keyword_distribution ::
  "config \<Rightarrow> nat \<Rightarrow> string \<Rightarrow> string \<Rightarrow> string \<Rightarrow> action" where
  "plot_event_keyword_distribution cfg df keyword_col title filename w =
     (let required_cols = [''event_name'', keyword_col]
      in if \<not> has_columns (frame w df) required_cols then
           (Returned, log_msg ERROR
              (missing_columns_msg required_cols ''keyword distribution plot'') w)
         else
           let (df_filtered, w1) = dropna_copy required_cols df w
           in if df_empty (frame w1 df_filtered) then
                (Returned, log_msg WARNING
                   ''No valid data for keyword distribution after filtering NaNs. Skipping plot.'' w1)
              else
                render cfg [Heatmap (percent_pivot keyword_col ''event_name''
                                       (frame w1 df_filtered)) ''.1f'',
                            Title title, Ylabel ''Keyword'', Tight_layout] filename w1)"

definition plot_dual_distribution ::
  "config \<Rightarrow> nat \<Rightarrow> string \<Rightarrow> string \<Rightarrow> string \<Rightarrow> string \<Rightarrow> action" where
  "plot_dual_distribution cfg df feature1 feature2 title filename w =
     (let required_cols = [feature1, feature2]
      in if \<not> has_columns (frame w df) required_cols then
           (Returned, log_msg ERROR
              (missing_columns_msg required_cols ''dual distribution plot'') w)
         else
           let (df_filtered, w1) = dropna_copy required_cols df w
           in if df_empty (frame w1 df_filtered) then
                (Returned, log_msg WARNING
                   ''No valid data for dual distribution after filtering NaNs. Skipping plot.'' w1)
              else
                render cfg [Histplot_values (column (frame w1 df_filtered) feature1) 30 True
                              (Some feature1),
                            Histplot_values (column (frame w1 df_filtered) feature2) 30 True
                              (Some feature2),
                            Legend None, Title title, Tight_layout] filename w1)"

definition plot_keyword_score_heatmap ::
  "config \<Rightarrow> nat \<Rightarrow> string \<Rightarrow> string \<Rightarrow> string \<Rightarrow> string \<Rightarrow> action" where
  "plot_keyword_score_heatmap cfg df keyword_col score_col filename title w =
     (let required_cols = [keyword_col, ''event_name'', score_col]
      in if \<not> has_columns (frame w df) required_cols then
           (Returned, log_msg ERROR
              (missing_columns_msg required_cols ''keyword score heatmap'') w)
         else
           let (df_filtered, w1) = dropna_copy required_cols df w
           in if df_empty (frame w1 df_filtered) then
                (Returned, log_msg WARNING
                   ''No valid data for keyword score heatmap after filtering NaNs. Skipping plot.'' w1)
              else if holds_strings (frame w1 df_filtered) score_col then (Raised TypeError, w1)
              else
                render cfg [Heatmap (fillna0 (mean_pivot keyword_col ''event_name'' score_col
                                                (frame w1 df_filtered))) ''.1f'',
                            Title title, Tight_layout] filename w1)"

section \<open>Engagement per day of the week\<close>

text \<open>
  \<^verbatim>\<open>pd.to_datetime\<close> is a parameter: the time stamp (seconds since the epoch) it reads
  from a cell, or nothing where it raises.  The view assigns the converted column and the
  day names into its own copy of the data.
\<close>

definition day_order :: "string list" where
  "day_order = [''Monday'', ''Tuesday'', ''Wednesday'', ''Thursday'', ''Friday'', ''Saturday'',
                ''Sunday'']"

definition stamp_cell :: "(cell \<Rightarrow> int option) \<Rightarrow> cell \<Rightarrow> cell" where
  "stamp_cell to_datetime v = (case to_datetime v of Some t \<Rightarrow> Num (of_int t) | None \<Rightarrow> NaN)"

definition day_cell :: "cell \<Rightarrow> cell" where
  "day_cell v = (case v of Num t \<Rightarrow> Str (day_name \<lfloor>t\<rfloor>) | _ \<Rightarrow> NaN)"

definition day_table :: "string \<Rightarrow> dataframe \<Rightarrow> dataframe" where
  "day_table engagement_col d = groupby_mean [''day_of_week'', ''event_name''] engagement_col d"

definition plot_engagement_per_day ::
  "config \<Rightarrow> (cell \<Rightarrow> int option) \<Rightarrow> nat \<Rightarrow> string \<Rightarrow> string \<Rightarrow> string \<Rightarrow> action" where
  "plot_engagement_per_day cfg to_datetime df time_col engagement_col filename w =
     (let required_cols = [time_col, engagement_col, ''event_name'']
      in if \<not> has_columns (frame w df) required_cols then
           (Returned, log_msg ERROR
              (missing_columns_msg required_cols ''engagement per day plot'') w)
         else
           let (df_filtered, w1) = dropna_copy required_cols df w
           in if df_empty (frame w1 df_filtered) then
                (Returned, log_msg WARNING
                   ''No valid data for engagement per day after filtering NaNs. Skipping plot.'' w1)
              else if list_ex (\<lambda>v. to_datetime v = None) (column (frame w1 df_filtered) time_col)
              then (Raised ValueError, w1)
              else
                let w2 = set_frame df_filtered
                           (set_column time_col (\<lambda>r. stamp_cell to_datetime (cell_at r time_col))
                              (frame w1 df_filtered)) w1;
                    w3 = set_frame df_filtered
                           (set_column ''day_of_week'' (\<lambda>r. day_cell (cell_at r time_col))
                              (frame w2 df_filtered)) w2
                in if holds_strings (frame w3 df_filtered) engagement_col
                   then (Raised TypeError, w3)
                   else
                     render cfg
                       [Barplot (day_table engagement_col (frame w3 df_filtered))
                          ''day_of_week'' engagement_col ''event_name'' (Some day_order),
                        Title (''Average '' @ title_case (spaced engagement_col)
                                 @ '' by Day of Week and Event''),
                        Xticks_rotation 20, Tight_layout] filename w3)"

section \<open>Properties of a view\<close>

text \<open>
  A view keeps the frames when every data-frame object that exists before the call is
  the same after it (new objects may have been added).  It closes its figures when a
  call that returns normally leaves the open figures as they were.
\<close>

definition keeps_frames :: "action \<Rightarrow> bool" where
  "keeps_frames f = (\<forall>w. take (length (heap w)) (heap (snd (f w))) = heap w)"

definition closes_figures :: "action \<Rightarrow> bool" where
  "closes_figures f = (\<forall>w. fst (f w) = Returned \<longrightarrow> open_figs (snd (f w)) = open_figs w)"

text \<open>
  A view skips quietly on the required columns \<open>req\<close> when a dataset without one of
  them makes it return normally with one more log entry, an error, and nothing else
  changed; and a dataset with the columns but no row left after the rows with a missing
  value in them are dropped makes it return normally with one more log entry, a warning,
  and nothing else changed but for new data-frame objects.
\<close>

definition skips_quietly :: "(nat \<Rightarrow> action) \<Rightarrow> string list \<Rightarrow> bool" where
  "skips_quietly view req =
     (\<forall>w df.
        (\<not> has_columns (frame w df) req \<longrightarrow>
           (\<exists>m. view df w = (Returned, log_msg ERROR m w)))
      \<and> (has_columns (frame w df) req \<and> rows (dropna req (frame w df)) = [] \<longrightarrow>
           (\<exists>m h. view df w = (Returned, log_msg WARNING m (w\<lparr>heap := heap w @ h\<rparr>)))))"

text \<open>
  A view tests emptiness first when an empty dataset makes it return normally with a
  warning, and a dataset that is not empty but lacks a required column with an error,
  nothing else changed in both cases.
\<close>

definition tests_emptiness_first :: "(nat \<Rightarrow> action) \<Rightarrow> string list \<Rightarrow> bool" where
  "tests_emptiness_first view req =
     (\<forall>w df.
        (df_empty (frame w df) \<longrightarrow> (\<exists>m. view df w = (Returned, log_msg WARNING m w)))
      \<and> (\<not> df_empty (frame w df) \<and> \<not> has_columns (frame w df) req \<longrightarrow>
           (\<exists>m. view df w = (Returned, log_msg ERROR m w))))"

section \<open>Example inputs\<close>

definition example_config :: config where
  "example_config =
     \<lparr>FIGURES_DIR = ''fig'', REPORTS_DIR = ''rep'', NUMERICAL_FEATURES = [],
      BOOLEAN_FEATURES = []\<rparr>"

definition world_of :: "dataframe \<Rightarrow> world" where
  "world_of d = \<lparr>heap = [d], open_figs = [], files = Map.empty, unwritable = [], logged = []\<rparr>"

definition one_comment :: dataframe where
  "one_comment =
     \<lparr>columns = [''event_name'', ''comment_score''],
      rows = [[(''event_name'', Str ''A''), (''comment_score'', Num 1)]]\<rparr>"

text \<open>Three comments on two events, in two of the four periods and of two post types.\<close>

definition three_comments :: dataframe where
  "three_comments =
     \<lparr>columns = [''event_name'', ''time_period'', ''post_type'', ''comment_score''],
      rows = [[(''event_name'', Str ''A''), (''time_period'', Str ''Before Event''),
               (''post_type'', Str ''Other''), (''comment_score'', Num 1)],
              [(''event_name'', Str ''A''), (''time_period'', Str ''Before Event''),
               (''post_type'', Str ''Other''), (''comment_score'', Num 3)],
              [(''event_name'', Str ''B''), (''time_period'', Str ''During Event''),
               (''post_type'', Str ''Ranking Update''), (''comment_score'', Num 2)]]\<rparr>"

text \<open>One comment of event A, posted at the epoch (a Thursday).\<close>

definition stamped_comment :: dataframe where
  "stamped_comment =
     \<lparr>columns = [''created_utc'', ''event_name'', ''comment_score''],
      rows = [[(''created_utc'', Num 0), (''event_name'', Str ''A''),
               (''comment_score'', Num 1)]]\<rparr>"

text \<open>A conversion that reads a number as seconds since the epoch and rejects the rest.\<close>

definition epoch_seconds :: "cell \<Rightarrow> int option" where
  "epoch_seconds v = (case v of Num t \<Rightarrow> Some \<lfloor>t\<rfloor> | _ \<Rightarrow> None)"

text \<open>Two posts of event A, one of a type outside the orchestrator's allow-list.\<close>

definition two_posts :: dataframe where
  "two_posts =
     \<lparr>columns = [''event_name'', ''post_type'', ''word_count''],
      rows = [[(''event_name'', Str ''A''), (''post_type'', Str ''Other''),
               (''word_count'', Num 12)],
              [(''event_name'', Str ''A''), (''post_type'', Str ''Meme''),
               (''word_count'', Num 30)]]\<rparr>"

text \<open>A comment whose score is missing.\<close>

definition unscored_comment :: dataframe where
  "unscored_comment =
     \<lparr>columns = [''event_name'', ''comment_score''],
      rows = [[(''event_name'', Str ''A''), (''comment_score'', NaN)]]\<rparr>"

text \<open>Two numeric columns and no rows, as a filter that matches nothing leaves them.\<close>

definition empty_scores :: dataframe where
  "empty_scores = \<lparr>columns = [''comment_score'', ''post_score''], rows = []\<rparr>"

text \<open>A dataset without columns and rows; a world where the image cannot be written.\<close>

definition no_data :: dataframe where
  "no_data = \<lparr>columns = [], rows = []\<rparr>"

definition read_only_world :: "dataframe \<Rightarrow> world" where
  "read_only_world d =
     \<lparr>heap = [d], open_figs = [], files = Map.empty, unwritable = [''fig/chart.png''],
      logged = []\<rparr>"

text \<open>
  For the examples: an estimator that returns on every sample, with Gaussian kernels of
  Scott's bandwidth; and a dataset whose columns without strings are of a numeric type.
\<close>

definition scott_bandwidth :: "real list \<Rightarrow> real" where
  "scott_bandwidth xs = real (length xs) powr (- 1 / 5) * sqrt (variance xs)"

definition kde_density :: "real list \<Rightarrow> real \<Rightarrow> real" where
  "kde_density xs x =
     (let h = scott_bandwidth xs
      in sum_list (map (\<lambda>xi. exp (- ((x - xi)\<^sup>2) / (2 * h\<^sup>2))) xs)
           / (real (length xs) * h * sqrt (2 * pi)))"

definition scott_kde :: "real list \<Rightarrow> error + (real \<Rightarrow> real)" where
  "scott_kde xs = Inr (kde_density xs)"

definition float_columns :: "dataframe \<Rightarrow> string \<Rightarrow> bool" where
  "float_columns d c = (\<not> holds_strings d c)"

text \<open>Three comments whose rows are in the order Sunday, Thursday, Monday.\<close>

definition week_comments :: dataframe where
  "week_comments =
     \<lparr>columns = [''created_utc'', ''event_name'', ''comment_score''],
      rows = [[(''created_utc'', Num 259200), (''event_name'', Str ''A''),
               (''comment_score'', Num 4)],
              [(''created_utc'', Num 0), (''event_name'', Str ''A''),
               (''comment_score'', Num 1)],
              [(''created_utc'', Num 345600), (''event_name'', Str ''B''),
               (''comment_score'', Num 2)]]\<rparr>"

section \<open>Effects of the helpers\<close>

lemma fold_max_ge: "a \<le> fold max xs (a::nat)"
  by (induction xs arbitrary: a) (auto intro: order_trans [OF max.cobounded2])

lemma fold_max_mem: "x \<in> set xs \<Longrightarrow> x \<le> fold max xs (a::nat)"
proof (induction xs arbitrary: a)
  case Nil
  then show ?case by simp
next
  case (Cons y ys)
  show ?case
  proof (cases "x = y")
    case True
    have "y \<le> max y a" by simp
    also have "\<dots> \<le> fold max ys (max y a)" by (rule fold_max_ge)
    finally show ?thesis using True by simp
  next
    case False
    with Cons show ?thesis by simp
  qed
qed

lemma fresh_fig_above: "f \<in> set fs \<Longrightarrow> fst f < fresh_fig fs"
  unfolding fresh_fig_def using fold_max_mem [of "fst f" "map fst fs" 0] by auto

lemma fresh_fig_notin: "f \<in> set fs \<Longrightarrow> fst f \<noteq> fresh_fig fs"
  using fresh_fig_above [of f fs] by simp

lemma filter_fresh_fig [simp]: "filter (\<lambda>f. fst f \<noteq> fresh_fig fs) fs = fs"
  by (simp add: filter_id_conv fresh_fig_notin)

lemma map_of_fresh_fig [simp]: "map_of fs (fresh_fig fs) = None"
proof -
  have "fresh_fig fs \<notin> fst ` set fs"
  proof
    assume "fresh_fig fs \<in> fst ` set fs"
    then obtain f where "f \<in> set fs" "fst f = fresh_fig fs" by auto
    then show False using fresh_fig_notin by blast
  qed
  then show ?thesis by (simp add: map_of_eq_None_iff)
qed

lemma draw_all_open:
  "open_figs w \<noteq> [] \<Longrightarrow>
   draw_all as w = w\<lparr>open_figs := butlast (open_figs w)
                       @ [(fst (last (open_figs w)), snd (last (open_figs w)) @ as)]\<rparr>"
  unfolding draw_all_def
proof (induction as arbitrary: w)
  case Nil
  then show ?case by simp
next
  case (Cons a as)
  have "open_figs (draw a w) \<noteq> []" by (simp add: draw_def)
  from Cons.IH [OF this] Cons.prems show ?case by (simp add: draw_def)
qed

lemma save_dataframe_as_text_eq:
  "save_dataframe_as_text cfg t name title w =
     (if path_join (REPORTS_DIR cfg) name \<in> set (unwritable w) then (Raised OSError, w)
      else (Returned, w\<lparr>files := (files w)(path_join (REPORTS_DIR cfg) name \<mapsto> Text (text_header title) t),
                        logged := logged w @ [(INFO, ''Table data saved to: '' @ path_join (REPORTS_DIR cfg) name)]\<rparr>))"
  by (simp add: save_dataframe_as_text_def seq_def write_file_def info_def log_msg_def Let_def)

lemma save_plot_fresh:
  "open_figs w = fs @ [(fresh_fig fs, c)] \<Longrightarrow>
   save_plot cfg (fresh_fig fs) name w =
     (if path_join (FIGURES_DIR cfg) name \<in> set (unwritable w) then (Raised OSError, w)
      else (Returned, w\<lparr>open_figs := fs,
                        files := (files w)(path_join (FIGURES_DIR cfg) name \<mapsto> Image c),
                        logged := logged w @ [(INFO, ''Plot saved to: '' @ path_join (FIGURES_DIR cfg) name)]\<rparr>))"
  by (simp add: save_plot_def seq_def write_file_def log_msg_def plt_close_def fig_content_def Let_def map_add_def)

lemma render_eq:
  "render cfg arts name w =
     (if path_join (FIGURES_DIR cfg) name \<in> set (unwritable w)
      then (Raised OSError, w\<lparr>open_figs := open_figs w @ [(fresh_fig (open_figs w), arts)]\<rparr>)
      else (Returned, w\<lparr>files := (files w)(path_join (FIGURES_DIR cfg) name \<mapsto> Image arts),
                        logged := logged w @ [(INFO, ''Plot saved to: '' @ path_join (FIGURES_DIR cfg) name)]\<rparr>))"
proof -
  let ?w1 = "w\<lparr>open_figs := open_figs w @ [(fresh_fig (open_figs w), [])]\<rparr>"
  have d: "draw_all arts ?w1 = w\<lparr>open_figs := open_figs w @ [(fresh_fig (open_figs w), arts)]\<rparr>"
    by (simp add: draw_all_open)
  have "render cfg arts name w = save_plot cfg (fresh_fig (open_figs w)) name (draw_all arts ?w1)"
    by (simp add: render_def plt_figure_def Let_def)
  also have "\<dots> = save_plot cfg (fresh_fig (open_figs w)) name
                     (w\<lparr>open_figs := open_figs w @ [(fresh_fig (open_figs w), arts)]\<rparr>)"
    by (simp only: d)
  finally show ?thesis
    by (simp add: save_plot_fresh [where fs = "open_figs w" and c = arts])
qed

lemma dropna_copy_eq:
  "dropna_copy cs a w =
     (Suc (length (heap w)),
      w\<lparr>heap := heap w @ [dropna cs (frame w a), dropna cs (frame w a)]\<rparr>)"
  by (simp add: dropna_copy_def new_frame_def frame_def Let_def nth_append)

lemma frame_dropna_copy [simp]:
  "frame (w\<lparr>heap := heap w @ [d, e]\<rparr>) (Suc (length (heap w))) = e"
  by (simp add: frame_def nth_append)

lemma columns_dropna [simp]: "columns (dropna cs d) = columns d"
  by (simp add: dropna_def)

lemma has_columns_nonempty: "has_columns d (c # cs) \<Longrightarrow> columns d \<noteq> []"
  by (auto simp: has_columns_def)

lemmas eval_defs = example_config_def world_of_def has_columns_def frame_def
  dropna_def keeps_def cell_at_def holds_strings_def column_def path_join_def df_empty_def

lemmas title_defs = title_case_def spaced_def is_letter_def upper_of_def lower_of_def

lemmas table_eval = day_table_def groupby_mean_def group_keys_def group_values_def key_of_def
  unique_def sort_keys_def mean_of_def

section \<open>Tables: grouping, bounds, reindexing\<close>

lemma length_from_product: "length (from_product xs ys) = length xs * length ys"
  by (induction xs) (simp_all add: from_product_def)

lemma from_product_pairs: "\<forall>k \<in> set (from_product xs ys). \<exists>x y. k = [x, y]"
  by (auto simp: from_product_def)

lemma rows_reindex: "length (rows (reindex ks idx g)) = length idx"
  by (simp add: reindex_def Let_def)

lemma cell_at_Cons: "cell_at ((k, v) # r) c = (if c = k then v else cell_at r c)"
  by (simp add: cell_at_def)

lemma cell_at_update: "cell_at (AList.update c v r) c' = (if c' = c then v else cell_at r c')"
  by (simp add: cell_at_def update_conv')

lemma key_of_pair_row:
  "a \<noteq> b \<Longrightarrow> key_of [a, b] (zip [a, b] [x, y] @ rest) = [x, y]"
  by (simp add: key_of_def cell_at_def)

lemma keys_reindex:
  assumes "a \<noteq> b" and "\<forall>k \<in> set idx. \<exists>x y. k = [x, y]"
  shows "map (key_of [a, b]) (rows (reindex [a, b] idx g)) = idx"
proof -
  have "key_of [a, b] (zip [a, b] k @ rest) = k" if "k \<in> set idx" for k rest
  proof -
    from assms(2) that obtain x y where "k = [x, y]" by blast
    then show ?thesis using assms(1) by (simp add: key_of_def cell_at_def)
  qed
  then show ?thesis
    by (simp add: reindex_def Let_def map_idI)
qed

lemma cell_at_nan_cols: "cell_at (map (\<lambda>c. (c, NaN)) cs) c = NaN"
  by (induction cs) (auto simp: cell_at_def)

lemma cell_at_copy_cols: "c \<in> set cs \<Longrightarrow> cell_at (map (\<lambda>c. (c, f c)) cs) c = f c"
  by (induction cs) (auto simp: cell_at_def)

lemma reindex_row_cases:
  assumes "r \<in> set (rows (reindex [a, b] idx g))" and "a \<noteq> b"
      and "\<forall>k \<in> set idx. \<exists>x y. k = [x, y]"
  shows "(\<exists>r0 \<in> set (rows g). key_of [a, b] r0 = key_of [a, b] r
            \<and> (\<forall>c \<in> set (columns g). c \<noteq> a \<longrightarrow> c \<noteq> b \<longrightarrow> cell_at r c = cell_at r0 c))
       \<or> ((\<forall>r0 \<in> set (rows g). key_of [a, b] r0 \<noteq> key_of [a, b] r)
            \<and> (\<forall>c. c \<noteq> a \<longrightarrow> c \<noteq> b \<longrightarrow> cell_at r c = NaN))"
proof -
  let ?others = "filter (\<lambda>c. c \<noteq> a \<and> c \<noteq> b) (columns g)"
  have "rows (reindex [a, b] idx g) =
          map (\<lambda>k. zip [a, b] k @ (case find (\<lambda>r. key_of [a, b] r = k) (rows g) of
                                  Some r \<Rightarrow> map (\<lambda>c. (c, cell_at r c)) ?others
                                | None \<Rightarrow> map (\<lambda>c. (c, NaN)) ?others)) idx"
    by (simp add: reindex_def Let_def)
  with assms(1) obtain k where k: "k \<in> set idx"
    and r: "r = zip [a, b] k @ (case find (\<lambda>r. key_of [a, b] r = k) (rows g) of
                                  Some r \<Rightarrow> map (\<lambda>c. (c, cell_at r c)) ?others
                                | None \<Rightarrow> map (\<lambda>c. (c, NaN)) ?others)"
    by auto
  from assms(3) k obtain x y where kxy: "k = [x, y]" by blast
  have key: "key_of [a, b] r = k"
    unfolding r kxy using assms(2) by (rule key_of_pair_row)
  show ?thesis
  proof (cases "find (\<lambda>r. key_of [a, b] r = k) (rows g)")
    case None
    have 1: "\<forall>r0 \<in> set (rows g). key_of [a, b] r0 \<noteq> key_of [a, b] r"
      using None key by (auto simp: find_None_iff)
    have 2: "\<forall>c. c \<noteq> a \<longrightarrow> c \<noteq> b \<longrightarrow> cell_at r c = NaN"
      unfolding r using None by (simp add: kxy cell_at_Cons cell_at_nan_cols)
    from 1 2 show ?thesis by (intro disjI2 conjI)
  next
    case (Some r0)
    then have m: "r0 \<in> set (rows g)" "key_of [a, b] r0 = k"
      by (auto simp: find_Some_iff)
    have 3: "\<forall>c \<in> set (columns g). c \<noteq> a \<longrightarrow> c \<noteq> b \<longrightarrow> cell_at r c = cell_at r0 c"
      unfolding r using Some by (simp add: kxy cell_at_Cons cell_at_copy_cols)
    have "key_of [a, b] r0 = key_of [a, b] r" using m(2) key by simp
    with 3 have "key_of [a, b] r0 = key_of [a, b] r
        \<and> (\<forall>c \<in> set (columns g). c \<noteq> a \<longrightarrow> c \<noteq> b \<longrightarrow> cell_at r c = cell_at r0 c)"
      by (intro conjI)
    with m(1) show ?thesis by (intro disjI1 bexI)
  qed
qed

lemma with_bounds_rows:
  "rows (with_bounds g) =
     map (\<lambda>r. AList.update ''upper_bound'' (cell_add (cell_at r ''mean'') (cell_at r ''std''))
                (AList.update ''lower_bound'' (cell_sub (cell_at r ''mean'') (cell_at r ''std'')) r))
         (rows g)"
  by (simp add: with_bounds_def set_column_def cell_at_update)

lemma with_bounds_row:
  assumes "r \<in> set (rows (with_bounds g))"
  shows "\<exists>r0 \<in> set (rows g).
           cell_at r ''lower_bound'' = cell_sub (cell_at r ''mean'') (cell_at r ''std'')
         \<and> cell_at r ''upper_bound'' = cell_add (cell_at r ''mean'') (cell_at r ''std'')
         \<and> (\<forall>c. c \<noteq> ''lower_bound'' \<longrightarrow> c \<noteq> ''upper_bound'' \<longrightarrow> cell_at r c = cell_at r0 c)"
  using assms unfolding with_bounds_rows
  by (auto simp: cell_at_update)

lemma with_bounds_key:
  assumes "r2 \<in> set (rows g)" and "a \<noteq> ''lower_bound''" "a \<noteq> ''upper_bound''"
      and "b \<noteq> ''lower_bound''" "b \<noteq> ''upper_bound''"
  shows "\<exists>r1 \<in> set (rows (with_bounds g)). key_of [a, b] r1 = key_of [a, b] r2"
proof -
  let ?r1 = "AList.update ''upper_bound'' (cell_add (cell_at r2 ''mean'') (cell_at r2 ''std''))
              (AList.update ''lower_bound'' (cell_sub (cell_at r2 ''mean'') (cell_at r2 ''std'')) r2)"
  have "?r1 \<in> set (rows (with_bounds g))"
    using assms(1) by (simp add: with_bounds_rows)
  moreover have "key_of [a, b] ?r1 = key_of [a, b] r2"
    using assms(2-) by (simp add: key_of_def cell_at_update)
  ultimately show ?thesis by (rule bexI [rotated])
qed

lemma set_insort_key: "set (insort_key k ls) = insert k (set ls)"
  by (induction ls) auto

lemma set_sort_keys: "set (sort_keys ks) = set ks"
  by (induction ks) (simp_all add: sort_keys_def set_insort_key)

lemma set_unique: "set (unique xs) = set xs"
  by (simp add: unique_def)

lemma distinct_unique: "distinct (unique xs)"
  by (simp add: unique_def)

lemma set_group_keys: "set (group_keys ks d) = key_of ks ` {r \<in> set (rows d). keeps ks r}"
  by (auto simp: group_keys_def set_sort_keys set_unique)

lemma length_group_key: "k \<in> set (group_keys ks d) \<Longrightarrow> length k = length ks"
  by (auto simp: set_group_keys key_of_def)

lemma pair_key: "length k = length [a, b] \<Longrightarrow> \<exists>x y. k = [x, y]"
  by (auto simp: length_Suc_conv)

lemma groupby_agg_row:
  assumes "r \<in> set (rows (groupby_agg [a, b] c stats d))" and "a \<noteq> b"
  shows "\<exists>k \<in> set (group_keys [a, b] d). key_of [a, b] r = k
           \<and> (\<forall>s \<in> set stats. s \<noteq> a \<longrightarrow> s \<noteq> b \<longrightarrow>
                 cell_at r s = agg_stat s (nums (group_values [a, b] k c d)))"
proof -
  from assms(1) obtain k where k: "k \<in> set (group_keys [a, b] d)"
    and r: "r = zip [a, b] k @ map (\<lambda>s. (s, agg_stat s (nums (group_values [a, b] k c d)))) stats"
    by (auto simp: groupby_agg_def)
  from pair_key [OF length_group_key [OF k]] obtain x y where kxy: "k = [x, y]" by blast
  have 1: "key_of [a, b] r = k"
    unfolding r kxy using assms(2) by (rule key_of_pair_row)
  have 2: "\<forall>s \<in> set stats. s \<noteq> a \<longrightarrow> s \<noteq> b \<longrightarrow>
            cell_at r s = agg_stat s (nums (group_values [a, b] k c d))"
    unfolding r kxy by (simp add: cell_at_Cons cell_at_copy_cols)
  from 1 2 have "key_of [a, b] r = k
           \<and> (\<forall>s \<in> set stats. s \<noteq> a \<longrightarrow> s \<noteq> b \<longrightarrow>
                 cell_at r s = agg_stat s (nums (group_values [a, b] k c d)))"
    by (intro conjI)
  with k show ?thesis by (intro bexI)
qed

lemma groupby_agg_has_key:
  assumes "k \<in> set (group_keys [a, b] d)" and "a \<noteq> b"
  shows "\<exists>r \<in> set (rows (groupby_agg [a, b] c stats d)). key_of [a, b] r = k"
proof -
  from pair_key [OF length_group_key [OF assms(1)]] obtain x y where kxy: "k = [x, y]" by blast
  let ?r = "zip [a, b] k @ map (\<lambda>s. (s, agg_stat s (nums (group_values [a, b] k c d)))) stats"
  have "?r \<in> set (rows (groupby_agg [a, b] c stats d))"
    using assms(1) unfolding groupby_agg_def by (simp del: zip_Cons_Cons) (rule imageI)
  moreover have "key_of [a, b] ?r = k"
    unfolding kxy using assms(2) by (rule key_of_pair_row)
  ultimately show ?thesis by (rule bexI [rotated])
qed

text \<open>The rows of the table of a two-key view, after the reindexing.\<close>

lemma grouped_key_iff:
  assumes ab: "a \<noteq> b" "a \<noteq> ''lower_bound''" "a \<noteq> ''upper_bound''"
          "b \<noteq> ''lower_bound''" "b \<noteq> ''upper_bound''"
      and kept: "\<forall>r0 \<in> set (rows d). keeps [a, b] r0"
  shows "(\<exists>r1 \<in> set (rows (with_bounds (groupby_agg [a, b] c stats d))). key_of [a, b] r1 = k)
         = (\<exists>r0 \<in> set (rows d). key_of [a, b] r0 = k)"
proof
  let ?g = "groupby_agg [a, b] c stats d"
  assume "\<exists>r1 \<in> set (rows (with_bounds ?g)). key_of [a, b] r1 = k"
  then obtain r1 where r1: "r1 \<in> set (rows (with_bounds ?g))" "key_of [a, b] r1 = k" by blast
  from with_bounds_row [OF r1(1)] obtain r2 where r2: "r2 \<in> set (rows ?g)"
    and same: "\<forall>c. c \<noteq> ''lower_bound'' \<longrightarrow> c \<noteq> ''upper_bound'' \<longrightarrow> cell_at r1 c = cell_at r2 c"
    by blast
  have "key_of [a, b] r1 = key_of [a, b] r2"
    using same ab by (simp add: key_of_def)
  moreover from groupby_agg_row [OF r2 ab(1)]
  have "key_of [a, b] r2 \<in> set (group_keys [a, b] d)" by blast
  ultimately have "k \<in> set (group_keys [a, b] d)" using r1(2) by simp
  then show "\<exists>r0 \<in> set (rows d). key_of [a, b] r0 = k"
    by (auto simp: set_group_keys)
next
  let ?g = "groupby_agg [a, b] c stats d"
  assume "\<exists>r0 \<in> set (rows d). key_of [a, b] r0 = k"
  then have "k \<in> set (group_keys [a, b] d)"
    using kept by (auto simp: set_group_keys)
  from groupby_agg_has_key [OF this ab(1)]
  obtain r2 where r2: "r2 \<in> set (rows ?g)" "key_of [a, b] r2 = k" by blast
  from with_bounds_key [OF r2(1) ab(2-5)] r2(2)
  show "\<exists>r1 \<in> set (rows (with_bounds ?g)). key_of [a, b] r1 = k" by auto
qed

lemma reindexed_table_row:
  assumes r: "r \<in> set (rows (reindex [a, b] idx
                  (with_bounds (groupby_agg [a, b] c [''mean'', ''std'', ''median'', ''count''] d))))"
      and ab: "a \<noteq> b"
      and a: "a \<noteq> ''mean''" "a \<noteq> ''std''" "a \<noteq> ''median''" "a \<noteq> ''count''"
             "a \<noteq> ''lower_bound''" "a \<noteq> ''upper_bound''"
      and b: "b \<noteq> ''mean''" "b \<noteq> ''std''" "b \<noteq> ''median''" "b \<noteq> ''count''"
             "b \<noteq> ''lower_bound''" "b \<noteq> ''upper_bound''"
      and idx: "\<forall>k \<in> set idx. \<exists>x y. k = [x, y]"
      and kept: "\<forall>r0 \<in> set (rows d). keeps [a, b] r0"
  shows "cell_at r ''lower_bound'' = cell_sub (cell_at r ''mean'') (cell_at r ''std'')
       \<and> cell_at r ''upper_bound'' = cell_add (cell_at r ''mean'') (cell_at r ''std'')
       \<and> (cell_at r ''count'' \<noteq> NaN) = (\<exists>r0 \<in> set (rows d). key_of [a, b] r0 = key_of [a, b] r)
       \<and> (\<not> (\<exists>r0 \<in> set (rows d). key_of [a, b] r0 = key_of [a, b] r) \<longrightarrow>
            (\<forall>c'. c' \<noteq> a \<longrightarrow> c' \<noteq> b \<longrightarrow> cell_at r c' = NaN))"
proof -
  let ?stats = "[''mean'', ''std'', ''median'', ''count'']"
  let ?g = "groupby_agg [a, b] c ?stats d"
  let ?G = "with_bounds ?g"
  let ?present = "\<exists>r0 \<in> set (rows d). key_of [a, b] r0 = key_of [a, b] r"
  have cols: "set (columns ?G) = {a, b, ''mean'', ''std'', ''median'', ''count'',
                                  ''lower_bound'', ''upper_bound''}"
    using a b by (auto simp: with_bounds_def set_column_def groupby_agg_def)
  note G_key = grouped_key_iff [OF ab a(5,6) b(5,6) kept, of c ?stats "key_of [a, b] r"]
  from reindex_row_cases [OF r ab idx]
  show ?thesis
  proof
    assume "\<exists>r1 \<in> set (rows ?G). key_of [a, b] r1 = key_of [a, b] r
              \<and> (\<forall>c \<in> set (columns ?G). c \<noteq> a \<longrightarrow> c \<noteq> b \<longrightarrow> cell_at r c = cell_at r1 c)"
    then obtain r1 where r1: "r1 \<in> set (rows ?G)" "key_of [a, b] r1 = key_of [a, b] r"
      and copy0: "\<forall>c \<in> set (columns ?G). c \<noteq> a \<longrightarrow> c \<noteq> b \<longrightarrow> cell_at r c = cell_at r1 c"
      by blast
    have copy: "cell_at r ''mean'' = cell_at r1 ''mean''" "cell_at r ''std'' = cell_at r1 ''std''"
      "cell_at r ''count'' = cell_at r1 ''count''"
      "cell_at r ''lower_bound'' = cell_at r1 ''lower_bound''"
      "cell_at r ''upper_bound'' = cell_at r1 ''upper_bound''"
      using copy0 a b unfolding cols by simp_all
    from with_bounds_row [OF r1(1)] obtain r2 where r2: "r2 \<in> set (rows ?g)"
      and lo: "cell_at r1 ''lower_bound'' = cell_sub (cell_at r1 ''mean'') (cell_at r1 ''std'')"
      and up: "cell_at r1 ''upper_bound'' = cell_add (cell_at r1 ''mean'') (cell_at r1 ''std'')"
      and same: "\<forall>c. c \<noteq> ''lower_bound'' \<longrightarrow> c \<noteq> ''upper_bound'' \<longrightarrow> cell_at r1 c = cell_at r2 c"
      by blast
    from groupby_agg_row [OF r2 ab] obtain k where
      st: "\<forall>s \<in> set ?stats. s \<noteq> a \<longrightarrow> s \<noteq> b \<longrightarrow>
             cell_at r2 s = agg_stat s (nums (group_values [a, b] k c d))"
      by blast
    have "cell_at r2 ''count'' \<noteq> NaN"
      using st a b by (simp add: agg_stat_def count_of_def)
    then have cnt: "cell_at r1 ''count'' \<noteq> NaN" using same by simp
    have ex: ?present using G_key r1 by blast
    show ?thesis using lo up cnt ex by (simp add: copy)
  next
    assume "(\<forall>r1 \<in> set (rows ?G). key_of [a, b] r1 \<noteq> key_of [a, b] r)
              \<and> (\<forall>c. c \<noteq> a \<longrightarrow> c \<noteq> b \<longrightarrow> cell_at r c = NaN)"
    then have none: "\<forall>r1 \<in> set (rows ?G). key_of [a, b] r1 \<noteq> key_of [a, b] r"
      and nan: "\<forall>c. c \<noteq> a \<longrightarrow> c \<noteq> b \<longrightarrow> cell_at r c = NaN"
      by blast+
    have "\<not> ?present" using G_key none by blast
    moreover have "cell_at r ''mean'' = NaN" "cell_at r ''std'' = NaN" "cell_at r ''count'' = NaN"
      "cell_at r ''lower_bound'' = NaN" "cell_at r ''upper_bound'' = NaN"
      using nan a b by simp_all
    ultimately show ?thesis using nan by simp
  qed
qed

section \<open>The views on their accepted inputs\<close>

lemma filter_types_eq:
  "a < length (heap w) \<Longrightarrow>
   frame (snd (filter_types sel a w)) (fst (filter_types sel a w)) = type_filtered sel (frame w a)"
  by (simp add: filter_types_def type_filtered_def new_frame_def frame_def nth_append
      split: option.splits)

lemma filter_types_copy:
  assumes "filter_types sel (Suc (length (heap w))) (w\<lparr>heap := heap w @ [D, D]\<rparr>) = (a, w1)"
  shows "frame w1 a = type_filtered sel D \<and> (\<exists>h. w1 = w\<lparr>heap := heap w @ D # D # h\<rparr>)"
proof (cases "sel = None \<or> sel = Some []")
  case True
  then have "a = Suc (length (heap w))" "w1 = w\<lparr>heap := heap w @ D # D # []\<rparr>"
    using assms by (auto simp: filter_types_def)
  moreover have "type_filtered sel D = D" using True by (auto simp: type_filtered_def)
  ultimately show ?thesis by (auto simp: frame_def nth_append)
next
  case False
  then obtain ts where sel: "sel = Some ts" "ts \<noteq> []" by (cases sel) auto
  then have "a = Suc (Suc (length (heap w)))"
    "w1 = w\<lparr>heap := heap w @ D # D # [isin_rows ''post_type'' ts D]\<rparr>"
    using assms by (auto simp: filter_types_def new_frame_def frame_def nth_append)
  moreover have "type_filtered sel D = isin_rows ''post_type'' ts D"
    using sel by (simp add: type_filtered_def)
  ultimately show ?thesis by (auto simp: frame_def nth_append)
qed

lemma columns_type_filtered [simp]: "columns (type_filtered sel d) = columns d"
  by (simp add: type_filtered_def isin_rows_def split: option.splits)

lemma plot_average_metric_ok:
  assumes cols: "has_columns (frame w df) [metric, ''event_name'', ''time_period'']"
      and F: "F = dropna [metric, ''event_name'', ''time_period''] (frame w df)"
      and data: "rows F \<noteq> []"
      and nums: "\<not> holds_strings F metric"
      and wr: "path_join (REPORTS_DIR cfg) (prefix @ ''_by_time_period_and_event.txt'')
                 \<notin> set (unwritable w)"
              "path_join (FIGURES_DIR cfg) (prefix @ ''_by_time_period_and_event_extended.png'')
                 \<notin> set (unwritable w)"
  shows "plot_average_metric_by_time_and_event cfg df metric prefix title y_label w =
           (Returned,
            w\<lparr>heap := heap w @ [F, F],
              files := (files w)
                 (path_join (REPORTS_DIR cfg) (prefix @ ''_by_time_period_and_event.txt'')
                    \<mapsto> Text (text_header (''Average '' @ title_case (spaced metric)
                                              @ '' by Time Period and Event (incl. Range)''))
                             (time_event_table metric F),
                  path_join (FIGURES_DIR cfg) (prefix @ ''_by_time_period_and_event_extended.png'')
                    \<mapsto> Image ([Barplot (time_event_table metric F) ''time_period'' ''mean''
                                  ''event_name'' None,
                                Title title, Ylabel y_label, Xticks_rotation 15,
                                Legend (Some ''Event''), Tight_layout]
                               @ annotations (time_event_table metric F) ''time_period'' ''mean''
                                   ''event_name'' None)),
              logged := logged w @
                 [(INFO, ''Table data saved to: '' @ path_join (REPORTS_DIR cfg)
                            (prefix @ ''_by_time_period_and_event.txt'')),
                  (INFO, ''Plot saved to: '' @ path_join (FIGURES_DIR cfg)
                            (prefix @ ''_by_time_period_and_event_extended.png''))]\<rparr>)"
proof -
  have ne: "columns (frame w df) \<noteq> []" using cols by (rule has_columns_nonempty)
  show ?thesis
    using cols data nums wr ne unfolding F
    by (simp add: plot_average_metric_by_time_and_event_def dropna_copy_eq df_empty_def
        save_dataframe_as_text_eq seq_def render_eq Let_def)
qed

lemma plot_metric_by_type_ok:
  assumes cols: "has_columns (frame w df) [metric, ''event_name'', ''post_type'']"
      and F: "F = type_filtered sel (dropna [metric, ''event_name'', ''post_type''] (frame w df))"
      and data: "rows F \<noteq> []"
      and nums: "\<not> holds_strings F metric"
      and wr: "path_join (REPORTS_DIR cfg) (metric @ ''_by_post_type_and_event.txt'')
                 \<notin> set (unwritable w)"
              "path_join (FIGURES_DIR cfg) filename \<notin> set (unwritable w)"
  shows "\<exists>h. plot_metric_by_event_and_type cfg df metric title filename sel w =
           (Returned,
            w\<lparr>heap := heap w @ h,
              files := (files w)
                 (path_join (REPORTS_DIR cfg) (metric @ ''_by_post_type_and_event.txt'')
                    \<mapsto> Text (text_header (title_case (spaced metric) @ '' by Post Type and Event''))
                             (type_event_table metric F),
                  path_join (FIGURES_DIR cfg) filename
                    \<mapsto> Image ([Barplot (type_event_table metric F) ''post_type'' ''mean''
                                  ''event_name'' None,
                                Title title, Ylabel (''Mean '' @ title_case (spaced metric)),
                                Xticks_rotation 20, Legend (Some ''Event''), Tight_layout]
                               @ annotations (type_event_table metric F) ''post_type'' ''mean''
                                   ''event_name'' None)),
              logged := logged w @
                 [(INFO, ''Table data saved to: '' @ path_join (REPORTS_DIR cfg)
                            (metric @ ''_by_post_type_and_event.txt'')),
                  (INFO, ''Plot saved to: '' @ path_join (FIGURES_DIR cfg) filename)]\<rparr>)"
proof -
  let ?D = "dropna [metric, ''event_name'', ''post_type''] (frame w df)"
  have ne: "columns (frame w df) \<noteq> []" using cols by (rule has_columns_nonempty)
  obtain a w1 where ft: "filter_types sel (Suc (length (heap w))) (w\<lparr>heap := heap w @ [?D, ?D]\<rparr>) = (a, w1)"
    by fastforce
  from filter_types_copy [OF ft] obtain h where fr: "frame w1 a = F"
    and w1: "w1 = w\<lparr>heap := heap w @ ?D # ?D # h\<rparr>"
    unfolding F by blast
  have fr': "frame (w\<lparr>heap := heap w @ ?D # ?D # h\<rparr>) a = F" using fr w1 by simp
  have cF: "columns F \<noteq> []" using ne unfolding F by simp
  show ?thesis
    apply (rule exI [of _ "?D # ?D # h"])
    using cols data nums wr cF
    by (simp add: plot_metric_by_event_and_type_def dropna_copy_eq ft w1 fr' df_empty_def
        save_dataframe_as_text_eq seq_def render_eq Let_def)
qed

lemma keeps_subset: "keeps cs r \<Longrightarrow> set ds \<subseteq> set cs \<Longrightarrow> keeps ds r"
  by (auto simp: keeps_def list_all_iff)

lemma rows_dropna_keep: "r \<in> set (rows (dropna cs d)) \<Longrightarrow> keeps cs r"
  by (simp add: dropna_def)

lemma rows_type_filtered: "set (rows (type_filtered sel d)) \<subseteq> set (rows d)"
  by (auto simp: type_filtered_def isin_rows_def split: option.splits)

lemma time_event_table_props:
  assumes F: "F = dropna [metric, ''event_name'', ''time_period''] d"
  shows "map (key_of [''time_period'', ''event_name'']) (rows (time_event_table metric F))
           = from_product (map Str all_periods) (unique (column F ''event_name''))"
    and "length (rows (time_event_table metric F)) = 4 * length (unique (column F ''event_name''))"
    and "r \<in> set (rows (time_event_table metric F)) \<Longrightarrow>
           cell_at r ''lower_bound'' = cell_sub (cell_at r ''mean'') (cell_at r ''std'')
         \<and> cell_at r ''upper_bound'' = cell_add (cell_at r ''mean'') (cell_at r ''std'')
         \<and> (cell_at r ''count'' \<noteq> NaN)
             = (\<exists>r0 \<in> set (rows F). key_of [''time_period'', ''event_name''] r0
                                      = key_of [''time_period'', ''event_name''] r)
         \<and> (\<not> (\<exists>r0 \<in> set (rows F). key_of [''time_period'', ''event_name''] r0
                                      = key_of [''time_period'', ''event_name''] r) \<longrightarrow>
              (\<forall>c. c \<noteq> ''time_period'' \<longrightarrow> c \<noteq> ''event_name'' \<longrightarrow> cell_at r c = NaN))"
proof -
  have kept: "\<forall>r0 \<in> set (rows F). keeps [''time_period'', ''event_name''] r0"
    unfolding F by (auto dest!: rows_dropna_keep elim: keeps_subset)
  show "map (key_of [''time_period'', ''event_name'']) (rows (time_event_table metric F))
           = from_product (map Str all_periods) (unique (column F ''event_name''))"
    unfolding time_event_table_def by (rule keys_reindex) (simp_all add: from_product_pairs)
  show "length (rows (time_event_table metric F)) = 4 * length (unique (column F ''event_name''))"
    by (simp add: time_event_table_def rows_reindex length_from_product all_periods_def)
  show "cell_at r ''lower_bound'' = cell_sub (cell_at r ''mean'') (cell_at r ''std'')
         \<and> cell_at r ''upper_bound'' = cell_add (cell_at r ''mean'') (cell_at r ''std'')
         \<and> (cell_at r ''count'' \<noteq> NaN)
             = (\<exists>r0 \<in> set (rows F). key_of [''time_period'', ''event_name''] r0
                                      = key_of [''time_period'', ''event_name''] r)
         \<and> (\<not> (\<exists>r0 \<in> set (rows F). key_of [''time_period'', ''event_name''] r0
                                      = key_of [''time_period'', ''event_name''] r) \<longrightarrow>
              (\<forall>c. c \<noteq> ''time_period'' \<longrightarrow> c \<noteq> ''event_name'' \<longrightarrow> cell_at r c = NaN))"
    if "r \<in> set (rows (time_event_table metric F))"
    using that unfolding time_event_table_def
    by (rule reindexed_table_row) (simp_all add: from_product_pairs kept)
qed

lemma type_event_table_props:
  assumes F: "F = type_filtered sel (dropna [metric, ''event_name'', ''post_type''] d)"
  shows "map (key_of [''post_type'', ''event_name'']) (rows (type_event_table metric F))
           = from_product (unique (column F ''post_type'')) (unique (column F ''event_name''))"
    and "length (rows (type_event_table metric F))
           = length (unique (column F ''post_type'')) * length (unique (column F ''event_name''))"
    and "r \<in> set (rows (type_event_table metric F)) \<Longrightarrow>
           cell_at r ''lower_bound'' = cell_sub (cell_at r ''mean'') (cell_at r ''std'')
         \<and> cell_at r ''upper_bound'' = cell_add (cell_at r ''mean'') (cell_at r ''std'')
         \<and> (cell_at r ''count'' \<noteq> NaN)
             = (\<exists>r0 \<in> set (rows F). key_of [''post_type'', ''event_name''] r0
                                      = key_of [''post_type'', ''event_name''] r)
         \<and> (\<not> (\<exists>r0 \<in> set (rows F). key_of [''post_type'', ''event_name''] r0
                                      = key_of [''post_type'', ''event_name''] r) \<longrightarrow>
              (\<forall>c. c \<noteq> ''post_type'' \<longrightarrow> c \<noteq> ''event_name'' \<longrightarrow> cell_at r c = NaN))"
proof -
  have kept: "\<forall>r0 \<in> set (rows F). keeps [''post_type'', ''event_name''] r0"
  proof
    fix r0 assume "r0 \<in> set (rows F)"
    then have "r0 \<in> set (rows (dropna [metric, ''event_name'', ''post_type''] d))"
      unfolding F using rows_type_filtered by blast
    then have "keeps [metric, ''event_name'', ''post_type''] r0" by (rule rows_dropna_keep)
    then show "keeps [''post_type'', ''event_name''] r0" by (rule keeps_subset) auto
  qed
  show "map (key_of [''post_type'', ''event_name'']) (rows (type_event_table metric F))
           = from_product (unique (column F ''post_type'')) (unique (column F ''event_name''))"
    unfolding type_event_table_def by (rule keys_reindex) (simp_all add: from_product_pairs)
  show "length (rows (type_event_table metric F))
           = length (unique (column F ''post_type'')) * length (unique (column F ''event_name''))"
    by (simp add: type_event_table_def rows_reindex length_from_product)
  show "cell_at r ''lower_bound'' = cell_sub (cell_at r ''mean'') (cell_at r ''std'')
         \<and> cell_at r ''upper_bound'' = cell_add (cell_at r ''mean'') (cell_at r ''std'')
         \<and> (cell_at r ''count'' \<noteq> NaN)
             = (\<exists>r0 \<in> set (rows F). key_of [''post_type'', ''event_name''] r0
                                      = key_of [''post_type'', ''event_name''] r)
         \<and> (\<not> (\<exists>r0 \<in> set (rows F). key_of [''post_type'', ''event_name''] r0
                                      = key_of [''post_type'', ''event_name''] r) \<longrightarrow>
              (\<forall>c. c \<noteq> ''post_type'' \<longrightarrow> c \<noteq> ''event_name'' \<longrightarrow> cell_at r c = NaN))"
    if "r \<in> set (rows (type_event_table metric F))"
    using that unfolding type_event_table_def
    by (rule reindexed_table_row) (simp_all add: from_product_pairs kept)
qed

lemma save_after_draw:
  "open_figs w1 = fs @ [(fresh_fig fs, [])] \<Longrightarrow>
   save_plot cfg (fresh_fig fs) name (draw_all arts w1) =
     (if path_join (FIGURES_DIR cfg) name \<in> set (unwritable w1)
      then (Raised OSError, w1\<lparr>open_figs := fs @ [(fresh_fig fs, arts)]\<rparr>)
      else (Returned, w1\<lparr>open_figs := fs,
                         files := (files w1)(path_join (FIGURES_DIR cfg) name \<mapsto> Image arts),
                         logged := logged w1 @ [(INFO, ''Plot saved to: ''
                                                   @ path_join (FIGURES_DIR cfg) name)]\<rparr>))"
proof -
  assume o: "open_figs w1 = fs @ [(fresh_fig fs, [])]"
  then have d: "draw_all arts w1 = w1\<lparr>open_figs := fs @ [(fresh_fig fs, arts)]\<rparr>"
    by (simp add: draw_all_open)
  show ?thesis
    unfolding d by (simp add: save_plot_fresh [where fs = fs and c = arts])
qed

lemma histogram_step_eq:
  "\<exists>h arts lg. histogram_step cfg df feature title x_label bin_count prefix vals w =
     (if path_join (FIGURES_DIR cfg) (prefix @ feature @ ''_histogram_extended.png'')
           \<in> set (unwritable w)
      then (Raised OSError,
            w\<lparr>heap := heap w @ h,
              open_figs := open_figs w @ [(fresh_fig (open_figs w), arts)],
              logged := logged w @ lg\<rparr>)
      else (Returned,
            w\<lparr>heap := heap w @ h,
              files := (files w)
                 (path_join (FIGURES_DIR cfg) (prefix @ feature @ ''_histogram_extended.png'')
                    \<mapsto> Image arts),
              logged := logged w @ lg
                 @ [(INFO, ''Plot saved to: '' @ path_join (FIGURES_DIR cfg)
                            (prefix @ feature @ ''_histogram_extended.png''))]\<rparr>))"
proof -
  let ?png = "path_join (FIGURES_DIR cfg) (prefix @ feature @ ''_histogram_extended.png'')"
  let ?labels = "[Title title, Xlabel x_label, Ylabel ''Count'', Tight_layout]"
  let ?w1 = "w\<lparr>open_figs := open_figs w @ [(fresh_fig (open_figs w), [])]\<rparr>"
  let ?D = "dropna [feature, ''event_name''] (frame w df)"
  have fr: "frame ?w1 df = frame w df" by (simp add: frame_def)
  consider (plain) "\<not> (''event_name'' \<in> set (columns (frame w df))
                        \<and> nunique (column (frame w df) ''event_name'') > 1)"
    | (hue) "''event_name'' \<in> set (columns (frame w df))"
        "nunique (column (frame w df) ''event_name'') > 1" "\<not> df_empty ?D"
    | (fallback) "''event_name'' \<in> set (columns (frame w df))"
        "nunique (column (frame w df) ''event_name'') > 1" "df_empty ?D"
    by blast
  then show ?thesis
  proof cases
    case plain
    then have e: "histogram_step cfg df feature title x_label bin_count prefix vals w =
        save_plot cfg (fresh_fig (open_figs w)) (prefix @ feature @ ''_histogram_extended.png'')
          (draw_all (Histplot_values vals bin_count True None # ?labels) ?w1)"
      by (auto simp: histogram_step_def plt_figure_def Let_def fr)
    have o: "open_figs ?w1 = open_figs w @ [(fresh_fig (open_figs w), [])]" by simp
    show ?thesis
      apply (rule exI [of _ "[]"])
      apply (rule exI [of _ "Histplot_values vals bin_count True None # ?labels"])
      apply (rule exI [of _ "[]"])
      unfolding e save_after_draw [OF o] by simp
  next
    case hue
    then have e: "histogram_step cfg df feature title x_label bin_count prefix vals w =
        save_plot cfg (fresh_fig (open_figs w)) (prefix @ feature @ ''_histogram_extended.png'')
          (draw_all (Histplot ?D feature (Some ''event_name'') (Some bin_count) True # ?labels)
             (?w1\<lparr>heap := heap w @ [?D, ?D]\<rparr>))"
      by (simp add: histogram_step_def plt_figure_def Let_def dropna_copy_eq frame_def nth_append)
    have o: "open_figs (?w1\<lparr>heap := heap w @ [?D, ?D]\<rparr>)
               = open_figs w @ [(fresh_fig (open_figs w), [])]" by simp
    show ?thesis
      apply (rule exI [of _ "[?D, ?D]"])
      apply (rule exI [of _ "Histplot ?D feature (Some ''event_name'') (Some bin_count) True
                              # ?labels"])
      apply (rule exI [of _ "[]"])
      unfolding e save_after_draw [OF o] by simp
  next
    case fallback
    let ?m = "''No valid data for feature '' @ quoted feature @ '' with '' @ quoted ''event_name''
                @ '' after filtering NaNs. Plotting without hue.''"
    from fallback have e: "histogram_step cfg df feature title x_label bin_count prefix vals w =
        save_plot cfg (fresh_fig (open_figs w)) (prefix @ feature @ ''_histogram_extended.png'')
          (draw_all (Histplot_values vals bin_count True None # ?labels)
             (?w1\<lparr>heap := heap w @ [?D, ?D], logged := logged w @ [(WARNING, ?m)]\<rparr>))"
      by (simp add: histogram_step_def plt_figure_def Let_def dropna_copy_eq log_msg_def
          frame_def nth_append)
    have o: "open_figs (?w1\<lparr>heap := heap w @ [?D, ?D], logged := logged w @ [(WARNING, ?m)]\<rparr>)
               = open_figs w @ [(fresh_fig (open_figs w), [])]" by simp
    show ?thesis
      apply (rule exI [of _ "[?D, ?D]"])
      apply (rule exI [of _ "Histplot_values vals bin_count True None # ?labels"])
      apply (rule exI [of _ "[(WARNING, ?m)]"])
      unfolding e save_after_draw [OF o] by simp
  qed
qed

lemma length_linspace: "length (linspace a b n) = n"
  by (simp add: linspace_def)

lemma hd_linspace: "0 < n \<Longrightarrow> hd (linspace a b n) = a"
  by (simp add: linspace_def hd_map upt_conv_Cons)

lemma last_linspace: "2 \<le> n \<Longrightarrow> last (linspace a b n) = b"
  by (simp add: linspace_def last_map)

lemma sorted_linspace:
  assumes "a \<le> b"
  shows "sorted (linspace a b n)"
proof -
  define s where "s = (b - a) / real (n - 1)"
  have step: "0 \<le> s" using assms by (simp add: s_def)
  have mono: "real i * s \<le> real j * s" if "i < j" for i j :: nat
    using that step by (intro mult_right_mono) simp_all
  have "sorted_wrt (\<lambda>i j. a + real i * s \<le> a + real j * s) [0..<n]"
    by (rule sorted_wrt_mono_rel [of _ "(<)"]) (simp_all add: mono)
  then show ?thesis by (simp add: linspace_def sorted_wrt_map s_def)
qed

lemma least_Min: "xs \<noteq> [] \<Longrightarrow> least xs = Min (set xs)"
  by (cases xs) (simp_all add: least_def Min.set_eq_fold [symmetric])

lemma greatest_Max: "xs \<noteq> [] \<Longrightarrow> greatest xs = Max (set xs)"
  by (cases xs) (simp_all add: greatest_def Max.set_eq_fold [symmetric])

lemma least_le_greatest: "xs \<noteq> [] \<Longrightarrow> least xs \<le> greatest xs"
  by (simp add: least_Min greatest_Max)


section \<open>The table and the bars of the day-of-week view\<close>

lemma distinct_insort_key: "distinct ls \<Longrightarrow> k \<notin> set ls \<Longrightarrow> distinct (insort_key k ls)"
  by (induction ls) (auto simp: set_insort_key)

lemma distinct_sort_keys: "distinct ks \<Longrightarrow> distinct (sort_keys ks)"
proof (induction ks)
  case Nil
  then show ?case by (simp add: sort_keys_def)
next
  case (Cons k ks)
  then have "distinct (sort_keys ks)" "k \<notin> set (sort_keys ks)"
    by (simp_all add: set_sort_keys)
  then have "distinct (insort_key k (sort_keys ks))" by (rule distinct_insort_key)
  then show ?case by (simp add: sort_keys_def)
qed

lemma distinct_group_keys: "distinct (group_keys ks d)"
  unfolding group_keys_def by (rule distinct_sort_keys) (rule distinct_unique)

lemma keys_groupby_mean:
  assumes "a \<noteq> b"
  shows "map (key_of [a, b]) (rows (groupby_mean [a, b] c d)) = group_keys [a, b] d"
proof -
  have "key_of [a, b] (zip [a, b] k @ rest) = k" if "k \<in> set (group_keys [a, b] d)" for k rest
  proof -
    from pair_key [OF length_group_key [OF that]] obtain x y where "k = [x, y]" by blast
    then show ?thesis using assms by (simp add: key_of_def cell_at_def)
  qed
  then show ?thesis by (simp add: groupby_mean_def map_idI)
qed

lemma day_table_keys:
  "map (key_of [''day_of_week'', ''event_name'']) (rows (day_table c d))
     = group_keys [''day_of_week'', ''event_name''] d"
  unfolding day_table_def by (rule keys_groupby_mean) simp

lemma update_second_new: "(xs @ [a, b])[Suc (length xs) := c] = xs @ [a, c]"
  by (simp add: list_update_append)

lemma engagement_per_day_ok:
  assumes cols: "has_columns (frame w df) [time_col, engagement_col, ''event_name'']"
      and F: "F = dropna [time_col, engagement_col, ''event_name''] (frame w df)"
      and data: "rows F \<noteq> []"
      and stamps: "\<not> list_ex (\<lambda>v. to_datetime v = None) (column F time_col)"
      and D: "D = set_column ''day_of_week'' (\<lambda>r. day_cell (cell_at r time_col))
                    (set_column time_col (\<lambda>r. stamp_cell to_datetime (cell_at r time_col)) F)"
      and nums: "\<not> holds_strings D engagement_col"
      and wr: "path_join (FIGURES_DIR cfg) filename \<notin> set (unwritable w)"
  shows "plot_engagement_per_day cfg to_datetime df time_col engagement_col filename w =
           (Returned,
            w\<lparr>heap := heap w @ [F, D],
              files := (files w)(path_join (FIGURES_DIR cfg) filename \<mapsto>
                 Image [Barplot (day_table engagement_col D) ''day_of_week'' engagement_col
                          ''event_name'' (Some day_order),
                        Title (''Average '' @ title_case (spaced engagement_col)
                                 @ '' by Day of Week and Event''),
                        Xticks_rotation 20, Tight_layout]),
              logged := logged w @
                 [(INFO, ''Plot saved to: '' @ path_join (FIGURES_DIR cfg) filename)]\<rparr>)"
proof -
  have ne: "columns (frame w df) \<noteq> []" using cols by (rule has_columns_nonempty)
  show ?thesis
    using cols data stamps nums wr ne unfolding D F
    by (simp add: plot_engagement_per_day_def dropna_copy_eq df_empty_def set_frame_def
        frame_def nth_append render_eq Let_def update_second_new)
qed

lemma filter_key_distinct:
  "distinct ks \<Longrightarrow> filter (\<lambda>k. k = a) ks = (if a \<in> set ks then [a] else [])"
  by (induction ks) auto

lemma mean_of_single: "mean_of (nums [mean_of xs]) = mean_of xs"
  by (simp add: mean_of_def)

lemma bar_of_day_table:
  assumes c: "c \<noteq> ''day_of_week''" "c \<noteq> ''event_name''" and xh: "x \<noteq> NaN" "h \<noteq> NaN"
  shows "mean_of (nums (map (\<lambda>r. cell_at r c)
           (filter (\<lambda>r. cell_at r ''day_of_week'' = x \<and> cell_at r ''event_name'' = h)
                   (rows (day_table c d)))))
         = mean_of (nums (map (\<lambda>r. cell_at r c)
             (filter (\<lambda>r. key_of [''day_of_week'', ''event_name''] r = [x, h]) (rows d))))"
proof -
  let ?ks = "[''day_of_week'', ''event_name'']"
  let ?mk = "\<lambda>k. zip ?ks k @ [(c, mean_of (nums (group_values ?ks k c d)))]"
  have cells: "cell_at (?mk k) ''day_of_week'' = k ! 0 \<and> cell_at (?mk k) ''event_name'' = k ! 1
               \<and> cell_at (?mk k) c = mean_of (nums (group_values ?ks k c d))"
    if "k \<in> set (group_keys ?ks d)" for k
  proof -
    from pair_key [OF length_group_key [OF that]] obtain u v where "k = [u, v]" by blast
    then show ?thesis using c by (simp add: cell_at_def)
  qed
  have sel: "(cell_at (?mk k) ''day_of_week'' = x \<and> cell_at (?mk k) ''event_name'' = h) = (k = [x, h])"
    if "k \<in> set (group_keys ?ks d)" for k
  proof -
    from pair_key [OF length_group_key [OF that]] obtain u v where "k = [u, v]" by blast
    then show ?thesis by (simp add: cell_at_def)
  qed
  have "filter (\<lambda>r. cell_at r ''day_of_week'' = x \<and> cell_at r ''event_name'' = h)
          (rows (day_table c d))
        = map ?mk (filter (\<lambda>k. k = [x, h]) (group_keys ?ks d))"
    unfolding day_table_def groupby_mean_def
    by (simp add: filter_map comp_def sel cong: filter_cong)
  also have "\<dots> = (if [x, h] \<in> set (group_keys ?ks d) then [?mk [x, h]] else [])"
    by (simp add: filter_key_distinct [OF distinct_group_keys])
  finally have f: "filter (\<lambda>r. cell_at r ''day_of_week'' = x \<and> cell_at r ''event_name'' = h)
          (rows (day_table c d))
        = (if [x, h] \<in> set (group_keys ?ks d) then [?mk [x, h]] else [])" .
  show ?thesis
  proof (cases "[x, h] \<in> set (group_keys ?ks d)")
    case True
    then show ?thesis
      unfolding f using cells [OF True]
      by (simp add: mean_of_single group_values_def)
  next
    case False
    have "filter (\<lambda>r. key_of ?ks r = [x, h]) (rows d) = []"
    proof (rule ccontr)
      assume "filter (\<lambda>r. key_of ?ks r = [x, h]) (rows d) \<noteq> []"
      then obtain r where r: "r \<in> set (rows d)" "key_of ?ks r = [x, h]"
        by (auto simp: filter_empty_conv)
      then have "keeps ?ks r" using xh by (simp add: keeps_def key_of_def)
      with r have "[x, h] \<in> key_of ?ks ` {r \<in> set (rows d). keeps ?ks r}" by force
      with False show False by (simp add: set_group_keys)
    qed
    then show ?thesis unfolding f using False by simp
  qed
qed

section \<open>Sequencing, paths and what a step leaves alone\<close>

lemma seq_Returned: "f w = (Returned, w1) \<Longrightarrow> seq f g w = g w1"
  by (simp add: seq_def)

lemma seq_Raised: "f w = (Raised e, w1) \<Longrightarrow> seq f g w = (Raised e, w1)"
  by (simp add: seq_def)

lemma last_path_join: "b \<noteq> [] \<Longrightarrow> last (path_join a b) = last b"
  by (simp add: path_join_def)

lemma path_join_suffix:
  "s \<noteq> t \<Longrightarrow> hd s \<noteq> CHR ''/'' \<Longrightarrow> hd t \<noteq> CHR ''/'' \<Longrightarrow> s \<noteq> [] \<Longrightarrow> t \<noteq> []
     \<Longrightarrow> path_join a (p @ s) \<noteq> path_join a (p @ t)"
  by (auto simp: path_join_def hd_append)

lemma length_nums: "\<not> list_ex is_str vs \<Longrightarrow> NaN \<notin> set vs \<Longrightarrow> length (nums vs) = length vs"
  by (induction vs rule: nums.induct) auto

lemma categorical_order_no_nan: "h \<in> set (categorical_order vs) \<Longrightarrow> h \<noteq> NaN"
  by (auto simp: categorical_order_def Let_def set_unique split: if_splits)

lemmas effect_defs = dropna_copy_eq render_eq save_dataframe_as_text_eq seq_def log_msg_def
  Let_def








section \<open>What every view leaves alone\<close>

lemma filter_types_copy_eq:
  "filter_types sel (Suc (length (heap w))) (w\<lparr>heap := heap w @ [D, D]\<rparr>) =
     (if sel = None \<or> sel = Some [] then (Suc (length (heap w)), w\<lparr>heap := heap w @ [D, D]\<rparr>)
      else (Suc (Suc (length (heap w))),
            w\<lparr>heap := heap w @ [D, D, isin_rows ''post_type'' (the sel) D]\<rparr>))"
  by (cases sel) (simp_all add: filter_types_def new_frame_def frame_def nth_append)

lemma keeps_frames_seq:
  assumes "keeps_frames f" "keeps_frames g"
  shows "keeps_frames (seq f g)"
  unfolding keeps_frames_def
proof
  fix w
  obtain r w1 where f: "f w = (r, w1)" by fastforce
  have 1: "take (length (heap w)) (heap w1) = heap w"
    using assms(1) f by (auto simp: keeps_frames_def dest: spec [of _ w])
  show "take (length (heap w)) (heap (snd (seq f g w))) = heap w"
  proof (cases r)
    case Returned
    have 2: "take (length (heap w1)) (heap (snd (g w1))) = heap w1"
      using assms(2) by (simp add: keeps_frames_def)
    have "length (take (length (heap w)) (heap w1)) = length (heap w)" using 1 by simp
    then have le: "length (heap w) \<le> length (heap w1)" by simp
    have "take (length (heap w)) (heap (snd (g w1)))
            = take (length (heap w)) (take (length (heap w1)) (heap (snd (g w1))))"
      using le by (simp add: min_def)
    also have "\<dots> = heap w" unfolding 2 by (rule 1)
    finally show ?thesis using f Returned by (simp add: seq_def)
  next
    case (Raised e)
    then show ?thesis using f 1 by (simp add: seq_def)
  qed
qed

lemma closes_figures_seq:
  assumes "closes_figures f" "closes_figures g"
  shows "closes_figures (seq f g)"
  unfolding closes_figures_def
proof (intro allI impI)
  fix w
  assume r: "fst (seq f g w) = Returned"
  obtain r1 w1 where f: "f w = (r1, w1)" by fastforce
  have r1: "r1 = Returned" using r f by (cases r1) (simp_all add: seq_def)
  have 1: "open_figs w1 = open_figs w"
    using assms(1) f r1 by (auto simp: closes_figures_def dest: spec [of _ w])
  have s: "seq f g w = g w1" using f r1 by (simp add: seq_def)
  have "open_figs (snd (g w1)) = open_figs w1"
    using assms(2) r unfolding s by (simp add: closes_figures_def)
  then show "open_figs (snd (seq f g w)) = open_figs w" unfolding s 1 .
qed

lemma kf_save_text: "keeps_frames (save_dataframe_as_text cfg t name title)"
  by (simp add: keeps_frames_def save_dataframe_as_text_eq)

lemma cf_save_text: "closes_figures (save_dataframe_as_text cfg t name title)"
  by (simp add: closes_figures_def save_dataframe_as_text_eq)

lemma kf_kde_step: "keeps_frames (kde_step cfg gaussian_kde feature prefix vals)"
  by (simp add: keeps_frames_def kde_step_def save_dataframe_as_text_eq log_msg_def
      split: sum.splits)

lemma cf_kde_step: "closes_figures (kde_step cfg gaussian_kde feature prefix vals)"
  by (simp add: closes_figures_def kde_step_def save_dataframe_as_text_eq log_msg_def
      split: sum.splits)

lemma kf_histogram_step:
  "keeps_frames (histogram_step cfg df feature title x_label bins prefix vals)"
  unfolding keeps_frames_def
proof
  fix w
  from histogram_step_eq [of cfg df feature title x_label bins prefix vals w]
  show "take (length (heap w))
          (heap (snd (histogram_step cfg df feature title x_label bins prefix vals w))) = heap w"
    by (auto split: if_splits)
qed

lemma cf_histogram_step:
  "closes_figures (histogram_step cfg df feature title x_label bins prefix vals)"
  unfolding closes_figures_def
proof (intro allI impI)
  fix w
  assume "fst (histogram_step cfg df feature title x_label bins prefix vals w) = Returned"
  with histogram_step_eq [of cfg df feature title x_label bins prefix vals w]
  show "open_figs (snd (histogram_step cfg df feature title x_label bins prefix vals w))
          = open_figs w"
    by (auto split: if_splits)
qed

lemma kf_feature:
  "keeps_frames (plot_feature_distribution cfg gaussian_kde df feature title x_label bins prefix)"
proof -
  have s: "keeps_frames (seq (save_dataframe_as_text cfg t name ti)
             (seq (kde_step cfg gaussian_kde feature prefix vals)
                (histogram_step cfg df feature title x_label bins prefix vals)))" for t name ti vals
    by (intro keeps_frames_seq kf_save_text kf_kde_step kf_histogram_step)
  show ?thesis
    using s unfolding keeps_frames_def
    by (simp add: plot_feature_distribution_def log_msg_def Let_def)
qed

lemma cf_feature:
  "closes_figures (plot_feature_distribution cfg gaussian_kde df feature title x_label bins
     prefix)"
proof -
  have s: "closes_figures (seq (save_dataframe_as_text cfg t name ti)
             (seq (kde_step cfg gaussian_kde feature prefix vals)
                (histogram_step cfg df feature title x_label bins prefix vals)))" for t name ti vals
    by (intro closes_figures_seq cf_save_text cf_kde_step cf_histogram_step)
  show ?thesis
    using s unfolding closes_figures_def
    by (simp add: plot_feature_distribution_def log_msg_def Let_def)
qed

lemma sq_feature:
  "skips_quietly (\<lambda>df. plot_feature_distribution cfg gaussian_kde df feature title x_label bins
                          prefix) [feature]"
proof -
  have e: "(filter (\<lambda>v. v \<noteq> NaN) (column d feature) = []) = (rows (dropna [feature] d) = [])" for d
    by (simp add: column_def dropna_def keeps_def filter_empty_conv)
  show ?thesis
    unfolding skips_quietly_def
    apply (intro allI conjI impI)
     apply (rule exI, simp add: plot_feature_distribution_def has_columns_def)
    apply (rule exI, rule exI [of _ "[]"])
    apply (simp add: plot_feature_distribution_def has_columns_def e)
    done
qed

lemma by_type_unfold:
  assumes cols: "has_columns (frame w df) [metric, ''event_name'', ''post_type'']"
  shows "\<exists>h. plot_metric_by_event_and_type cfg df metric title filename sel w =
           (let F = type_filtered sel (dropna [metric, ''event_name'', ''post_type''] (frame w df));
                w1 = w\<lparr>heap := heap w @ h\<rparr>
            in if df_empty F then
                 (Returned, log_msg WARNING (''No valid data to plot average '' @ quoted metric
                    @ '' by post type after filtering NaNs/types. Skipping plot.'') w1)
               else if holds_strings F metric then (Raised TypeError, w1)
               else seq (save_dataframe_as_text cfg (type_event_table metric F)
                          (metric @ ''_by_post_type_and_event.txt'')
                          (title_case (spaced metric) @ '' by Post Type and Event''))
                       (render cfg
                          ([Barplot (type_event_table metric F) ''post_type'' ''mean''
                              ''event_name'' None,
                            Title title, Ylabel (''Mean '' @ title_case (spaced metric)),
                            Xticks_rotation 20, Legend (Some ''Event''), Tight_layout]
                           @ annotations (type_event_table metric F) ''post_type'' ''mean''
                               ''event_name'' None)
                          filename) w1)"
proof -
  let ?D = "dropna [metric, ''event_name'', ''post_type''] (frame w df)"
  obtain a w1 where ft: "filter_types sel (Suc (length (heap w))) (w\<lparr>heap := heap w @ [?D, ?D]\<rparr>)
                           = (a, w1)"
    by fastforce
  from filter_types_copy [OF ft] obtain h where fr: "frame w1 a = type_filtered sel ?D"
    and w1: "w1 = w\<lparr>heap := heap w @ ?D # ?D # h\<rparr>"
    by blast
  have fr': "frame (w\<lparr>heap := heap w @ ?D # ?D # h\<rparr>) a = type_filtered sel ?D"
    using fr w1 by simp
  show ?thesis
    apply (rule exI [of _ "?D # ?D # h"])
    using cols
    by (simp add: plot_metric_by_event_and_type_def dropna_copy_eq ft w1 fr' Let_def)
qed

lemma kf_by_type:
  "keeps_frames (plot_metric_by_event_and_type cfg df metric title filename sel)"
  unfolding keeps_frames_def
proof
  fix w
  show "take (length (heap w))
          (heap (snd (plot_metric_by_event_and_type cfg df metric title filename sel w))) = heap w"
  proof (cases "has_columns (frame w df) [metric, ''event_name'', ''post_type'']")
    case True
    from by_type_unfold [OF True, of cfg title filename sel] obtain h where
      "plot_metric_by_event_and_type cfg df metric title filename sel w =
           (let F = type_filtered sel (dropna [metric, ''event_name'', ''post_type''] (frame w df));
                w1 = w\<lparr>heap := heap w @ h\<rparr>
            in if df_empty F then
                 (Returned, log_msg WARNING (''No valid data to plot average '' @ quoted metric
                    @ '' by post type after filtering NaNs/types. Skipping plot.'') w1)
               else if holds_strings F metric then (Raised TypeError, w1)
               else seq (save_dataframe_as_text cfg (type_event_table metric F)
                          (metric @ ''_by_post_type_and_event.txt'')
                          (title_case (spaced metric) @ '' by Post Type and Event''))
                       (render cfg
                          ([Barplot (type_event_table metric F) ''post_type'' ''mean''
                              ''event_name'' None,
                            Title title, Ylabel (''Mean '' @ title_case (spaced metric)),
                            Xticks_rotation 20, Legend (Some ''Event''), Tight_layout]
                           @ annotations (type_event_table metric F) ''post_type'' ''mean''
                               ''event_name'' None)
                          filename) w1)"
      by blast
    then show ?thesis
      by (simp add: Let_def log_msg_def save_dataframe_as_text_eq render_eq seq_def)
  next
    case False
    then show ?thesis
      by (simp add: plot_metric_by_event_and_type_def log_msg_def)
  qed
qed

lemma cf_by_type:
  "closes_figures (plot_metric_by_event_and_type cfg df metric title filename sel)"
  unfolding closes_figures_def
proof (intro allI impI)
  fix w
  assume r: "fst (plot_metric_by_event_and_type cfg df metric title filename sel w) = Returned"
  show "open_figs (snd (plot_metric_by_event_and_type cfg df metric title filename sel w))
          = open_figs w"
  proof (cases "has_columns (frame w df) [metric, ''event_name'', ''post_type'']")
    case True
    from by_type_unfold [OF True, of cfg title filename sel] obtain h where
      "plot_metric_by_event_and_type cfg df metric title filename sel w =
           (let F = type_filtered sel (dropna [metric, ''event_name'', ''post_type''] (frame w df));
                w1 = w\<lparr>heap := heap w @ h\<rparr>
            in if df_empty F then
                 (Returned, log_msg WARNING (''No valid data to plot average '' @ quoted metric
                    @ '' by post type after filtering NaNs/types. Skipping plot.'') w1)
               else if holds_strings F metric then (Raised TypeError, w1)
               else seq (save_dataframe_as_text cfg (type_event_table metric F)
                          (metric @ ''_by_post_type_and_event.txt'')
                          (title_case (spaced metric) @ '' by Post Type and Event''))
                       (render cfg
                          ([Barplot (type_event_table metric F) ''post_type'' ''mean''
                              ''event_name'' None,
                            Title title, Ylabel (''Mean '' @ title_case (spaced metric)),
                            Xticks_rotation 20, Legend (Some ''Event''), Tight_layout]
                           @ annotations (type_event_table metric F) ''post_type'' ''mean''
                               ''event_name'' None)
                          filename) w1)"
      by blast
    with r show ?thesis
      by (simp add: Let_def log_msg_def save_dataframe_as_text_eq render_eq seq_def
          split: if_splits)
  next
    case False
    then show ?thesis
      by (simp add: plot_metric_by_event_and_type_def log_msg_def)
  qed
qed

lemma rows_type_filtered_empty: "rows d = [] \<Longrightarrow> rows (type_filtered sel d) = []"
  by (simp add: type_filtered_def isin_rows_def split: option.splits)

lemma sq_by_type:
  "skips_quietly (\<lambda>df. plot_metric_by_event_and_type cfg df metric title filename sel)
     [metric, ''event_name'', ''post_type'']"
  unfolding skips_quietly_def
proof (intro allI conjI impI)
  fix w df
  assume "\<not> has_columns (frame w df) [metric, ''event_name'', ''post_type'']"
  then show "\<exists>m. plot_metric_by_event_and_type cfg df metric title filename sel w
               = (Returned, log_msg ERROR m w)"
    by (auto simp: plot_metric_by_event_and_type_def)
next
  fix w df
  assume a: "has_columns (frame w df) [metric, ''event_name'', ''post_type'']
             \<and> rows (dropna [metric, ''event_name'', ''post_type''] (frame w df)) = []"
  then have e: "df_empty (type_filtered sel
                   (dropna [metric, ''event_name'', ''post_type''] (frame w df)))"
    by (simp add: df_empty_def rows_type_filtered_empty)
  from a by_type_unfold [of w df metric cfg title filename sel] e
  show "\<exists>m h. plot_metric_by_event_and_type cfg df metric title filename sel w
               = (Returned, log_msg WARNING m (w\<lparr>heap := heap w @ h\<rparr>))"
    by (auto simp: Let_def)
qed


lemma kf_comparison:
  "keeps_frames (plot_distribution_comparison cfg df feature title y_label prefix plot_type)"
  by (simp add: keeps_frames_def plot_distribution_comparison_def effect_defs plt_figure_def
      plt_close_def save_after_draw)

lemma cf_comparison:
  "closes_figures (plot_distribution_comparison cfg df feature title y_label prefix plot_type)"
  by (simp add: closes_figures_def plot_distribution_comparison_def effect_defs plt_figure_def
      plt_close_def save_after_draw)

lemma sq_comparison:
  "skips_quietly (\<lambda>df. plot_distribution_comparison cfg df feature title y_label prefix plot_type)
     [feature, ''event_name'']"
  by (auto simp: skips_quietly_def plot_distribution_comparison_def effect_defs df_empty_def)

lemma kf_per_day:
  "keeps_frames (plot_engagement_per_day cfg to_datetime df time_col engagement_col filename)"
  by (simp add: keeps_frames_def plot_engagement_per_day_def effect_defs set_frame_def)

lemma cf_per_day:
  "closes_figures (plot_engagement_per_day cfg to_datetime df time_col engagement_col filename)"
  by (simp add: closes_figures_def plot_engagement_per_day_def effect_defs set_frame_def)

lemma sq_per_day:
  "skips_quietly (\<lambda>df. plot_engagement_per_day cfg to_datetime df time_col engagement_col filename)
     [time_col, engagement_col, ''event_name'']"
  by (auto simp: skips_quietly_def plot_engagement_per_day_def effect_defs df_empty_def)

lemma kf_pearson:
  "keeps_frames (plot_pearson_correlation cfg as_list is_numeric_dtype df filename)"
  by (simp add: keeps_frames_def plot_pearson_correlation_def effect_defs new_frame_def)

lemma cf_pearson:
  "closes_figures (plot_pearson_correlation cfg as_list is_numeric_dtype df filename)"
  by (simp add: closes_figures_def plot_pearson_correlation_def effect_defs new_frame_def)


lemma kf_average:
  "keeps_frames (plot_average_metric_by_time_and_event cfg df metric prefix title y_label)"
  by (simp add: keeps_frames_def plot_average_metric_by_time_and_event_def effect_defs)

lemma cf_average:
  "closes_figures (plot_average_metric_by_time_and_event cfg df metric prefix title y_label)"
  by (simp add: closes_figures_def plot_average_metric_by_time_and_event_def effect_defs)

lemma sq_average:
  "skips_quietly (\<lambda>df. plot_average_metric_by_time_and_event cfg df metric prefix title y_label)
     [metric, ''event_name'', ''time_period'']"
  by (auto simp: skips_quietly_def plot_average_metric_by_time_and_event_def effect_defs
      df_empty_def)

lemma kf_hist:
  "keeps_frames (plot_posting_behavior_hist cfg df x_label hue_label title filename)"
  by (simp add: keeps_frames_def plot_posting_behavior_hist_def effect_defs)

lemma cf_hist:
  "closes_figures (plot_posting_behavior_hist cfg df x_label hue_label title filename)"
  by (simp add: closes_figures_def plot_posting_behavior_hist_def effect_defs)

lemma te_hist:
  "tests_emptiness_first (\<lambda>df. plot_posting_behavior_hist cfg df x_label hue_label title filename)
     [x_label, hue_label]"
  by (auto simp: tests_emptiness_first_def plot_posting_behavior_hist_def effect_defs
      has_columns_def)

lemma kf_heatmap:
  "keeps_frames (plot_posting_behavior_heatmap cfg df title filename)"
  by (simp add: keeps_frames_def plot_posting_behavior_heatmap_def effect_defs)

lemma cf_heatmap:
  "closes_figures (plot_posting_behavior_heatmap cfg df title filename)"
  by (simp add: closes_figures_def plot_posting_behavior_heatmap_def effect_defs)

lemma te_heatmap:
  "tests_emptiness_first (\<lambda>df. plot_posting_behavior_heatmap cfg df title filename)
     []"
  by (auto simp: tests_emptiness_first_def plot_posting_behavior_heatmap_def effect_defs
      has_columns_def)

lemma kf_development:
  "keeps_frames (plot_score_development cfg df x_label y_label hue_label title filename)"
  by (simp add: keeps_frames_def plot_score_development_def effect_defs)

lemma cf_development:
  "closes_figures (plot_score_development cfg df x_label y_label hue_label title filename)"
  by (simp add: closes_figures_def plot_score_development_def effect_defs)

lemma te_development:
  "tests_emptiness_first (\<lambda>df. plot_score_development cfg df x_label y_label hue_label title filename)
     [x_label, y_label, hue_label]"
  by (auto simp: tests_emptiness_first_def plot_score_development_def effect_defs
      has_columns_def)

lemma kf_eventwise:
  "keeps_frames (plot_eventwise_heatmap cfg df index_col value_col title filename)"
  by (simp add: keeps_frames_def plot_eventwise_heatmap_def effect_defs)

lemma cf_eventwise:
  "closes_figures (plot_eventwise_heatmap cfg df index_col value_col title filename)"
  by (simp add: closes_figures_def plot_eventwise_heatmap_def effect_defs)

lemma sq_eventwise:
  "skips_quietly (\<lambda>df. plot_eventwise_heatmap cfg df index_col value_col title filename)
     [index_col, ''event_name'', value_col]"
  by (auto simp: skips_quietly_def plot_eventwise_heatmap_def effect_defs
      df_empty_def)

lemma kf_boxplot:
  "keeps_frames (plot_boxplot_with_stats cfg df x y hue title filename)"
  by (simp add: keeps_frames_def plot_boxplot_with_stats_def effect_defs)

lemma cf_boxplot:
  "closes_figures (plot_boxplot_with_stats cfg df x y hue title filename)"
  by (simp add: closes_figures_def plot_boxplot_with_stats_def effect_defs)

lemma sq_boxplot:
  "skips_quietly (\<lambda>df. plot_boxplot_with_stats cfg df x y hue title filename)
     [x, y, hue]"
  by (auto simp: skips_quietly_def plot_boxplot_with_stats_def effect_defs
      df_empty_def)

lemma kf_keyword:
  "keeps_frames (plot_event_keyword_distribution cfg df keyword_col title filename)"
  by (simp add: keeps_frames_def plot_event_keyword_distribution_def effect_defs)

lemma cf_keyword:
  "closes_figures (plot_event_keyword_distribution cfg df keyword_col title filename)"
  by (simp add: closes_figures_def plot_event_keyword_distribution_def effect_defs)

lemma sq_keyword:
  "skips_quietly (\<lambda>df. plot_event_keyword_distribution cfg df keyword_col title filename)
     [''event_name'', keyword_col]"
  by (auto simp: skips_quietly_def plot_event_keyword_distribution_def effect_defs
      df_empty_def)

lemma kf_dual:
  "keeps_frames (plot_dual_distribution cfg df feature1 feature2 title filename)"
  by (simp add: keeps_frames_def plot_dual_distribution_def effect_defs)

lemma cf_dual:
  "closes_figures (plot_dual_distribution cfg df feature1 feature2 title filename)"
  by (simp add: closes_figures_def plot_dual_distribution_def effect_defs)

lemma sq_dual:
  "skips_quietly (\<lambda>df. plot_dual_distribution cfg df feature1 feature2 title filename)
     [feature1, feature2]"
  by (auto simp: skips_quietly_def plot_dual_distribution_def effect_defs
      df_empty_def)

lemma kf_keyword_score:
  "keeps_frames (plot_keyword_score_heatmap cfg df keyword_col score_col filename title)"
  by (simp add: keeps_frames_def plot_keyword_score_heatmap_def effect_defs)

lemma cf_keyword_score:
  "closes_figures (plot_keyword_score_heatmap cfg df keyword_col score_col filename title)"
  by (simp add: closes_figures_def plot_keyword_score_heatmap_def effect_defs)

lemma sq_keyword_score:
  "skips_quietly (\<lambda>df. plot_keyword_score_heatmap cfg df keyword_col score_col filename title)
     [keyword_col, ''event_name'', score_col]"
  by (auto simp: skips_quietly_def plot_keyword_score_heatmap_def effect_defs
      df_empty_def)


lemma kept_frame:
  assumes "keeps_frames f" "d < length (heap w)"
  shows "frame (snd (f w)) d = frame w d"
proof -
  have t: "take (length (heap w)) (heap (snd (f w))) = heap w"
    using assms(1) by (simp add: keeps_frames_def)
  have "heap w ! d = take (length (heap w)) (heap (snd (f w))) ! d" by (simp only: t)
  also have "\<dots> = heap (snd (f w)) ! d" using assms(2) by simp
  finally show ?thesis by (simp add: frame_def)
qed

lemma closed_on_return:
  assumes "closes_figures f"
  shows "fst (f w) = Returned \<longrightarrow> open_figs (snd (f w)) = open_figs w"
  using assms by (simp add: closes_figures_def)

section \<open>C1: one row per element of the cross product\<close>

text \<open>
  C1, as stated, fails for the day-of-week view: it groups by day and event and does not
  reindex.  One comment of event A posted on a Thursday gives a table of one row, which
  is what the chart is drawn from; the cross product of the seven days and the one
  event has seven elements.
\<close>

theorem day_table_has_one_row:
  "files (snd (plot_engagement_per_day example_config epoch_seconds 0 ''created_utc''
                 ''comment_score'' ''days.png'' (world_of stamped_comment))) ''fig/days.png''
     = Some (Image [Barplot
                      \<lparr>columns = [''day_of_week'', ''event_name'', ''comment_score''],
                       rows = [[(''day_of_week'', Str ''Thursday''), (''event_name'', Str ''A''),
                                (''comment_score'', Num 1)]]\<rparr>
                      ''day_of_week'' ''comment_score'' ''event_name'' (Some day_order),
                    Title ''Average Comment Score by Day of Week and Event'',
                    Xticks_rotation 20, Tight_layout])
   \<and> length (from_product (map Str day_order) [Str ''A'']) = 7"
  by (simp add: plot_engagement_per_day_def dropna_copy_eq render_eq eval_defs stamped_comment_def
      set_frame_def set_column_def stamp_cell_def epoch_seconds_def day_cell_def day_name_def
      day_names_def table_eval title_defs from_product_def day_order_def Let_def)

text \<open>
  C1, amended: the table the metric-by-time-and-event view writes and plots has exactly
  one row per element of the cross product of the four fixed periods and the events
  observed in the filtered data, in that order, and the table of the
  metric-by-type-and-event view one row per element of the cross product of the
  observed post types and the observed events.  In both, a row has a count exactly when
  some filtered input row has its key, and every statistic of a row without input rows
  is missing.  The table the day-of-week view plots has exactly one row per combination
  of a day and an event that some row of its data has (with both present), and no other
  row.
\<close>

theorem cross_product_tables:
  assumes F1: "F1 = dropna [metric, ''event_name'', ''time_period''] (frame w df)"
      and T1: "T1 = time_event_table metric F1"
      and F2: "F2 = type_filtered sel (dropna [metric, ''event_name'', ''post_type''] (frame w df))"
      and T2: "T2 = type_event_table metric F2"
      and txt1: "txt1 = path_join (REPORTS_DIR cfg) (prefix @ ''_by_time_period_and_event.txt'')"
      and png1: "png1 = path_join (FIGURES_DIR cfg)
                          (prefix @ ''_by_time_period_and_event_extended.png'')"
      and txt2: "txt2 = path_join (REPORTS_DIR cfg) (metric @ ''_by_post_type_and_event.txt'')"
      and png2: "png2 = path_join (FIGURES_DIR cfg) filename"
      and F3: "F3 = dropna [time_col, engagement_col, ''event_name''] (frame w df)"
      and D3: "D3 = set_column ''day_of_week'' (\<lambda>r. day_cell (cell_at r time_col))
                      (set_column time_col (\<lambda>r. stamp_cell to_datetime (cell_at r time_col)) F3)"
      and T3: "T3 = day_table engagement_col D3"
      and png3: "png3 = path_join (FIGURES_DIR cfg) filename3"
  shows
    "(has_columns (frame w df) [metric, ''event_name'', ''time_period''] \<and> rows F1 \<noteq> []
        \<and> \<not> holds_strings F1 metric \<and> txt1 \<notin> set (unwritable w) \<and> png1 \<notin> set (unwritable w)
        \<and> txt1 \<noteq> png1
      \<longrightarrow> (\<exists>h. files (snd (plot_average_metric_by_time_and_event cfg df metric prefix title
                               y_label w)) txt1 = Some (Text h T1))
          \<and> (\<exists>arts. files (snd (plot_average_metric_by_time_and_event cfg df metric prefix title
                                  y_label w)) png1
                      = Some (Image (Barplot T1 ''time_period'' ''mean'' ''event_name'' None
                                       # arts))))
     \<and> map (key_of [''time_period'', ''event_name'']) (rows T1)
         = from_product (map Str all_periods) (unique (column F1 ''event_name''))
     \<and> length (rows T1) = 4 * length (unique (column F1 ''event_name''))
     \<and> (\<forall>r \<in> set (rows T1).
           (cell_at r ''count'' \<noteq> NaN)
             = (\<exists>r0 \<in> set (rows F1). key_of [''time_period'', ''event_name''] r0
                                       = key_of [''time_period'', ''event_name''] r)
         \<and> (\<not> (\<exists>r0 \<in> set (rows F1). key_of [''time_period'', ''event_name''] r0
                                       = key_of [''time_period'', ''event_name''] r) \<longrightarrow>
              (\<forall>c. c \<noteq> ''time_period'' \<longrightarrow> c \<noteq> ''event_name'' \<longrightarrow> cell_at r c = NaN)))
     \<and> (has_columns (frame w df) [metric, ''event_name'', ''post_type''] \<and> rows F2 \<noteq> []
        \<and> \<not> holds_strings F2 metric \<and> txt2 \<notin> set (unwritable w) \<and> png2 \<notin> set (unwritable w)
        \<and> txt2 \<noteq> png2
      \<longrightarrow> (\<exists>h. files (snd (plot_metric_by_event_and_type cfg df metric title filename sel w))
                    txt2 = Some (Text h T2))
          \<and> (\<exists>arts. files (snd (plot_metric_by_event_and_type cfg df metric title filename
                                  sel w)) png2
                      = Some (Image (Barplot T2 ''post_type'' ''mean'' ''event_name'' None
                                       # arts))))
     \<and> map (key_of [''post_type'', ''event_name'']) (rows T2)
         = from_product (unique (column F2 ''post_type'')) (unique (column F2 ''event_name''))
     \<and> length (rows T2)
         = length (unique (column F2 ''post_type'')) * length (unique (column F2 ''event_name''))
     \<and> (\<forall>r \<in> set (rows T2).
           (cell_at r ''count'' \<noteq> NaN)
             = (\<exists>r0 \<in> set (rows F2). key_of [''post_type'', ''event_name''] r0
                                       = key_of [''post_type'', ''event_name''] r)
         \<and> (\<not> (\<exists>r0 \<in> set (rows F2). key_of [''post_type'', ''event_name''] r0
                                       = key_of [''post_type'', ''event_name''] r) \<longrightarrow>
              (\<forall>c. c \<noteq> ''post_type'' \<longrightarrow> c \<noteq> ''event_name'' \<longrightarrow> cell_at r c = NaN)))
     \<and> (has_columns (frame w df) [time_col, engagement_col, ''event_name''] \<and> rows F3 \<noteq> []
        \<and> \<not> list_ex (\<lambda>v. to_datetime v = None) (column F3 time_col)
        \<and> \<not> holds_strings D3 engagement_col \<and> png3 \<notin> set (unwritable w)
      \<longrightarrow> (\<exists>arts. files (snd (plot_engagement_per_day cfg to_datetime df time_col
                                  engagement_col filename3 w)) png3
                      = Some (Image (Barplot T3 ''day_of_week'' engagement_col ''event_name''
                                       (Some day_order) # arts))))
     \<and> distinct (map (key_of [''day_of_week'', ''event_name'']) (rows T3))
     \<and> set (map (key_of [''day_of_week'', ''event_name'']) (rows T3))
         = key_of [''day_of_week'', ''event_name'']
             ` {r \<in> set (rows D3). cell_at r ''day_of_week'' \<noteq> NaN
                                     \<and> cell_at r ''event_name'' \<noteq> NaN}"
proof -
  note p1 = time_event_table_props [OF F1, folded T1]
  note p2 = type_event_table_props [OF F2, folded T2]
  have v1: "(\<exists>h. files (snd (plot_average_metric_by_time_and_event cfg df metric prefix title
                               y_label w)) txt1 = Some (Text h T1))
          \<and> (\<exists>arts. files (snd (plot_average_metric_by_time_and_event cfg df metric prefix title
                                  y_label w)) png1
                      = Some (Image (Barplot T1 ''time_period'' ''mean'' ''event_name'' None
                                       # arts)))"
    if h: "has_columns (frame w df) [metric, ''event_name'', ''time_period'']" "rows F1 \<noteq> []"
      "\<not> holds_strings F1 metric" "txt1 \<notin> set (unwritable w)" "png1 \<notin> set (unwritable w)"
      "txt1 \<noteq> png1"
    using h(6)
    by (simp add: plot_average_metric_ok [OF h(1) F1 h(2,3) h(4) [unfolded txt1] h(5) [unfolded png1],
          folded T1 txt1 png1])
  have v2: "(\<exists>h. files (snd (plot_metric_by_event_and_type cfg df metric title filename sel w))
                    txt2 = Some (Text h T2))
          \<and> (\<exists>arts. files (snd (plot_metric_by_event_and_type cfg df metric title filename
                                  sel w)) png2
                      = Some (Image (Barplot T2 ''post_type'' ''mean'' ''event_name'' None
                                       # arts)))"
    if h: "has_columns (frame w df) [metric, ''event_name'', ''post_type'']" "rows F2 \<noteq> []"
      "\<not> holds_strings F2 metric" "txt2 \<notin> set (unwritable w)" "png2 \<notin> set (unwritable w)"
      "txt2 \<noteq> png2"
  proof -
    from plot_metric_by_type_ok [OF h(1) F2 h(2,3) h(4) [unfolded txt2] h(5) [unfolded png2],
        folded T2 txt2 png2, of title]
    obtain hp where "plot_metric_by_event_and_type cfg df metric title filename sel w =
       (Returned, w\<lparr>heap := heap w @ hp,
           files := (files w)(txt2 \<mapsto> Text (text_header (title_case (spaced metric)
                                                  @ '' by Post Type and Event'')) T2,
              png2 \<mapsto> Image ([Barplot T2 ''post_type'' ''mean'' ''event_name'' None, Title title,
                    Ylabel (''Mean '' @ title_case (spaced metric)), Xticks_rotation 20,
                    Legend (Some ''Event''), Tight_layout]
                   @ annotations T2 ''post_type'' ''mean'' ''event_name'' None)),
           logged := logged w @ [(INFO, ''Table data saved to: '' @ txt2),
                                 (INFO, ''Plot saved to: '' @ png2)]\<rparr>)"
      by blast
    then show ?thesis using h(6) by simp
  qed
  have v3: "\<exists>arts. files (snd (plot_engagement_per_day cfg to_datetime df time_col
                                  engagement_col filename3 w)) png3
                      = Some (Image (Barplot T3 ''day_of_week'' engagement_col ''event_name''
                                       (Some day_order) # arts))"
    if h: "has_columns (frame w df) [time_col, engagement_col, ''event_name'']" "rows F3 \<noteq> []"
      "\<not> list_ex (\<lambda>v. to_datetime v = None) (column F3 time_col)"
      "\<not> holds_strings D3 engagement_col" "png3 \<notin> set (unwritable w)"
    by (simp add: engagement_per_day_ok [OF h(1) F3 h(2,3) D3 h(4) h(5) [unfolded png3],
          folded T3 png3])
  have k3: "distinct (map (key_of [''day_of_week'', ''event_name'']) (rows T3))"
    unfolding T3 day_table_keys by (rule distinct_group_keys)
  have s3: "set (map (key_of [''day_of_week'', ''event_name'']) (rows T3))
         = key_of [''day_of_week'', ''event_name'']
             ` {r \<in> set (rows D3). cell_at r ''day_of_week'' \<noteq> NaN
                                     \<and> cell_at r ''event_name'' \<noteq> NaN}"
    unfolding T3 day_table_keys set_group_keys by (simp add: keeps_def)
  show ?thesis
    using v1 v2 v3 p1(1,2) p2(1,2) p1(3) p2(3) k3 s3 by (intro conjI impI ballI) simp_all
qed

theorem cross_product_tables_witness:
  "length (rows (time_event_table ''comment_score'' three_comments)) = 8
   \<and> length (rows (type_event_table ''comment_score'' three_comments)) = 4
   \<and> (\<exists>h. files (snd (plot_average_metric_by_time_and_event example_config 0 ''comment_score''
                        ''avg'' ''T'' ''Y'' (world_of three_comments)))
               ''rep/avg_by_time_period_and_event.txt''
             = Some (Text h (time_event_table ''comment_score'' three_comments)))"
proof -
  have d1: "dropna [''comment_score'', ''event_name'', ''time_period''] three_comments
              = three_comments"
    by (simp add: dropna_def keeps_def cell_at_def three_comments_def)
  have d2: "type_filtered None (dropna [''comment_score'', ''event_name'', ''post_type'']
              three_comments) = three_comments"
    by (simp add: type_filtered_def dropna_def keeps_def cell_at_def three_comments_def)
  have fr: "frame (world_of three_comments) 0 = three_comments"
    by (simp add: frame_def world_of_def)
  have ev: "unique (column three_comments ''event_name'') = [Str ''A'', Str ''B'']"
    "unique (column three_comments ''post_type'') = [Str ''Other'', Str ''Ranking Update'']"
    by (simp_all add: unique_def column_def cell_at_def three_comments_def)
  have hyp: "has_columns three_comments [''comment_score'', ''event_name'', ''time_period'']"
    "rows three_comments \<noteq> []" "\<not> holds_strings three_comments ''comment_score''"
    by (simp_all add: has_columns_def holds_strings_def column_def cell_at_def three_comments_def)
  have wr: "unwritable (world_of three_comments) = []" "REPORTS_DIR example_config = ''rep''"
    "FIGURES_DIR example_config = ''fig''"
    by (simp_all add: world_of_def example_config_def)
  note th = cross_product_tables [where w = "world_of three_comments" and df = 0
        and metric = "''comment_score''" and sel = None and cfg = example_config
        and prefix = "''avg''" and filename = "''f.png''" and title = "''T''"
        and y_label = "''Y''" and time_col = "''created_utc''"
        and engagement_col = "''comment_score''" and to_datetime = epoch_seconds
        and ?filename3.0 = "''days.png''",
        OF refl refl refl refl refl refl refl refl refl refl refl refl, unfolded fr d1 d2 ev wr]
  have "length (rows (time_event_table ''comment_score'' three_comments)) = 8"
    using th [THEN conjunct2, THEN conjunct2, THEN conjunct1] by simp
  moreover have "length (rows (type_event_table ''comment_score'' three_comments)) = 4"
    using th [THEN conjunct2, THEN conjunct2, THEN conjunct2, THEN conjunct2, THEN conjunct2,
        THEN conjunct2, THEN conjunct1] by simp
  moreover have "\<exists>h. files (snd (plot_average_metric_by_time_and_event example_config 0
                        ''comment_score'' ''avg'' ''T'' ''Y'' (world_of three_comments)))
               ''rep/avg_by_time_period_and_event.txt''
             = Some (Text h (time_event_table ''comment_score'' three_comments))"
    using th [THEN conjunct1] hyp by (simp add: path_join_def)
  ultimately show ?thesis by simp
qed
section \<open>C2: what the views do with a dataset they cannot plot\<close>

text \<open>
  C2, as stated, fails for the views that drop no rows.  The score-development view
  tests only whether the dataset itself is empty: on the comment whose score is missing,
  no row is left once the rows with a missing value in a required column are dropped,
  and yet the chart is written.  And the posting-behaviour histogram tests emptiness
  before its columns: on a dataset without columns and rows the required columns are
  absent, and the one entry logged is a warning, not an error.
\<close>

theorem score_development_plots_rows_without_score:
  "has_columns unscored_comment [''event_name'', ''comment_score'', ''event_name'']
   \<and> rows (dropna [''event_name'', ''comment_score'', ''event_name''] unscored_comment) = []
   \<and> plot_score_development example_config 0 ''event_name'' ''comment_score'' ''event_name''
       ''T'' ''dev.png'' (world_of unscored_comment)
     = (Returned,
        (world_of unscored_comment)
          \<lparr>files := [''fig/dev.png'' \<mapsto>
              Image [Lineplot unscored_comment ''event_name'' ''comment_score'' ''event_name'',
                     Title ''T'', Xlabel ''event_name'', Ylabel ''comment_score'',
                     Tight_layout]],
           logged := [(INFO, ''Plot saved to: fig/dev.png'')]\<rparr>)
   \<and> \<not> has_columns no_data [''hour'', ''event_name'']
   \<and> plot_posting_behavior_hist example_config 0 ''hour'' ''event_name'' ''T'' ''h.png''
       (world_of no_data)
     = (Returned, log_msg WARNING ''DataFrame is empty, skipping histogram plot for T.''
                    (world_of no_data))"
  by (simp add: plot_score_development_def plot_posting_behavior_hist_def render_eq eval_defs
      unscored_comment_def no_data_def)

text \<open>
  C2, amended.  Ten views name required columns and drop the rows with a missing value
  in one of them (metric by time and event, metric by type and event, feature
  distribution, distribution comparison, event-wise heat map, box plot, keyword
  distribution, dual distribution, keyword-score heat map, engagement per day).  For
  each of them and every dataset: if a required column is absent, the call returns
  normally with one more log entry, an error, and nothing else changed, so no file is
  written; if the columns are present and no row is left after the dropping, it returns
  normally with one more log entry, a warning, and no file written.  The
  posting-behaviour histogram and the score-development view first test whether the
  dataset itself is empty (warning, nothing written) and then their columns (error,
  nothing written); they drop no rows, and plot every dataset that is not empty and has
  the columns (given a writable image path).  The posting-behaviour heat map and the
  correlation view name no required column: an empty dataset makes them return with a
  warning and nothing written.
\<close>

theorem views_skip_quietly:
  "skips_quietly
       (\<lambda>df. plot_average_metric_by_time_and_event cfg df metric prefix title
              y_label)
       [metric, ''event_name'', ''time_period'']
   \<and> skips_quietly
       (\<lambda>df. plot_metric_by_event_and_type cfg df metric title filename sel)
       [metric, ''event_name'', ''post_type'']
   \<and> skips_quietly
       (\<lambda>df. plot_feature_distribution cfg gaussian_kde df feature title
              x_label bins prefix)
       [feature]
   \<and> skips_quietly
       (\<lambda>df. plot_distribution_comparison cfg df feature title y_label prefix
              plot_type)
       [feature, ''event_name'']
   \<and> skips_quietly
       (\<lambda>df. plot_eventwise_heatmap cfg df index_col value_col title filename)
       [index_col, ''event_name'', value_col]
   \<and> skips_quietly
       (\<lambda>df. plot_boxplot_with_stats cfg df x y hue title filename)
       [x, y, hue]
   \<and> skips_quietly
       (\<lambda>df. plot_event_keyword_distribution cfg df keyword_col title filename)
       [''event_name'', keyword_col]
   \<and> skips_quietly
       (\<lambda>df. plot_dual_distribution cfg df feature1 feature2 title filename)
       [feature1, feature2]
   \<and> skips_quietly
       (\<lambda>df. plot_keyword_score_heatmap cfg df keyword_col score_col filename
              title)
       [keyword_col, ''event_name'', score_col]
   \<and> skips_quietly
       (\<lambda>df. plot_engagement_per_day cfg to_datetime df time_col engagement_col
              filename)
       [time_col, engagement_col, ''event_name'']
   \<and> tests_emptiness_first
       (\<lambda>df. plot_posting_behavior_hist cfg df x_label hue_label title filename)
       [x_label, hue_label]
   \<and> tests_emptiness_first
       (\<lambda>df. plot_posting_behavior_heatmap cfg df title filename)
       []
   \<and> tests_emptiness_first
       (\<lambda>df. plot_score_development cfg df x_label y_label hue_label title
              filename)
       [x_label, y_label, hue_label]
   \<and> (df_empty (frame w df) \<longrightarrow>
        plot_pearson_correlation cfg as_list is_numeric_dtype df filename w
          = (Returned, log_msg WARNING
               ''DataFrame is empty, skipping Pearson correlation analysis.'' w))
   \<and> (\<not> df_empty (frame w df) \<and> x_label \<in> set (columns (frame w df))
        \<and> hue_label \<in> set (columns (frame w df))
        \<and> path_join (FIGURES_DIR cfg) filename \<notin> set (unwritable w) \<longrightarrow>
          plot_posting_behavior_hist cfg df x_label hue_label title filename w
            = (Returned,
               w\<lparr>files := (files w)(path_join (FIGURES_DIR cfg) filename \<mapsto>
                     Image [Histplot (frame w df) x_label (Some hue_label) None False,
                            Title title, Xlabel x_label, Ylabel ''Count'', Tight_layout]),
                 logged := logged w @
                     [(INFO, ''Plot saved to: '' @ path_join (FIGURES_DIR cfg) filename)]\<rparr>))
   \<and> (\<not> df_empty (frame w df) \<and> has_columns (frame w df) [x_label, y_label, hue_label]
        \<and> path_join (FIGURES_DIR cfg) filename \<notin> set (unwritable w) \<longrightarrow>
          plot_score_development cfg df x_label y_label hue_label title filename w
            = (Returned,
               w\<lparr>files := (files w)(path_join (FIGURES_DIR cfg) filename \<mapsto>
                     Image [Lineplot (frame w df) x_label y_label hue_label,
                            Title title, Xlabel x_label, Ylabel y_label, Tight_layout]),
                 logged := logged w @
                     [(INFO, ''Plot saved to: '' @ path_join (FIGURES_DIR cfg) filename)]\<rparr>))"
proof -
  have p: "plot_pearson_correlation cfg as_list is_numeric_dtype df filename w
          = (Returned, log_msg WARNING
               ''DataFrame is empty, skipping Pearson correlation analysis.'' w)"
    if "df_empty (frame w df)"
    using that by (simp add: plot_pearson_correlation_def)
  show ?thesis
    by (intro conjI impI sq_average sq_by_type sq_feature sq_comparison sq_eventwise
        sq_boxplot sq_keyword sq_dual sq_keyword_score sq_per_day te_hist te_heatmap
        te_development p)
      (simp_all add: plot_posting_behavior_hist_def plot_score_development_def render_eq)
qed

text \<open>
  The comparison of a dataset whose scores are all missing returns with a warning, and
  the metric-by-time view of a dataset without the period column with an error; no
  file is written.
\<close>

theorem views_skip_quietly_witness:
  "(\<exists>m. plot_average_metric_by_time_and_event example_config 0 ''comment_score'' ''p'' ''T''
           ''Y'' (world_of one_comment)
         = (Returned, log_msg ERROR m (world_of one_comment)))
   \<and> (\<exists>m h. plot_distribution_comparison example_config 0 ''comment_score'' ''T'' ''Y'' ''p''
             ''box'' (world_of unscored_comment)
           = (Returned, log_msg WARNING m
                ((world_of unscored_comment)\<lparr>heap := heap (world_of unscored_comment) @ h\<rparr>)))"
proof -
  have fr: "frame (world_of one_comment) 0 = one_comment"
    "frame (world_of unscored_comment) 0 = unscored_comment"
    by (simp_all add: frame_def world_of_def)
  have h1: "\<not> has_columns one_comment [''comment_score'', ''event_name'', ''time_period'']"
    by (simp add: has_columns_def one_comment_def)
  have h2: "has_columns unscored_comment [''comment_score'', ''event_name'']
            \<and> rows (dropna [''comment_score'', ''event_name''] unscored_comment) = []"
    by (simp add: has_columns_def dropna_def keeps_def cell_at_def unscored_comment_def)
  note th = views_skip_quietly [where cfg = example_config and metric = "''comment_score''"
      and prefix = "''p''" and title = "''T''" and y_label = "''Y''"
      and feature = "''comment_score''" and plot_type = "''box''"]
  have 1: "\<exists>m. plot_average_metric_by_time_and_event example_config 0 ''comment_score'' ''p''
                 ''T'' ''Y'' (world_of one_comment)
               = (Returned, log_msg ERROR m (world_of one_comment))"
    using th [THEN conjunct1, unfolded skips_quietly_def, rule_format,
        of "world_of one_comment" 0, THEN conjunct1, rule_format] h1
    unfolding fr by simp
  have 2: "\<exists>m h. plot_distribution_comparison example_config 0 ''comment_score'' ''T'' ''Y'' ''p''
             ''box'' (world_of unscored_comment)
           = (Returned, log_msg WARNING m
                ((world_of unscored_comment)\<lparr>heap := heap (world_of unscored_comment) @ h\<rparr>))"
    using th [THEN conjunct2, THEN conjunct2, THEN conjunct2, THEN conjunct1, unfolded skips_quietly_def, rule_format,
        of "world_of unscored_comment" 0, THEN conjunct2, rule_format] h2
    unfolding fr by simp
  show ?thesis using 1 2 by simp
qed

section \<open>C3: an unsupported plot type in the distribution comparison\<close>

text \<open>
  C3, as stated, fails: the statistics table is written before the plot type is looked
  at.  On one comment of event A and the plot type \<open>bar\<close>, the columns are present, a
  row survives the filter, and the call leaves a new text file behind.
\<close>

theorem distribution_comparison_writes_stats_file:
  "has_columns (frame (world_of one_comment) 0) [''comment_score'', ''event_name'']
   \<and> \<not> df_empty (dropna [''comment_score'', ''event_name''] (frame (world_of one_comment) 0))
   \<and> ''bar'' \<noteq> ''box'' \<and> ''bar'' \<noteq> ''violin''
   \<and> files (snd (plot_distribution_comparison example_config 0 ''comment_score'' ''T'' ''Y''
                   ''dist_comp_'' ''bar'' (world_of one_comment)))
         ''rep/dist_comp_comment_score_bar_stats.txt'' \<noteq> None
   \<and> files (world_of one_comment) ''rep/dist_comp_comment_score_bar_stats.txt'' = None"
  by (simp add: eval_defs one_comment_def plot_distribution_comparison_def dropna_copy_eq
      save_dataframe_as_text_eq seq_def plt_figure_def plt_close_def log_msg_def Let_def)

text \<open>
  C3, amended: with the feature and event columns present, a row left after the filter,
  a feature of numbers and a writable report path, a plot type other than \<open>violin\<close> and
  \<open>box\<close> makes the view return normally having written exactly one file, the statistics
  table \<open><prefix><feature>_<plot_type>_stats.txt\<close>; no chart image is written, the last
  log entry is the error about the plot type, and the figure that was opened is closed
  again (the open figures are those before the call).
\<close>

theorem distribution_comparison_invalid_mode:
  assumes cols: "has_columns (frame w df) [feature, ''event_name'']"
      and data: "rows (dropna [feature, ''event_name''] (frame w df)) \<noteq> []"
      and nums: "\<not> holds_strings (dropna [feature, ''event_name''] (frame w df)) feature"
      and mode: "plot_type \<noteq> ''violin''" "plot_type \<noteq> ''box''"
      and wr: "path_join (REPORTS_DIR cfg) (prefix @ feature @ ''_'' @ plot_type @ ''_stats.txt'')
                 \<notin> set (unwritable w)"
  shows "plot_distribution_comparison cfg df feature title y_label prefix plot_type w =
           (Returned,
            w\<lparr>heap := heap w @ [dropna [feature, ''event_name''] (frame w df),
                                dropna [feature, ''event_name''] (frame w df)],
              files := (files w)
                 (path_join (REPORTS_DIR cfg) (prefix @ feature @ ''_'' @ plot_type @ ''_stats.txt'')
                    \<mapsto> Text (text_header (feature @ '' Distribution by Event (''
                                              @ title_case plot_type @ '' Plot Basis)''))
                             (comparison_table feature
                                (dropna [feature, ''event_name''] (frame w df)))),
              logged := logged w @
                 [(INFO, ''Table data saved to: '' @ path_join (REPORTS_DIR cfg)
                            (prefix @ feature @ ''_'' @ plot_type @ ''_stats.txt'')),
                  (ERROR, ''Invalid plot_type '' @ quoted plot_type @ ''. Must be ''
                            @ quoted ''box'' @ '' or '' @ quoted ''violin''
                            @ ''. Skipping plot.'')]\<rparr>)"
proof -
  have ne: "columns (frame w df) \<noteq> []" using cols by (rule has_columns_nonempty)
  show ?thesis
    using cols data nums mode wr ne
    by (simp add: plot_distribution_comparison_def dropna_copy_eq df_empty_def
        save_dataframe_as_text_eq seq_def plt_figure_def plt_close_def log_msg_def Let_def)
qed

theorem distribution_comparison_invalid_mode_witness:
  "files (snd (plot_distribution_comparison example_config 0 ''comment_score'' ''T'' ''Y''
                 ''dist_comp_'' ''bar'' (world_of one_comment)))
         ''rep/dist_comp_comment_score_bar_stats.txt''
     = Some (Text (text_header ''comment_score Distribution by Event (Bar Plot Basis)'')
               (comparison_table ''comment_score'' one_comment))"
  using distribution_comparison_invalid_mode [of "world_of one_comment" 0 "''comment_score''"
      "''bar''" example_config "''dist_comp_''" "''T''" "''Y''"]
  by (simp add: eval_defs one_comment_def title_defs)

section \<open>C4: the density curve of the feature distribution\<close>

text \<open>
  C4, as stated, fails for a feature without any non-null observation: that is fewer
  than two, and the view returns on its warning before the summary is written.
\<close>

theorem no_summary_without_observations:
  "length (filter (\<lambda>v. v \<noteq> NaN) (column (frame (world_of unscored_comment) 0) ''comment_score''))
     < 2
   \<and> plot_feature_distribution example_config scott_kde 0 ''comment_score'' ''T'' ''X'' 30 ''dist_''
       (world_of unscored_comment)
     = (Returned, log_msg WARNING (''No valid data for feature '' @ quoted ''comment_score''
                                     @ ''. Skipping distribution plot.'')
                    (world_of unscored_comment))
   \<and> files (snd (plot_feature_distribution example_config scott_kde 0 ''comment_score'' ''T'' ''X'' 30
                   ''dist_'' (world_of unscored_comment))) ''rep/dist_comment_score_summary.txt''
     = None"
  by (simp add: plot_feature_distribution_def eval_defs unscored_comment_def log_msg_def)

text \<open>
  C4, amended, for a feature of numbers and writable output paths.  With at least two
  non-null observations, when the density estimator returns an estimate, the
  feature-distribution view writes the curve file: the estimate sampled at exactly 200
  points, whose x values start at the least observation, end at the greatest and
  increase monotonically.  With exactly one non-null observation it logs the warning,
  writes no curve file and still writes the summary.  With no non-null observation it
  logs a warning and returns without writing anything, the summary included.
\<close>

theorem density_curve_has_200_points:
  assumes col: "feature \<in> set (columns (frame w df))"
      and vals: "vals = filter (\<lambda>v. v \<noteq> NaN) (column (frame w df) feature)"
      and numeric: "\<not> list_ex is_str vals"
      and xs: "xs = nums vals"
      and paths: "summary = path_join (REPORTS_DIR cfg) (prefix @ feature @ ''_summary.txt'')"
                 "curve = path_join (REPORTS_DIR cfg) (prefix @ feature @ ''_kde_curve.txt'')"
                 "png = path_join (FIGURES_DIR cfg) (prefix @ feature @ ''_histogram_extended.png'')"
      and wr: "summary \<notin> set (unwritable w)" "curve \<notin> set (unwritable w)"
              "png \<notin> set (unwritable w)"
      and w': "w' = snd (plot_feature_distribution cfg gaussian_kde df feature title x_label bins
                          prefix w)"
  shows "(2 \<le> length vals \<longrightarrow>
            (\<forall>kde. gaussian_kde xs = Inr kde \<longrightarrow>
               fst (plot_feature_distribution cfg gaussian_kde df feature title x_label bins
                      prefix w) = Returned
             \<and> files w' curve = Some (Text (text_header (feature @ '' KDE Curve Data''))
                                        (kde_table kde xs))
             \<and> length (rows (kde_table kde xs)) = 200
             \<and> map (\<lambda>r. cell_at r ''x'') (rows (kde_table kde xs))
                 = map Num (linspace (Min (set xs)) (Max (set xs)) 200)
             \<and> map (\<lambda>r. cell_at r ''kde_density'') (rows (kde_table kde xs))
                 = map (\<lambda>x. Num (kde x)) (linspace (Min (set xs)) (Max (set xs)) 200)
             \<and> hd (linspace (Min (set xs)) (Max (set xs)) 200) = Min (set xs)
             \<and> last (linspace (Min (set xs)) (Max (set xs)) 200) = Max (set xs)
             \<and> sorted (linspace (Min (set xs)) (Max (set xs)) 200)))
       \<and> (length vals = 1 \<longrightarrow>
            fst (plot_feature_distribution cfg gaussian_kde df feature title x_label bins
                   prefix w) = Returned
          \<and> files w' curve = files w curve
          \<and> files w' summary = Some (Text (text_header (feature @ '' Distribution Summary''))
                                        (summary_table xs))
          \<and> (WARNING, ''Not enough data points to generate KDE curve for '' @ quoted feature
                         @ ''.'') \<in> set (logged w'))
       \<and> (vals = [] \<longrightarrow>
            plot_feature_distribution cfg gaussian_kde df feature title x_label bins prefix w
              = (Returned, log_msg WARNING (''No valid data for feature '' @ quoted feature
                                              @ ''. Skipping distribution plot.'') w))"
proof -
  let ?view = "plot_feature_distribution cfg gaussian_kde df feature title x_label bins prefix"
  let ?w1 = "w\<lparr>files := (files w)(summary \<mapsto> Text (text_header (feature @ '' Distribution Summary''))
                                              (summary_table xs)),
                logged := logged w @ [(INFO, ''Table data saved to: '' @ summary)]\<rparr>"
  have apart: "summary \<noteq> curve" "png \<noteq> curve" "png \<noteq> summary"
  proof -
    have "path_join (REPORTS_DIR cfg) ((prefix @ feature) @ ''_summary.txt'')
            \<noteq> path_join (REPORTS_DIR cfg) ((prefix @ feature) @ ''_kde_curve.txt'')"
      by (rule path_join_suffix) simp_all
    then show "summary \<noteq> curve" by (simp add: paths)
    have "last png = CHR ''g''" "last curve = CHR ''t''" "last summary = CHR ''t''"
      by (simp_all add: paths last_path_join)
    then show "png \<noteq> curve" "png \<noteq> summary" by auto
  qed
  have none: "?view w = (Returned, log_msg WARNING (''No valid data for feature '' @ quoted feature
                                              @ ''. Skipping distribution plot.'') w)"
    if "vals = []"
    using that col by (simp add: plot_feature_distribution_def vals [symmetric])
  have nonan: "NaN \<notin> set vals" unfolding vals by simp
  have len: "length xs = length vals" unfolding xs using numeric nonan by (rule length_nums)
  have run: "?view w = seq (kde_step cfg gaussian_kde feature prefix vals)
                          (histogram_step cfg df feature title x_label bins prefix vals) ?w1"
    if "vals \<noteq> []"
  proof -
    have "?view w = seq (save_dataframe_as_text cfg (summary_table xs)
                           (prefix @ feature @ ''_summary.txt'') (feature @ '' Distribution Summary''))
                        (seq (kde_step cfg gaussian_kde feature prefix vals)
                           (histogram_step cfg df feature title x_label bins prefix vals)) w"
      using that col numeric
      by (simp add: plot_feature_distribution_def vals [symmetric] xs Let_def)
    also have "save_dataframe_as_text cfg (summary_table xs)
                     (prefix @ feature @ ''_summary.txt'') (feature @ '' Distribution Summary'') w
                   = (Returned, ?w1)"
      using wr(1) by (simp add: save_dataframe_as_text_eq paths)
    then have "seq (save_dataframe_as_text cfg (summary_table xs)
                           (prefix @ feature @ ''_summary.txt'') (feature @ '' Distribution Summary''))
                        (seq (kde_step cfg gaussian_kde feature prefix vals)
                           (histogram_step cfg df feature title x_label bins prefix vals)) w
               = seq (kde_step cfg gaussian_kde feature prefix vals)
                           (histogram_step cfg df feature title x_label bins prefix vals) ?w1"
      by (rule seq_Returned)
    finally show ?thesis .
  qed
  have hist: "\<exists>h arts lg. histogram_step cfg df feature title x_label bins prefix vals v =
       (Returned, v\<lparr>heap := heap v @ h, files := (files v)(png \<mapsto> Image arts),
                    logged := logged v @ lg @ [(INFO, ''Plot saved to: '' @ png)]\<rparr>)"
    if "unwritable v = unwritable w" for v
    using histogram_step_eq [of cfg df feature title x_label bins prefix vals v] wr(3) that
    by (simp add: paths)
  have two: "fst (?view w) = Returned
             \<and> files w' curve = Some (Text (text_header (feature @ '' KDE Curve Data''))
                                     (kde_table kde xs))"
    if h: "2 \<le> length vals" "gaussian_kde xs = Inr kde" for kde
  proof -
    let ?w2 = "?w1\<lparr>files := (files ?w1)(curve \<mapsto> Text (text_header (feature @ '' KDE Curve Data''))
                                                  (kde_table kde xs)),
                    logged := logged ?w1 @ [(INFO, ''Table data saved to: '' @ curve)]\<rparr>"
    have k: "kde_step cfg gaussian_kde feature prefix vals ?w1 = (Returned, ?w2)"
      using h wr(2) by (simp add: kde_step_def xs [symmetric] save_dataframe_as_text_eq paths)
    from hist [of ?w2] obtain hp arts lg where
      hs: "histogram_step cfg df feature title x_label bins prefix vals ?w2 =
       (Returned, ?w2\<lparr>heap := heap ?w2 @ hp, files := (files ?w2)(png \<mapsto> Image arts),
                    logged := logged ?w2 @ lg @ [(INFO, ''Plot saved to: '' @ png)]\<rparr>)"
      by auto
    have "vals \<noteq> []" using h(1) by auto
    then have "?view w = seq (kde_step cfg gaussian_kde feature prefix vals)
                          (histogram_step cfg df feature title x_label bins prefix vals) ?w1"
      by (rule run)
    also have "\<dots> = histogram_step cfg df feature title x_label bins prefix vals ?w2"
      using k by (rule seq_Returned)
    finally have "?view w = (Returned, ?w2\<lparr>heap := heap ?w2 @ hp,
                    files := (files ?w2)(png \<mapsto> Image arts),
                    logged := logged ?w2 @ lg @ [(INFO, ''Plot saved to: '' @ png)]\<rparr>)"
      using hs by simp
    then show ?thesis unfolding w' using apart by simp
  qed
  have one: "fst (?view w) = Returned
          \<and> files w' curve = files w curve
          \<and> files w' summary = Some (Text (text_header (feature @ '' Distribution Summary''))
                                        (summary_table xs))
          \<and> (WARNING, ''Not enough data points to generate KDE curve for '' @ quoted feature
                         @ ''.'') \<in> set (logged w')"
    if h: "length vals = 1"
  proof -
    let ?w2 = "?w1\<lparr>logged := logged ?w1 @ [(WARNING,
                 ''Not enough data points to generate KDE curve for '' @ quoted feature @ ''.'')]\<rparr>"
    have k: "kde_step cfg gaussian_kde feature prefix vals ?w1 = (Returned, ?w2)"
      using h by (simp add: kde_step_def log_msg_def)
    from hist [of ?w2] obtain hp arts lg where
      hs: "histogram_step cfg df feature title x_label bins prefix vals ?w2 =
       (Returned, ?w2\<lparr>heap := heap ?w2 @ hp, files := (files ?w2)(png \<mapsto> Image arts),
                    logged := logged ?w2 @ lg @ [(INFO, ''Plot saved to: '' @ png)]\<rparr>)"
      by auto
    have "vals \<noteq> []" using h by auto
    then have "?view w = seq (kde_step cfg gaussian_kde feature prefix vals)
                          (histogram_step cfg df feature title x_label bins prefix vals) ?w1"
      by (rule run)
    also have "\<dots> = histogram_step cfg df feature title x_label bins prefix vals ?w2"
      using k by (rule seq_Returned)
    finally have "?view w = (Returned, ?w2\<lparr>heap := heap ?w2 @ hp,
                    files := (files ?w2)(png \<mapsto> Image arts),
                    logged := logged ?w2 @ lg @ [(INFO, ''Plot saved to: '' @ png)]\<rparr>)"
      using hs by simp
    then show ?thesis unfolding w' using apart by simp
  qed
  have curve: "length (rows (kde_table kde xs)) = 200
          \<and> map (\<lambda>r. cell_at r ''x'') (rows (kde_table kde xs))
              = map Num (linspace (Min (set xs)) (Max (set xs)) 200)
          \<and> map (\<lambda>r. cell_at r ''kde_density'') (rows (kde_table kde xs))
              = map (\<lambda>x. Num (kde x)) (linspace (Min (set xs)) (Max (set xs)) 200)
          \<and> hd (linspace (Min (set xs)) (Max (set xs)) 200) = Min (set xs)
          \<and> last (linspace (Min (set xs)) (Max (set xs)) 200) = Max (set xs)
          \<and> sorted (linspace (Min (set xs)) (Max (set xs)) 200)"
    if h: "2 \<le> length vals" for kde
  proof -
    have ne: "xs \<noteq> []" using h len by auto
    then have le: "Min (set xs) \<le> Max (set xs)" by simp
    show ?thesis
      using le ne
      by (simp add: kde_table_def length_linspace hd_linspace last_linspace sorted_linspace
          least_Min greatest_Max cell_at_def comp_def)
  qed
  show ?thesis using none two one curve by blast
qed

text \<open>
  Three comments with the scores 1, 3 and 2, and the estimator with Scott's bandwidth.
\<close>

theorem density_curve_has_200_points_witness:
  "fst (plot_feature_distribution example_config scott_kde 0 ''comment_score'' ''T'' ''X'' 30
          ''dist_'' (world_of three_comments)) = Returned
   \<and> files (snd (plot_feature_distribution example_config scott_kde 0 ''comment_score'' ''T''
                   ''X'' 30 ''dist_'' (world_of three_comments)))
       ''rep/dist_comment_score_kde_curve.txt''
     = Some (Text (text_header ''comment_score KDE Curve Data'')
               (kde_table (kde_density [1, 3, 2]) [1, 3, 2]))
   \<and> length (rows (kde_table (kde_density [1, 3, 2]) [1, 3, 2])) = 200
   \<and> hd (linspace (Min (set [1, 3, 2])) (Max (set [1, 3, 2])) 200) = (1 :: real)
   \<and> last (linspace (Min (set [1, 3, 2])) (Max (set [1, 3, 2])) 200) = (3 :: real)"
proof -
  have fr: "frame (world_of three_comments) 0 = three_comments"
    by (simp add: frame_def world_of_def)
  have vs: "filter (\<lambda>v. v \<noteq> NaN) (column three_comments ''comment_score'')
              = [Num 1, Num 3, Num 2]"
    by (simp add: column_def cell_at_def three_comments_def)
  have wr: "unwritable (world_of three_comments) = []" "REPORTS_DIR example_config = ''rep''"
    "FIGURES_DIR example_config = ''fig''"
    by (simp_all add: world_of_def example_config_def)
  have col: "''comment_score'' \<in> set (columns three_comments)"
    by (simp add: three_comments_def)
  show ?thesis
    using density_curve_has_200_points [where w = "world_of three_comments" and df = 0
        and feature = "''comment_score''" and cfg = example_config and prefix = "''dist_''"
        and title = "''T''" and x_label = "''X''" and bins = 30 and gaussian_kde = scott_kde,
        OF _ refl _ refl refl refl refl _ _ _ refl]
    unfolding fr vs wr
    using col by (simp add: path_join_def scott_kde_def)
qed

section \<open>C5: the bounds are mean minus and plus standard deviation\<close>



section \<open>C6: the columns of the correlation view\<close>

text \<open>
  C6, as stated, fails on an empty dataset: the view tests emptiness first.  (Here
  \<^verbatim>\<open>list(set(...))\<close> enumerates the names as \<open>remdups\<close> does, and the columns of a
  numeric type are those that hold no string.)  A frame with the two numeric columns
  \<open>comment_score\<close> and \<open>post_score\<close> and no rows has two usable columns, yet nothing
  is rendered; and the one warning logged is about the empty frame, not about the
  number of columns.
\<close>

theorem correlation_skips_empty_frame:
  "length (available_numerical_cols remdups float_columns example_config
             (frame (world_of empty_scores) 0)) = 2
   \<and> plot_pearson_correlation example_config remdups float_columns 0
       ''pearson_correlation_matrix.png'' (world_of empty_scores)
     = (Returned, log_msg WARNING ''DataFrame is empty, skipping Pearson correlation analysis.''
                    (world_of empty_scores))
   \<and> \<not> contains ''need at least 2''
         ''DataFrame is empty, skipping Pearson correlation analysis.''"
  by (simp add: plot_pearson_correlation_def available_numerical_cols_def
      all_potential_numerical_cols_def additional_numerical_cols_def eval_defs empty_scores_def
      float_columns_def holds_strings_def)

text \<open>
  C6, amended: the usable columns are exactly the names of the two configured lists and
  of the built-in list that are columns of the dataset and of a numeric type, each once
  (in the order in which the set of the names is enumerated, whatever it is).
  For a dataset that is not empty: with fewer than two of them the view writes nothing
  and logs the warning that says \<open>need at least 2\<close>; with two or more (and a writable
  image path) it renders the Pearson correlation matrix of exactly these columns.  For
  an empty dataset it writes nothing and logs the warning about the empty frame.
\<close>

theorem correlation_columns:
  assumes as_list: "\<forall>xs. set (as_list xs) = set xs \<and> distinct (as_list xs)"
      and d: "d = frame w df"
      and av: "av = available_numerical_cols as_list is_numeric_dtype cfg d"
      and png: "png = path_join (FIGURES_DIR cfg) filename"
  shows "set av = (set (NUMERICAL_FEATURES cfg) \<union> set (BOOLEAN_FEATURES cfg)
                     \<union> set additional_numerical_cols)
                  \<inter> set (columns d) \<inter> {c. is_numeric_dtype d c}
       \<and> distinct av
       \<and> (\<not> df_empty d \<and> length av < 2 \<longrightarrow>
            plot_pearson_correlation cfg as_list is_numeric_dtype df filename w
              = (Returned, log_msg WARNING
                   ''Not enough numerical columns available for correlation analysis (need at least 2). Skipping plot.'' w)
          \<and> contains ''need at least 2''
               ''Not enough numerical columns available for correlation analysis (need at least 2). Skipping plot.'')
       \<and> (\<not> df_empty d \<and> 2 \<le> length av \<and> png \<notin> set (unwritable w) \<longrightarrow>
            plot_pearson_correlation cfg as_list is_numeric_dtype df filename w
              = (Returned,
                 w\<lparr>heap := heap w @ [select_columns av d],
                   files := (files w)(png \<mapsto>
                      Image [Heatmap (corr_matrix (select_columns av d)) ''.2f'',
                             Title ''Pearson Correlation Matrix of Numerical Features'',
                             Tight_layout]),
                   logged := logged w @
                      [(INFO, CHR 0x0A # ''--- Calculating Pearson Correlations ---''),
                       (INFO, ''Correlation Matrix:'' @ [CHR 0x0A] @ ''%s''),
                       (INFO, ''Plot saved to: '' @ png)]\<rparr>))
       \<and> (df_empty d \<longrightarrow>
            plot_pearson_correlation cfg as_list is_numeric_dtype df filename w
              = (Returned, log_msg WARNING
                   ''DataFrame is empty, skipping Pearson correlation analysis.'' w))"
proof (intro conjI impI)
  show "set av = (set (NUMERICAL_FEATURES cfg) \<union> set (BOOLEAN_FEATURES cfg)
                     \<union> set additional_numerical_cols)
                  \<inter> set (columns d) \<inter> {c. is_numeric_dtype d c}"
    unfolding av using as_list
    by (auto simp: available_numerical_cols_def all_potential_numerical_cols_def)
  show "distinct av"
    unfolding av using as_list
    by (simp add: available_numerical_cols_def all_potential_numerical_cols_def)
  show "contains ''need at least 2''
               ''Not enough numerical columns available for correlation analysis (need at least 2). Skipping plot.''"
    by simp
next
  assume "\<not> df_empty d \<and> length av < 2"
  then show "plot_pearson_correlation cfg as_list is_numeric_dtype df filename w
              = (Returned, log_msg WARNING
                   ''Not enough numerical columns available for correlation analysis (need at least 2). Skipping plot.'' w)"
    unfolding d av by (simp add: plot_pearson_correlation_def Let_def)
next
  assume "df_empty d"
  then show "plot_pearson_correlation cfg as_list is_numeric_dtype df filename w
              = (Returned, log_msg WARNING
                   ''DataFrame is empty, skipping Pearson correlation analysis.'' w)"
    unfolding d by (simp add: plot_pearson_correlation_def)
next
  assume "\<not> df_empty d \<and> 2 \<le> length av \<and> png \<notin> set (unwritable w)"
  then show "plot_pearson_correlation cfg as_list is_numeric_dtype df filename w
              = (Returned,
                 w\<lparr>heap := heap w @ [select_columns av d],
                   files := (files w)(png \<mapsto>
                      Image [Heatmap (corr_matrix (select_columns av d)) ''.2f'',
                             Title ''Pearson Correlation Matrix of Numerical Features'',
                             Tight_layout]),
                   logged := logged w @
                      [(INFO, CHR 0x0A # ''--- Calculating Pearson Correlations ---''),
                       (INFO, ''Correlation Matrix:'' @ [CHR 0x0A] @ ''%s''),
                       (INFO, ''Plot saved to: '' @ png)]\<rparr>)"
    unfolding d av png
    by (simp add: plot_pearson_correlation_def Let_def new_frame_def log_msg_def render_eq
        frame_def)
qed

theorem correlation_columns_witness:
  "plot_pearson_correlation example_config remdups float_columns 0
     ''pearson_correlation_matrix.png'' (world_of one_comment)
   = (Returned, log_msg WARNING
        ''Not enough numerical columns available for correlation analysis (need at least 2). Skipping plot.''
        (world_of one_comment))
   \<and> set (available_numerical_cols remdups float_columns example_config one_comment)
       = {''comment_score''}"
proof -
  have fr: "frame (world_of one_comment) 0 = one_comment"
    by (simp add: frame_def world_of_def)
  have av: "available_numerical_cols remdups float_columns example_config one_comment
              = [''comment_score'']"
    by (simp add: available_numerical_cols_def all_potential_numerical_cols_def
        additional_numerical_cols_def eval_defs one_comment_def float_columns_def
        holds_strings_def)
  have ne: "\<not> df_empty one_comment" by (simp add: df_empty_def one_comment_def)
  show ?thesis
    using correlation_columns [where w = "world_of one_comment" and df = 0
        and cfg = example_config and filename = "''pearson_correlation_matrix.png''"
        and as_list = remdups and is_numeric_dtype = float_columns,
        OF _ refl refl refl]
    unfolding fr av using ne by simp
qed

section \<open>C7: the bars of the day-of-week chart run from Monday to Sunday\<close>

text \<open>
  C7: a dataset the day-of-week view accepts (the three columns present, a row left
  after the rows with missing values are dropped, time stamps that convert, an
  engagement column of numbers, a writable image path) gets a chart, and the chart is
  the bar plot whose categories are, in this order, Monday, Tuesday, Wednesday,
  Thursday, Friday, Saturday, Sunday, whatever the order of the rows and of the day
  names in the data.  Each event has seven bars, the i-th as high as the mean
  engagement of the rows of that event on the i-th of these days (no bar where there
  is none).
\<close>

theorem day_bars_run_monday_to_sunday:
  assumes cols: "has_columns (frame w df) [time_col, engagement_col, ''event_name'']"
      and F: "F = dropna [time_col, engagement_col, ''event_name''] (frame w df)"
      and data: "rows F \<noteq> []"
      and stamps: "\<not> list_ex (\<lambda>v. to_datetime v = None) (column F time_col)"
      and D: "D = set_column ''day_of_week'' (\<lambda>r. day_cell (cell_at r time_col))
                    (set_column time_col (\<lambda>r. stamp_cell to_datetime (cell_at r time_col)) F)"
      and nums: "\<not> holds_strings D engagement_col"
      and wr: "path_join (FIGURES_DIR cfg) filename \<notin> set (unwritable w)"
      and T: "T = day_table engagement_col D"
  shows "plot_engagement_per_day cfg to_datetime df time_col engagement_col filename w =
           (Returned,
            w\<lparr>heap := heap w @ [F, D],
              files := (files w)(path_join (FIGURES_DIR cfg) filename \<mapsto>
                 Image [Barplot T ''day_of_week'' engagement_col ''event_name'' (Some day_order),
                        Title (''Average '' @ title_case (spaced engagement_col)
                                 @ '' by Day of Week and Event''),
                        Xticks_rotation 20, Tight_layout]),
              logged := logged w @
                 [(INFO, ''Plot saved to: '' @ path_join (FIGURES_DIR cfg) filename)]\<rparr>)
       \<and> bar_categories (Barplot T ''day_of_week'' engagement_col ''event_name''
                            (Some day_order))
           = [Str ''Monday'', Str ''Tuesday'', Str ''Wednesday'', Str ''Thursday'',
              Str ''Friday'', Str ''Saturday'', Str ''Sunday'']
       \<and> (engagement_col \<noteq> ''day_of_week'' \<and> engagement_col \<noteq> ''event_name'' \<longrightarrow>
            bar_heights T ''day_of_week'' engagement_col ''event_name'' (Some day_order)
              = map (\<lambda>h. map (\<lambda>day. mean_of (nums (map (\<lambda>r. cell_at r engagement_col)
                                 (filter (\<lambda>r. cell_at r ''day_of_week'' = Str day
                                              \<and> cell_at r ''event_name'' = h) (rows D)))))
                             [''Monday'', ''Tuesday'', ''Wednesday'', ''Thursday'', ''Friday'',
                              ''Saturday'', ''Sunday''])
                    (categorical_order (column T ''event_name'')))"
proof (intro conjI impI)
  show "plot_engagement_per_day cfg to_datetime df time_col engagement_col filename w =
           (Returned,
            w\<lparr>heap := heap w @ [F, D],
              files := (files w)(path_join (FIGURES_DIR cfg) filename \<mapsto>
                 Image [Barplot T ''day_of_week'' engagement_col ''event_name'' (Some day_order),
                        Title (''Average '' @ title_case (spaced engagement_col)
                                 @ '' by Day of Week and Event''),
                        Xticks_rotation 20, Tight_layout]),
              logged := logged w @
                 [(INFO, ''Plot saved to: '' @ path_join (FIGURES_DIR cfg) filename)]\<rparr>)"
    unfolding T using cols F data stamps D nums wr by (rule engagement_per_day_ok)
  show "bar_categories (Barplot T ''day_of_week'' engagement_col ''event_name''
                            (Some day_order))
           = [Str ''Monday'', Str ''Tuesday'', Str ''Wednesday'', Str ''Thursday'',
              Str ''Friday'', Str ''Saturday'', Str ''Sunday'']"
    by (simp add: bar_categories_def x_categories_def day_order_def)
next
  assume ec: "engagement_col \<noteq> ''day_of_week'' \<and> engagement_col \<noteq> ''event_name''"
  have bar: "mean_of (nums (map (\<lambda>r. cell_at r engagement_col)
               (filter (\<lambda>r. cell_at r ''day_of_week'' = Str day \<and> cell_at r ''event_name'' = h)
                       (rows T))))
             = mean_of (nums (map (\<lambda>r. cell_at r engagement_col)
                 (filter (\<lambda>r. cell_at r ''day_of_week'' = Str day \<and> cell_at r ''event_name'' = h)
                         (rows D))))"
    if "h \<in> set (categorical_order (column T ''event_name''))" for h day
  proof -
    have "h \<noteq> NaN" using that by (rule categorical_order_no_nan)
    then show ?thesis
      unfolding T using ec
      by (simp add: bar_of_day_table key_of_def)
  qed
  show "bar_heights T ''day_of_week'' engagement_col ''event_name'' (Some day_order)
              = map (\<lambda>h. map (\<lambda>day. mean_of (nums (map (\<lambda>r. cell_at r engagement_col)
                                 (filter (\<lambda>r. cell_at r ''day_of_week'' = Str day
                                              \<and> cell_at r ''event_name'' = h) (rows D)))))
                             [''Monday'', ''Tuesday'', ''Wednesday'', ''Thursday'', ''Friday'',
                              ''Saturday'', ''Sunday''])
                    (categorical_order (column T ''event_name''))"
    by (simp add: bar_heights_def x_categories_def day_order_def bar cong: map_cong)
qed

text \<open>
  Three comments in the order Sunday (event A, score 4), Thursday (A, 1), Monday (B, 2):
  the bars of B (met first in the table, on Monday) and of A, each from Monday to Sunday.
\<close>

theorem day_bars_run_monday_to_sunday_witness:
  "(\<exists>T. files (snd (plot_engagement_per_day example_config epoch_seconds 0 ''created_utc''
                      ''comment_score'' ''days.png'' (world_of week_comments))) ''fig/days.png''
          = Some (Image [Barplot T ''day_of_week'' ''comment_score'' ''event_name''
                           (Some day_order),
                         Title ''Average Comment Score by Day of Week and Event'',
                         Xticks_rotation 20, Tight_layout])
      \<and> bar_categories (Barplot T ''day_of_week'' ''comment_score'' ''event_name''
                           (Some day_order))
          = [Str ''Monday'', Str ''Tuesday'', Str ''Wednesday'', Str ''Thursday'',
             Str ''Friday'', Str ''Saturday'', Str ''Sunday'']
      \<and> bar_heights T ''day_of_week'' ''comment_score'' ''event_name'' (Some day_order)
          = [[Num 2, NaN, NaN, NaN, NaN, NaN, NaN],
             [NaN, NaN, NaN, Num 1, NaN, NaN, Num 4]])"
proof -
  let ?D = "\<lparr>columns = [''created_utc'', ''event_name'', ''comment_score'', ''day_of_week''],
              rows = [[(''created_utc'', Num 259200), (''event_name'', Str ''A''),
                       (''comment_score'', Num 4), (''day_of_week'', Str ''Sunday'')],
                      [(''created_utc'', Num 0), (''event_name'', Str ''A''),
                       (''comment_score'', Num 1), (''day_of_week'', Str ''Thursday'')],
                      [(''created_utc'', Num 345600), (''event_name'', Str ''B''),
                       (''comment_score'', Num 2), (''day_of_week'', Str ''Monday'')]]\<rparr>"
  have fr: "frame (world_of week_comments) 0 = week_comments"
    by (simp add: frame_def world_of_def)
  have F: "dropna [''created_utc'', ''comment_score'', ''event_name''] week_comments
             = week_comments"
    by (simp add: dropna_def keeps_def cell_at_def week_comments_def)
  have D: "set_column ''day_of_week'' (\<lambda>r. day_cell (cell_at r ''created_utc''))
             (set_column ''created_utc'' (\<lambda>r. stamp_cell epoch_seconds (cell_at r ''created_utc''))
                week_comments) = ?D"
    by (simp add: set_column_def stamp_cell_def epoch_seconds_def day_cell_def day_name_def
        day_names_def cell_at_def week_comments_def)
  have keys: "group_keys [''day_of_week'', ''event_name''] ?D
                = [[Str ''Monday'', Str ''B''], [Str ''Sunday'', Str ''A''],
                   [Str ''Thursday'', Str ''A'']]"
    by (simp add: group_keys_def key_of_def keeps_def unique_def sort_keys_def cell_at_def)
  have ev: "categorical_order (column (day_table ''comment_score'' ?D) ''event_name'')
              = [Str ''B'', Str ''A'']"
    by (simp add: day_table_def groupby_mean_def keys column_def cell_at_def
        categorical_order_def unique_def)
  have hyp: "has_columns week_comments [''created_utc'', ''comment_score'', ''event_name'']"
    "rows week_comments \<noteq> []"
    "\<not> list_ex (\<lambda>v. epoch_seconds v = None) (column week_comments ''created_utc'')"
    "\<not> holds_strings ?D ''comment_score''"
    by (simp_all add: has_columns_def holds_strings_def column_def cell_at_def
        week_comments_def epoch_seconds_def)
  have wr: "path_join (FIGURES_DIR example_config) ''days.png''
              \<notin> set (unwritable (world_of week_comments))"
    by (simp add: world_of_def)
  note th = day_bars_run_monday_to_sunday [where w = "world_of week_comments" and df = 0
      and time_col = "''created_utc''" and engagement_col = "''comment_score''"
      and to_datetime = epoch_seconds and cfg = example_config and filename = "''days.png''"
      and D = ?D, unfolded fr F, OF hyp(1) refl hyp(2,3) D [symmetric] hyp(4) wr refl]
  show ?thesis
    apply (rule exI [of _ "day_table ''comment_score'' ?D"])
    using th unfolding ev
    by (simp add: example_config_def path_join_def title_defs cell_at_def mean_of_def)
qed

section \<open>C8: no view changes a dataset that exists\<close>

text \<open>
  C8, as stated, fails in its last clause: not every view works on a private filtered
  copy.  The posting-behaviour histogram hands the caller's dataset itself to the
  plotting call.  On the comment whose score is missing it creates no data-frame object
  and the chart is drawn from the dataset as it is.
\<close>

theorem histogram_reads_the_dataset_itself:
  "plot_posting_behavior_hist example_config 0 ''event_name'' ''comment_score'' ''T'' ''h.png''
     (world_of unscored_comment)
   = (Returned,
      (world_of unscored_comment)
        \<lparr>files := [''fig/h.png'' \<mapsto>
            Image [Histplot unscored_comment ''event_name'' (Some ''comment_score'') None False,
                   Title ''T'', Xlabel ''event_name'', Ylabel ''Count'', Tight_layout]],
         logged := [(INFO, ''Plot saved to: fig/h.png'')]\<rparr>)
   \<and> heap (snd (plot_posting_behavior_hist example_config 0 ''event_name'' ''comment_score''
                  ''T'' ''h.png'' (world_of unscored_comment))) = [unscored_comment]"
  by (simp add: plot_posting_behavior_hist_def render_eq eval_defs unscored_comment_def)

text \<open>
  C8, amended: no view changes a data-frame object that exists when it is called, the
  dataset it is given included: after the call, whether it returned or raised, every
  column and every cell of that object is as before.  Not every view takes a copy: the
  posting-behaviour histogram, given a dataset that is not empty and has its two
  columns (and a writable image path), creates no data-frame object and plots the
  dataset it is given as it is.
\<close>

theorem views_keep_the_dataset:
  assumes d: "d < length (heap w)"
  shows "frame (snd (plot_average_metric_by_time_and_event cfg df metric prefix
                   title y_label w)) d
           = frame w d
       \<and> frame (snd (plot_metric_by_event_and_type cfg df metric title filename
                   sel w)) d
           = frame w d
       \<and> frame (snd (plot_feature_distribution cfg gaussian_kde df feature title
                   x_label bins prefix w)) d
           = frame w d
       \<and> frame (snd (plot_distribution_comparison cfg df feature title y_label
                   prefix plot_type w)) d
           = frame w d
       \<and> frame (snd (plot_posting_behavior_hist cfg df x_label hue_label title
                   filename w)) d
           = frame w d
       \<and> frame (snd (plot_posting_behavior_heatmap cfg df title filename w)) d
           = frame w d
       \<and> frame (snd (plot_score_development cfg df x_label y_label hue_label title
                   filename w)) d
           = frame w d
       \<and> frame (snd (plot_pearson_correlation cfg as_list is_numeric_dtype df
                   filename w)) d
           = frame w d
       \<and> frame (snd (plot_eventwise_heatmap cfg df index_col value_col title
                   filename w)) d
           = frame w d
       \<and> frame (snd (plot_boxplot_with_stats cfg df x y hue title filename w)) d
           = frame w d
       \<and> frame (snd (plot_event_keyword_distribution cfg df keyword_col title
                   filename w)) d
           = frame w d
       \<and> frame (snd (plot_dual_distribution cfg df feature1 feature2 title
                   filename w)) d
           = frame w d
       \<and> frame (snd (plot_keyword_score_heatmap cfg df keyword_col score_col
                   filename title w)) d
           = frame w d
       \<and> frame (snd (plot_engagement_per_day cfg to_datetime df time_col
                   engagement_col filename w)) d
           = frame w d
       \<and> (\<not> df_empty (frame w df) \<and> x_label \<in> set (columns (frame w df))
        \<and> hue_label \<in> set (columns (frame w df))
        \<and> path_join (FIGURES_DIR cfg) filename \<notin> set (unwritable w) \<longrightarrow>
          plot_posting_behavior_hist cfg df x_label hue_label title filename w
            = (Returned,
               w\<lparr>files := (files w)(path_join (FIGURES_DIR cfg) filename \<mapsto>
                     Image [Histplot (frame w df) x_label (Some hue_label) None False,
                            Title title, Xlabel x_label, Ylabel ''Count'', Tight_layout]),
                 logged := logged w @
                     [(INFO, ''Plot saved to: '' @ path_join (FIGURES_DIR cfg) filename)]\<rparr>))"
proof -
  note k = kept_frame [OF _ d]
  show ?thesis
    by (intro conjI impI k kf_average kf_by_type kf_feature kf_comparison kf_hist kf_heatmap
        kf_development kf_pearson kf_eventwise kf_boxplot kf_keyword kf_dual
        kf_keyword_score kf_per_day)
      (simp add: plot_posting_behavior_hist_def render_eq)
qed

text \<open>
  The day-of-week view assigns two columns, on its copy: the dataset of the three
  comments is as before.
\<close>

theorem views_keep_the_dataset_witness:
  "frame (snd (plot_engagement_per_day example_config epoch_seconds 0 ''created_utc''
                 ''comment_score'' ''days.png'' (world_of week_comments))) 0 = week_comments
   \<and> plot_posting_behavior_hist example_config 0 ''event_name'' ''event_name'' ''T'' ''h.png''
       (world_of week_comments)
     = (Returned,
        (world_of week_comments)
          \<lparr>files := [''fig/h.png'' \<mapsto>
              Image [Histplot week_comments ''event_name'' (Some ''event_name'') None False,
                     Title ''T'', Xlabel ''event_name'', Ylabel ''Count'', Tight_layout]],
           logged := [(INFO, ''Plot saved to: fig/h.png'')]\<rparr>)"
proof -
  have fr: "frame (world_of week_comments) 0 = week_comments"
    by (simp add: frame_def world_of_def)
  have d: "0 < length (heap (world_of week_comments))" by (simp add: world_of_def)
  note th = views_keep_the_dataset [where w = "world_of week_comments" and d = 0
      and df = 0 and cfg = example_config and to_datetime = epoch_seconds
      and time_col = "''created_utc''" and engagement_col = "''comment_score''"
      and filename = "''h.png''" and x_label = "''event_name''"
      and hue_label = "''event_name''" and title = "''T''", OF d, unfolded fr]
  note th2 = views_keep_the_dataset [where w = "world_of week_comments" and d = 0
      and df = 0 and cfg = example_config and to_datetime = epoch_seconds
      and time_col = "''created_utc''" and engagement_col = "''comment_score''"
      and filename = "''days.png''", OF d, unfolded fr]
  have 1: "frame (snd (plot_engagement_per_day example_config epoch_seconds 0 ''created_utc''
                 ''comment_score'' ''days.png'' (world_of week_comments))) 0 = week_comments"
    using th2 [THEN conjunct2, THEN conjunct2, THEN conjunct2, THEN conjunct2, THEN conjunct2,
        THEN conjunct2, THEN conjunct2, THEN conjunct2, THEN conjunct2, THEN conjunct2,
        THEN conjunct2, THEN conjunct2, THEN conjunct2, THEN conjunct1] .
  have 2: "plot_posting_behavior_hist example_config 0 ''event_name'' ''event_name'' ''T'' ''h.png''
       (world_of week_comments)
     = (Returned,
        (world_of week_comments)
          \<lparr>files := [''fig/h.png'' \<mapsto>
              Image [Histplot week_comments ''event_name'' (Some ''event_name'') None False,
                     Title ''T'', Xlabel ''event_name'', Ylabel ''Count'', Tight_layout]],
           logged := [(INFO, ''Plot saved to: fig/h.png'')]\<rparr>)"
    using th [THEN conjunct2, THEN conjunct2, THEN conjunct2, THEN conjunct2, THEN conjunct2,
        THEN conjunct2, THEN conjunct2, THEN conjunct2, THEN conjunct2, THEN conjunct2,
        THEN conjunct2, THEN conjunct2, THEN conjunct2, THEN conjunct2]
    by (simp add: eval_defs week_comments_def)
  show ?thesis using 1 2 by simp
qed

section \<open>C9: a view that returns has closed its figure\<close>

text \<open>
  C9, as stated, fails when the image cannot be written: \<^verbatim>\<open>save_plot\<close> closes the
  figure after \<^verbatim>\<open>savefig\<close> and without a \<^verbatim>\<open>try\<close>, so the exception leaves the view
  before the close is reached.  With an image path that cannot be written, the
  posting-behaviour histogram raises and its figure stays open.
\<close>

theorem figure_stays_open_when_write_fails:
  "open_figs (read_only_world one_comment) = []
   \<and> plot_posting_behavior_hist example_config 0 ''event_name'' ''event_name'' ''T''
       ''chart.png'' (read_only_world one_comment)
     = (Raised OSError,
        (read_only_world one_comment)
          \<lparr>open_figs :=
             [(1, [Histplot one_comment ''event_name'' (Some ''event_name'') None False,
                   Title ''T'', Xlabel ''event_name'', Ylabel ''Count'', Tight_layout])]\<rparr>)"
  by (simp add: plot_posting_behavior_hist_def render_eq read_only_world_def fresh_fig_def
      example_config_def has_columns_def frame_def path_join_def df_empty_def one_comment_def)

text \<open>
  C9, amended: every view call that returns normally leaves the open figures as they
  were before the call, so the figure it created has been closed.  \<^verbatim>\<open>save_plot\<close> closes
  the figure right after the image is written; when the image cannot be written it
  raises with the figure still open.  So the posting-behaviour histogram, given a
  dataset that is not empty and has its two columns, returns with the image written
  and no figure of its own open when the image path is writable, and raises with its
  figure left open when it is not.
\<close>

theorem returning_views_close_their_figures:
  "(fst (plot_average_metric_by_time_and_event cfg df metric prefix title
           y_label w)
        = Returned \<longrightarrow>
      open_figs (snd (plot_average_metric_by_time_and_event cfg df metric
                       prefix title y_label w))
        = open_figs w)
   \<and> (fst (plot_metric_by_event_and_type cfg df metric title filename sel w)
        = Returned \<longrightarrow>
      open_figs (snd (plot_metric_by_event_and_type cfg df metric title
                       filename sel w))
        = open_figs w)
   \<and> (fst (plot_feature_distribution cfg gaussian_kde df feature title x_label
           bins prefix w)
        = Returned \<longrightarrow>
      open_figs (snd (plot_feature_distribution cfg gaussian_kde df feature
                       title x_label bins prefix w))
        = open_figs w)
   \<and> (fst (plot_distribution_comparison cfg df feature title y_label prefix
           plot_type w)
        = Returned \<longrightarrow>
      open_figs (snd (plot_distribution_comparison cfg df feature title y_label
                       prefix plot_type w))
        = open_figs w)
   \<and> (fst (plot_posting_behavior_hist cfg df x_label hue_label title filename w)
        = Returned \<longrightarrow>
      open_figs (snd (plot_posting_behavior_hist cfg df x_label hue_label title
                       filename w))
        = open_figs w)
   \<and> (fst (plot_posting_behavior_heatmap cfg df title filename w)
        = Returned \<longrightarrow>
      open_figs (snd (plot_posting_behavior_heatmap cfg df title filename w))
        = open_figs w)
   \<and> (fst (plot_score_development cfg df x_label y_label hue_label title
           filename w)
        = Returned \<longrightarrow>
      open_figs (snd (plot_score_development cfg df x_label y_label hue_label
                       title filename w))
        = open_figs w)
   \<and> (fst (plot_pearson_correlation cfg as_list is_numeric_dtype df filename w)
        = Returned \<longrightarrow>
      open_figs (snd (plot_pearson_correlation cfg as_list is_numeric_dtype df
                       filename w))
        = open_figs w)
   \<and> (fst (plot_eventwise_heatmap cfg df index_col value_col title filename w)
        = Returned \<longrightarrow>
      open_figs (snd (plot_eventwise_heatmap cfg df index_col value_col title
                       filename w))
        = open_figs w)
   \<and> (fst (plot_boxplot_with_stats cfg df x y hue title filename w)
        = Returned \<longrightarrow>
      open_figs (snd (plot_boxplot_with_stats cfg df x y hue title filename w))
        = open_figs w)
   \<and> (fst (plot_event_keyword_distribution cfg df keyword_col title filename w)
        = Returned \<longrightarrow>
      open_figs (snd (plot_event_keyword_distribution cfg df keyword_col title
                       filename w))
        = open_figs w)
   \<and> (fst (plot_dual_distribution cfg df feature1 feature2 title filename w)
        = Returned \<longrightarrow>
      open_figs (snd (plot_dual_distribution cfg df feature1 feature2 title
                       filename w))
        = open_figs w)
   \<and> (fst (plot_keyword_score_heatmap cfg df keyword_col score_col filename
           title w)
        = Returned \<longrightarrow>
      open_figs (snd (plot_keyword_score_heatmap cfg df keyword_col score_col
                       filename title w))
        = open_figs w)
   \<and> (fst (plot_engagement_per_day cfg to_datetime df time_col engagement_col
           filename w)
        = Returned \<longrightarrow>
      open_figs (snd (plot_engagement_per_day cfg to_datetime df time_col
                       engagement_col filename w))
        = open_figs w)
   \<and> (\<not> df_empty (frame w df) \<and> x_label \<in> set (columns (frame w df))
        \<and> hue_label \<in> set (columns (frame w df))
        \<and> path_join (FIGURES_DIR cfg) filename \<notin> set (unwritable w) \<longrightarrow>
          plot_posting_behavior_hist cfg df x_label hue_label title filename w
            = (Returned,
               w\<lparr>files := (files w)(path_join (FIGURES_DIR cfg) filename \<mapsto>
                     Image [Histplot (frame w df) x_label (Some hue_label) None False,
                            Title title, Xlabel x_label, Ylabel ''Count'', Tight_layout]),
                 logged := logged w @
                     [(INFO, ''Plot saved to: '' @ path_join (FIGURES_DIR cfg) filename)]\<rparr>))
   \<and> (\<not> df_empty (frame w df) \<and> x_label \<in> set (columns (frame w df))
        \<and> hue_label \<in> set (columns (frame w df))
        \<and> path_join (FIGURES_DIR cfg) filename \<in> set (unwritable w) \<longrightarrow>
          plot_posting_behavior_hist cfg df x_label hue_label title filename w
            = (Raised OSError,
               w\<lparr>open_figs := open_figs w @
                     [(fresh_fig (open_figs w),
                       [Histplot (frame w df) x_label (Some hue_label) None False,
                        Title title, Xlabel x_label, Ylabel ''Count'', Tight_layout])]\<rparr>))
   \<and> (path_join (FIGURES_DIR cfg) filename \<notin> set (unwritable w) \<longrightarrow>
        save_plot cfg fig filename w
          = (Returned,
             w\<lparr>open_figs := filter (\<lambda>f. fst f \<noteq> fig) (open_figs w),
               files := (files w)(path_join (FIGURES_DIR cfg) filename \<mapsto>
                                    Image (fig_content w fig)),
               logged := logged w @
                  [(INFO, ''Plot saved to: '' @ path_join (FIGURES_DIR cfg) filename)]\<rparr>))
   \<and> (path_join (FIGURES_DIR cfg) filename \<in> set (unwritable w) \<longrightarrow>
        save_plot cfg fig filename w = (Raised OSError, w))"
proof -
  have s1: "save_plot cfg fig filename w
          = (Returned,
             w\<lparr>open_figs := filter (\<lambda>f. fst f \<noteq> fig) (open_figs w),
               files := (files w)(path_join (FIGURES_DIR cfg) filename \<mapsto>
                                    Image (fig_content w fig)),
               logged := logged w @
                  [(INFO, ''Plot saved to: '' @ path_join (FIGURES_DIR cfg) filename)]\<rparr>)"
    if "path_join (FIGURES_DIR cfg) filename \<notin> set (unwritable w)"
    using that
    by (simp add: save_plot_def seq_def write_file_def log_msg_def plt_close_def Let_def)
  have s2: "save_plot cfg fig filename w = (Raised OSError, w)"
    if "path_join (FIGURES_DIR cfg) filename \<in> set (unwritable w)"
    using that by (simp add: save_plot_def seq_def write_file_def Let_def)
  have h1: "(\<not> df_empty (frame w df) \<and> x_label \<in> set (columns (frame w df))
        \<and> hue_label \<in> set (columns (frame w df))
        \<and> path_join (FIGURES_DIR cfg) filename \<notin> set (unwritable w) \<longrightarrow>
          plot_posting_behavior_hist cfg df x_label hue_label title filename w
            = (Returned,
               w\<lparr>files := (files w)(path_join (FIGURES_DIR cfg) filename \<mapsto>
                     Image [Histplot (frame w df) x_label (Some hue_label) None False,
                            Title title, Xlabel x_label, Ylabel ''Count'', Tight_layout]),
                 logged := logged w @
                     [(INFO, ''Plot saved to: '' @ path_join (FIGURES_DIR cfg) filename)]\<rparr>))"
    by (simp add: plot_posting_behavior_hist_def render_eq)
  have h2: "(\<not> df_empty (frame w df) \<and> x_label \<in> set (columns (frame w df))
        \<and> hue_label \<in> set (columns (frame w df))
        \<and> path_join (FIGURES_DIR cfg) filename \<in> set (unwritable w) \<longrightarrow>
          plot_posting_behavior_hist cfg df x_label hue_label title filename w
            = (Raised OSError,
               w\<lparr>open_figs := open_figs w @
                     [(fresh_fig (open_figs w),
                       [Histplot (frame w df) x_label (Some hue_label) None False,
                        Title title, Xlabel x_label, Ylabel ''Count'', Tight_layout])]\<rparr>))"
    by (simp add: plot_posting_behavior_hist_def render_eq)
  show ?thesis
    by (intro conjI closed_on_return [OF cf_average] closed_on_return [OF cf_by_type]
        closed_on_return [OF cf_feature] closed_on_return [OF cf_comparison]
        closed_on_return [OF cf_hist] closed_on_return [OF cf_heatmap]
        closed_on_return [OF cf_development] closed_on_return [OF cf_pearson]
        closed_on_return [OF cf_eventwise] closed_on_return [OF cf_boxplot]
        closed_on_return [OF cf_keyword] closed_on_return [OF cf_dual]
        closed_on_return [OF cf_keyword_score] closed_on_return [OF cf_per_day])
      (use s1 s2 h1 h2 in blast)+
qed

text \<open>
  The histogram of the three comments returns: no figure is open afterwards.
\<close>

theorem returning_views_close_their_figures_witness:
  "fst (plot_posting_behavior_hist example_config 0 ''event_name'' ''event_name'' ''T''
          ''h.png'' (world_of week_comments)) = Returned
   \<and> open_figs (snd (plot_posting_behavior_hist example_config 0 ''event_name'' ''event_name''
                       ''T'' ''h.png'' (world_of week_comments))) = []"
proof -
  have r: "fst (plot_posting_behavior_hist example_config 0 ''event_name'' ''event_name'' ''T''
          ''h.png'' (world_of week_comments)) = Returned"
    by (simp add: plot_posting_behavior_hist_def render_eq eval_defs week_comments_def)
  have o: "open_figs (world_of week_comments) = []" by (simp add: world_of_def)
  note th = returning_views_close_their_figures [where w = "world_of week_comments"
      and df = 0 and cfg = example_config and filename = "''h.png''"
      and x_label = "''event_name''" and hue_label = "''event_name''" and title = "''T''"]
  show ?thesis
    using th [THEN conjunct2, THEN conjunct2, THEN conjunct2, THEN conjunct2, THEN conjunct1] r o by simp
qed

section \<open>C10: the text report of the type view is named after the metric only\<close>

lemma path_join_relative:
  "f = [] \<or> hd f \<noteq> CHR ''/'' \<Longrightarrow>
   path_join d f = (if d = [] \<or> last d = CHR ''/'' then d @ f else d @ ''/'' @ f)"
  by (auto simp: path_join_def)

lemma path_join_distinct:
  assumes "f1 \<noteq> f2" "f1 = [] \<or> hd f1 \<noteq> CHR ''/''" "f2 = [] \<or> hd f2 \<noteq> CHR ''/''"
  shows "path_join d f1 \<noteq> path_join d f2"
  using assms(1) by (simp add: path_join_relative [OF assms(2)] path_join_relative [OF assms(3)])

text \<open>
  C10: the view writes its table to \<open><metric>_by_post_type_and_event.txt\<close> in the report
  directory, whatever its file name argument and its list of selected types.  So two
  calls for the same metric that both get to write (columns present, rows left after
  the filters, a metric of numbers, writable paths), with two different relative file
  names for the charts, leave one text file, holding the table of the second call, and
  two chart images at different paths.
\<close>

theorem type_view_text_path_depends_on_metric_only:
  assumes df: "df < length (heap w)"
      and cols: "has_columns (frame w df) [metric, ''event_name'', ''post_type'']"
      and F1: "F1 = type_filtered sel1 (dropna [metric, ''event_name'', ''post_type''] (frame w df))"
      and F2: "F2 = type_filtered sel2 (dropna [metric, ''event_name'', ''post_type''] (frame w df))"
      and data: "rows F1 \<noteq> []" "rows F2 \<noteq> []"
      and nums: "\<not> holds_strings F1 metric" "\<not> holds_strings F2 metric"
      and rp: "txt = path_join (REPORTS_DIR cfg) (metric @ ''_by_post_type_and_event.txt'')"
      and wr: "txt \<notin> set (unwritable w)" "path_join (FIGURES_DIR cfg) file1 \<notin> set (unwritable w)"
              "path_join (FIGURES_DIR cfg) file2 \<notin> set (unwritable w)"
      and names: "file1 \<noteq> file2" "file1 = [] \<or> hd file1 \<noteq> CHR ''/''"
                 "file2 = [] \<or> hd file2 \<noteq> CHR ''/''"
      and apart: "txt \<noteq> path_join (FIGURES_DIR cfg) file1" "txt \<noteq> path_join (FIGURES_DIR cfg) file2"
      and w': "w' = snd (seq (plot_metric_by_event_and_type cfg df metric title1 file1 sel1)
                           (plot_metric_by_event_and_type cfg df metric title2 file2 sel2) w)"
  shows "files w' txt = Some (Text (text_header (title_case (spaced metric)
                                                   @ '' by Post Type and Event''))
                                (type_event_table metric F2))
       \<and> (\<exists>arts. files w' (path_join (FIGURES_DIR cfg) file1)
                    = Some (Image (Barplot (type_event_table metric F1) ''post_type'' ''mean''
                                     ''event_name'' None # arts)))
       \<and> (\<exists>arts. files w' (path_join (FIGURES_DIR cfg) file2)
                    = Some (Image (Barplot (type_event_table metric F2) ''post_type'' ''mean''
                                     ''event_name'' None # arts)))
       \<and> path_join (FIGURES_DIR cfg) file1 \<noteq> path_join (FIGURES_DIR cfg) file2
       \<and> (\<forall>p. files w' p \<noteq> files w p \<longrightarrow>
              p = txt \<or> p = path_join (FIGURES_DIR cfg) file1
            \<or> p = path_join (FIGURES_DIR cfg) file2)"
proof -
  let ?png1 = "path_join (FIGURES_DIR cfg) file1" and ?png2 = "path_join (FIGURES_DIR cfg) file2"
  have pngs: "?png1 \<noteq> ?png2" using names by (rule path_join_distinct)
  from plot_metric_by_type_ok [OF cols F1 data(1) nums(1) wr(1) [unfolded rp] wr(2), folded rp,
      of title1]
  obtain h1 where c1: "plot_metric_by_event_and_type cfg df metric title1 file1 sel1 w =
       (Returned, w\<lparr>heap := heap w @ h1,
           files := (files w)(txt \<mapsto> Text (text_header (title_case (spaced metric)
                                                  @ '' by Post Type and Event''))
                                      (type_event_table metric F1),
              ?png1 \<mapsto> Image ([Barplot (type_event_table metric F1) ''post_type'' ''mean''
                                  ''event_name'' None, Title title1,
                    Ylabel (''Mean '' @ title_case (spaced metric)), Xticks_rotation 20,
                    Legend (Some ''Event''), Tight_layout]
                   @ annotations (type_event_table metric F1) ''post_type'' ''mean''
                       ''event_name'' None)),
           logged := logged w @ [(INFO, ''Table data saved to: '' @ txt),
                                 (INFO, ''Plot saved to: '' @ ?png1)]\<rparr>)"
      (is "_ = (Returned, ?w1)")
    by blast
  have fr: "frame ?w1 df = frame w df" using df by (simp add: frame_def nth_append)
  have cols1: "has_columns (frame ?w1 df) [metric, ''event_name'', ''post_type'']"
    using cols unfolding fr .
  have F2': "F2 = type_filtered sel2 (dropna [metric, ''event_name'', ''post_type''] (frame ?w1 df))"
    using F2 unfolding fr .
  have wr1: "path_join (REPORTS_DIR cfg) (metric @ ''_by_post_type_and_event.txt'')
               \<notin> set (unwritable ?w1)" "?png2 \<notin> set (unwritable ?w1)"
    using wr rp by simp_all
  from plot_metric_by_type_ok [OF cols1 F2' data(2) nums(2) wr1, folded rp, of title2]
  obtain h2 where c2: "plot_metric_by_event_and_type cfg df metric title2 file2 sel2 ?w1 =
       (Returned, ?w1\<lparr>heap := heap ?w1 @ h2,
           files := (files ?w1)(txt \<mapsto> Text (text_header (title_case (spaced metric)
                                                  @ '' by Post Type and Event''))
                                      (type_event_table metric F2),
              ?png2 \<mapsto> Image ([Barplot (type_event_table metric F2) ''post_type'' ''mean''
                                  ''event_name'' None, Title title2,
                    Ylabel (''Mean '' @ title_case (spaced metric)), Xticks_rotation 20,
                    Legend (Some ''Event''), Tight_layout]
                   @ annotations (type_event_table metric F2) ''post_type'' ''mean''
                       ''event_name'' None)),
           logged := logged ?w1 @ [(INFO, ''Table data saved to: '' @ txt),
                                   (INFO, ''Plot saved to: '' @ ?png2)]\<rparr>)"
    by blast
  have fs: "files w' = (files w)
      (txt \<mapsto> Text (text_header (title_case (spaced metric) @ '' by Post Type and Event''))
                 (type_event_table metric F2),
       ?png1 \<mapsto> Image ([Barplot (type_event_table metric F1) ''post_type'' ''mean''
                                  ''event_name'' None, Title title1,
                    Ylabel (''Mean '' @ title_case (spaced metric)), Xticks_rotation 20,
                    Legend (Some ''Event''), Tight_layout]
                   @ annotations (type_event_table metric F1) ''post_type'' ''mean''
                       ''event_name'' None),
       ?png2 \<mapsto> Image ([Barplot (type_event_table metric F2) ''post_type'' ''mean''
                                  ''event_name'' None, Title title2,
                    Ylabel (''Mean '' @ title_case (spaced metric)), Xticks_rotation 20,
                    Legend (Some ''Event''), Tight_layout]
                   @ annotations (type_event_table metric F2) ''post_type'' ''mean''
                       ''event_name'' None))"
  proof -
    have "w' = snd (plot_metric_by_event_and_type cfg df metric title2 file2 sel2 ?w1)"
      unfolding w' by (simp only: seq_def c1 prod.case outcome.case)
    then show ?thesis
      unfolding c2 using apart pngs by (simp add: fun_upd_twist)
  qed
  show ?thesis
    unfolding fs using apart pngs by simp
qed

theorem type_view_text_path_depends_on_metric_only_witness:
  "files (snd (seq (plot_metric_by_event_and_type example_config 0 ''word_count''
                      ''Average Word Count by Post Type and Event''
                      ''avg_word_count_by_post_type.png'' None)
                   (plot_metric_by_event_and_type example_config 0 ''word_count''
                      ''Average Word Count by Selected Post Types and Event''
                      ''filtered_avg_word_count_by_post_type_and_event.png''
                      (Some [Str ''Player Transfer'', Str ''Other'', Str ''Tournament Result'',
                             Str ''Ranking Update'']))
                   (world_of two_posts)))
         ''rep/word_count_by_post_type_and_event.txt''
     = Some (Text (text_header ''Word Count by Post Type and Event'')
               (type_event_table ''word_count''
                  \<lparr>columns = [''event_name'', ''post_type'', ''word_count''],
                   rows = [[(''event_name'', Str ''A''), (''post_type'', Str ''Other''),
                            (''word_count'', Num 12)]]\<rparr>))"
proof -
  have fr: "frame (world_of two_posts) 0 = two_posts" by (simp add: frame_def world_of_def)
  have d: "dropna [''word_count'', ''event_name'', ''post_type''] two_posts = two_posts"
    by (simp add: dropna_def keeps_def cell_at_def two_posts_def)
  have f1: "type_filtered None two_posts = two_posts" by (simp add: type_filtered_def)
  have f2: "type_filtered (Some [Str ''Player Transfer'', Str ''Other'', Str ''Tournament Result'',
                             Str ''Ranking Update'']) two_posts
            = \<lparr>columns = [''event_name'', ''post_type'', ''word_count''],
                   rows = [[(''event_name'', Str ''A''), (''post_type'', Str ''Other''),
                            (''word_count'', Num 12)]]\<rparr>"
    by (simp add: type_filtered_def isin_rows_def cell_at_def two_posts_def)
  have hyp: "has_columns two_posts [''word_count'', ''event_name'', ''post_type'']"
    "rows two_posts \<noteq> []" "\<not> holds_strings two_posts ''word_count''"
    by (simp_all add: has_columns_def holds_strings_def column_def cell_at_def two_posts_def)
  have wr: "unwritable (world_of two_posts) = []" "REPORTS_DIR example_config = ''rep''"
    "FIGURES_DIR example_config = ''fig''" "length (heap (world_of two_posts)) = 1"
    by (simp_all add: world_of_def example_config_def)
  show ?thesis
    using type_view_text_path_depends_on_metric_only [where w = "world_of two_posts" and df = 0
        and metric = "''word_count''" and cfg = example_config and ?sel1.0 = None
        and ?sel2.0 = "Some [Str ''Player Transfer'', Str ''Other'', Str ''Tournament Result'',
                             Str ''Ranking Update'']"
        and ?file1.0 = "''avg_word_count_by_post_type.png''"
        and ?file2.0 = "''filtered_avg_word_count_by_post_type_and_event.png''"
        and ?title1.0 = "''Average Word Count by Post Type and Event''"
        and ?title2.0 = "''Average Word Count by Selected Post Types and Event''",
        OF _ _ refl refl _ _ _ _ refl _ _ _ _ _ _ _ _ refl]
    unfolding fr d f1 f2 wr
    using hyp by (simp add: path_join_def holds_strings_def column_def cell_at_def title_defs)
qed

end
